theory Spec2Isabelle
  imports Main "HOL-Library.Sublist" "HOL-Library.Monad_Syntax"
begin

section \<open>Tokens\<close>

text \<open>The token kinds of the lexer that the parser inspects (\<^verbatim>\<open>clang::tok::TokenKind\<close>);
  every other kind of the lexer is \<open>tok_other\<close>.\<close>

datatype TokenKind =
    tok_unknown | tok_eof | tok_identifier | tok_numeric_constant
  | tok_l_paren | tok_r_paren | tok_l_square | tok_r_square
  | tok_period | tok_arrow | tok_plusplus | tok_minusminus
  | tok_star | tok_amp | tok_plus | tok_minus | tok_exclaim | tok_tilde
  | tok_slash | tok_percent | tok_lessless | tok_greatergreater
  | tok_less | tok_greater | tok_lessequal | tok_greaterequal
  | tok_equalequal | tok_exclaimequal | tok_caret | tok_pipe
  | tok_ampamp | tok_pipepipe | tok_question | tok_colon | tok_coloncolon
  | tok_comma | kw_true | kw_false | kw_nullptr | kw_this
  | kw_const | kw_volatile
  | kw_char | kw_char16_t | kw_char32_t | kw_wchar_t | kw_bool | kw_short
  | kw_int | kw_long | kw_signed | kw_unsigned | kw_float | kw_double | kw_void
  | tok_other nat

section \<open>Type declarations and their textual form\<close>

text \<open>\<^verbatim>\<open>StringReplace\<close> looks the old value up with \<^verbatim>\<open>std::string::find\<close>
  (the position of the leftmost occurrence, or \<^verbatim>\<open>npos\<close>) and replaces that one occurrence.\<close>

fun str_find :: "string \<Rightarrow> string \<Rightarrow> nat option" where
  "str_find [] old_value = (if old_value = [] then Some 0 else None)"
| "str_find (c # cs) old_value =
     (if prefix old_value (c # cs) then Some 0
      else map_option Suc (str_find cs old_value))"

definition str_replace :: "string \<Rightarrow> nat \<Rightarrow> nat \<Rightarrow> string \<Rightarrow> string" where
  "str_replace str p len new_value = take p str @ new_value @ drop (p + len) str"

definition StringReplace :: "string \<Rightarrow> string \<Rightarrow> string \<Rightarrow> string" where
  "StringReplace str old_value new_value =
     (case str_find str old_value of
        None \<Rightarrow> str
      | Some p \<Rightarrow> str_replace str p (length old_value) new_value)"

text \<open>\<^verbatim>\<open>llvm::formatv("{0:$[sep]}", range)\<close>: the elements joined by the separator.\<close>

fun join_range :: "string \<Rightarrow> string list \<Rightarrow> string" where
  "join_range sep [] = []"
| "join_range sep [x] = x"
| "join_range sep (x # y # ys) = x @ sep @ join_range sep (y # ys)"

record TypeDeclaration =
  typenames :: "string list"
  ptr_operators :: "TokenKind list"

definition IsValid :: "TypeDeclaration \<Rightarrow> bool" where
  "IsValid td = (typenames td \<noteq> [])"

definition GetBaseName :: "TypeDeclaration \<Rightarrow> string" where
  "GetBaseName td =
     (let base_name = join_range '' '' (typenames td);
          base_name = StringReplace base_name ''short int'' ''short'';
          base_name = StringReplace base_name ''long int'' ''long''
      in base_name)"

text \<open>The loop of \<^verbatim>\<open>GetName\<close> over the pointer operators, appending to the name.\<close>

fun append_ptr_operators :: "string \<Rightarrow> TokenKind list \<Rightarrow> string" where
  "append_ptr_operators name [] = name"
| "append_ptr_operators name (tk # tks) =
     (if tk = tok_star then append_ptr_operators (name @ ''*'') tks
      else if tk = tok_amp then append_ptr_operators (name @ ''&'') tks
      else append_ptr_operators name tks)"

definition GetName :: "TypeDeclaration \<Rightarrow> string" where
  "GetName td =
     (let name = GetBaseName td;
          name = (if length (ptr_operators td) > 0 then name @ '' '' else name)
      in append_ptr_operators name (ptr_operators td))"

section \<open>The numeric literal typer\<close>

text \<open>What the parser reads off \<^verbatim>\<open>clang::NumericLiteralParser\<close>: the flags of the literal, its
  radix, the magnitude of an integer literal, and for a floating literal the status of the
  conversion and whether the converted value is zero.\<close>

record NumericLiteral =
  hadError :: bool
  isFloatingLiteral :: bool
  isIntegerLiteral :: bool
  isUnsigned :: bool
  isLong :: bool
  isLongLong :: bool
  isFloat :: bool
  getRadix :: nat
  integer_value :: nat
  float_overflow :: bool
  float_underflow :: bool
  float_is_zero :: bool

text \<open>\<^verbatim>\<open>type_width<T>()\<close> for the integer types the typer consults; the widths are those of
  the platform the parser is built for, so they are a parameter here.\<close>

record TypeWidths =
  int_size :: nat
  long_size :: nat
  long_long_size :: nat
  uintmax_size :: nat

datatype BasicType =
    eBasicTypeInt | eBasicTypeUnsignedInt
  | eBasicTypeLong | eBasicTypeUnsignedLong
  | eBasicTypeLongLong | eBasicTypeUnsignedLongLong
  | eBasicTypeFloat | eBasicTypeDouble

text \<open>\<^verbatim>\<open>llvm::APInt::isIntN(N)\<close>: the value is representable in \<open>N\<close> bits.\<close>

definition isIntN :: "nat \<Rightarrow> nat \<Rightarrow> bool" where
  "isIntN v N = (v < 2 ^ N)"

definition PickIntegerType :: "TypeWidths \<Rightarrow> NumericLiteral \<Rightarrow> nat \<Rightarrow> BasicType" where
  "PickIntegerType w literal v =
     (let unsigned_is_allowed = (isUnsigned literal \<or> getRadix literal \<noteq> 10);
          fallback = eBasicTypeUnsignedLongLong;
          try_long_long =
            (if isIntN v (long_long_size w) then
               (if \<not> isUnsigned literal \<and> isIntN v (long_long_size w - 1) then eBasicTypeLongLong
                else if unsigned_is_allowed then eBasicTypeUnsignedLongLong
                else fallback)
             else fallback);
          try_long =
            (if \<not> isLongLong literal \<and> isIntN v (long_size w) then
               (if \<not> isUnsigned literal \<and> isIntN v (long_size w - 1) then eBasicTypeLong
                else if unsigned_is_allowed then eBasicTypeUnsignedLong
                else try_long_long)
             else try_long_long)
      in if \<not> isLong literal \<and> \<not> isLongLong literal \<and> isIntN v (int_size w) then
           (if \<not> isUnsigned literal \<and> isIntN v (int_size w - 1) then eBasicTypeInt
            else if unsigned_is_allowed then eBasicTypeUnsignedInt
            else try_long)
         else try_long)"

section \<open>The parser state\<close>

record Token =
  kind :: TokenKind
  spelling :: string
  location :: nat

datatype ErrorCode =
    kUnknown | kInvalidExpressionSyntax | kInvalidNumericLiteral
  | kInvalidOperandType | kUndeclaredIdentifier | kNotImplemented

text \<open>A type of the debugger: what \<^verbatim>\<open>ResolveTypeByName\<close> finds for a name, and the pointer
  and reference types built over it by \<^verbatim>\<open>GetPointerType\<close> and \<^verbatim>\<open>GetReferenceType\<close>. The
  invalid \<^verbatim>\<open>lldb::SBType()\<close> is \<open>None\<close>.\<close>

datatype SBType = NamedType string | PointerType SBType | ReferenceType SBType

fun IsReferenceType :: "SBType \<Rightarrow> bool" where
  "IsReferenceType (ReferenceType t) = True"
| "IsReferenceType t = False"

text \<open>A value handle of the debugger is opaque to the parser.\<close>

type_synonym SBValue = nat

text \<open>The values the parser builds: \<^verbatim>\<open>Value(value, is_rvalue)\<close> for a binding that was looked
  up, and the results of \<^verbatim>\<open>CreateValueFromBool\<close>, \<^verbatim>\<open>CreateValueNullptr\<close>,
  \<^verbatim>\<open>CreateValueFromAPInt\<close> (magnitude, signedness flag, type) and \<^verbatim>\<open>CreateValueFromAPFloat\<close>
  (the literal's spelling stands for the converted value).\<close>

datatype Value =
    Value SBValue bool
  | ValueFromBool bool
  | ValueNullptr
  | ValueFromAPInt nat bool BasicType
  | ValueFromAPFloat string BasicType

datatype MemberOfType = OF_OBJECT | OF_POINTER

datatype ExprNode =
    ErrorNode
  | LiteralNode Value
  | IdentifierNode string Value
  | CStyleCastNode SBType ExprNode
  | MemberOfNode MemberOfType ExprNode string
  | BinaryOpNode TokenKind ExprNode ExprNode
  | UnaryOpNode TokenKind ExprNode
  | TernaryOpNode ExprNode ExprNode ExprNode

text \<open>The message handed to \<^verbatim>\<open>BailOut\<close>, one constructor per format string of the parser.\<close>

datatype Diagnostic =
    ExpectedGot TokenKind Token
  | ExpectedAnyOfGot "TokenKind list" Token
  | PostfixIncDecNotSupported Token
  | UndeclaredIdentifier string
  | InvalidUseOfThis
  | UnexpectedToken Token
  | PointerToReference SBType
  | ReferenceToReference
  | NotNumericConstant Token
  | NotFloatOrInteger Token
  | FloatUnderflowOverflow Token
  | IntegerTooLarge Token

text \<open>The error slot holds the code and the rendered diagnostic: \<^verbatim>\<open>FormatDiagnostics\<close> renders the
  message with the source line and a caret under the given location, so the rendering is
  kept as the message together with that location.\<close>

type_synonym Error = "ErrorCode \<times> Diagnostic \<times> nat"

text \<open>The services of the evaluation context and of the lexer's literal parser that the parser
  calls, and the integer widths of the platform.\<close>

record Context =
  ResolveTypeByName :: "string \<Rightarrow> SBType option"
  LookupIdentifier :: "string \<Rightarrow> SBValue option"
  NumericLiteralParser :: "string \<Rightarrow> NumericLiteral"
  type_width :: TypeWidths

text \<open>The preprocessor \<^verbatim>\<open>pp_\<close> is the list of the tokens of the expression and the index of
  the next token to lex; past the last token it yields end-of-input, again and again.\<close>

record Parser =
  ctx :: Context
  pp_tokens :: "Token list"
  pp_pos :: nat
  token :: Token
  error :: "Error option"

definition eof_token :: "Token list \<Rightarrow> Token" where
  "eof_token ts =
     \<lparr>kind = tok_eof, spelling = [],
      location = (case ts of [] \<Rightarrow> 0 | _ \<Rightarrow> location (last ts) + length (spelling (last ts)))\<rparr>"

definition Lex :: "Parser \<Rightarrow> Parser" where
  "Lex s =
     (if pp_pos s < length (pp_tokens s)
      then s\<lparr>token := pp_tokens s ! pp_pos s, pp_pos := pp_pos s + 1\<rparr>
      else s\<lparr>token := eof_token (pp_tokens s)\<rparr>)"

definition LookAhead0 :: "Parser \<Rightarrow> Token" where
  "LookAhead0 s =
     (if pp_pos s < length (pp_tokens s) then pp_tokens s ! pp_pos s
      else eof_token (pp_tokens s))"

text \<open>The constructor leaves the current token with kind \<^verbatim>\<open>unknown\<close>.\<close>

definition new_Parser :: "Context \<Rightarrow> Token list \<Rightarrow> Parser" where
  "new_Parser c ts =
     \<lparr>ctx = c, pp_tokens = ts, pp_pos = 0,
      token = \<lparr>kind = tok_unknown, spelling = [], location = 0\<rparr>, error = None\<rparr>"

definition ConsumeToken :: "Parser \<Rightarrow> Parser" where
  "ConsumeToken s = (if kind (token s) = tok_eof then s else Lex s)"

definition BailOut :: "ErrorCode \<Rightarrow> Diagnostic \<Rightarrow> nat \<Rightarrow> Parser \<Rightarrow> Parser" where
  "BailOut code msg loc s =
     (if error s \<noteq> None then s
      else s\<lparr>error := Some (code, msg, loc), token := (token s)\<lparr>kind := tok_eof\<rparr>\<rparr>)"

definition Expect :: "TokenKind \<Rightarrow> Parser \<Rightarrow> Parser" where
  "Expect k s =
     (if kind (token s) \<noteq> k
      then BailOut kUnknown (ExpectedGot k (token s)) (location (token s)) s
      else s)"

definition ExpectOneOf :: "TokenKind list \<Rightarrow> Parser \<Rightarrow> Parser" where
  "ExpectOneOf ks s =
     (if kind (token s) \<notin> set ks
      then BailOut kUnknown (ExpectedAnyOfGot ks (token s)) (location (token s)) s
      else s)"

subsection \<open>Tentative parsing\<close>

text \<open>Modelled from the spec: \<^verbatim>\<open>TentativeParsingAction\<close> is declared in the parser's header,
  which is not among the sources. By the specification a snapshot records the token-stream
  position and the current error slot when it is acquired; commit keeps both as they are
  and rollback restores both, which makes the consumed tokens available again. The current
  token is part of the position of the stream.\<close>

record TentativeParsingAction =
  backtrack_pos :: nat
  backtrack_token :: Token
  backtrack_error :: "Error option"

definition new_TentativeParsingAction :: "Parser \<Rightarrow> TentativeParsingAction" where
  "new_TentativeParsingAction s =
     \<lparr>backtrack_pos = pp_pos s, backtrack_token = token s, backtrack_error = error s\<rparr>"

definition Commit :: "TentativeParsingAction \<Rightarrow> Parser \<Rightarrow> Parser" where
  "Commit t s = s"

definition Rollback :: "TentativeParsingAction \<Rightarrow> Parser \<Rightarrow> Parser" where
  "Rollback t s =
     s\<lparr>pp_pos := backtrack_pos t, token := backtrack_token t, error := backtrack_error t\<rparr>"

subsection \<open>Token classes\<close>

definition IsSimpleTypeSpecifierKeyword :: "Token \<Rightarrow> bool" where
  "IsSimpleTypeSpecifierKeyword t =
     (kind t \<in> {kw_char, kw_char16_t, kw_char32_t, kw_wchar_t, kw_bool, kw_short, kw_int,
                 kw_long, kw_signed, kw_unsigned, kw_float, kw_double, kw_void})"

definition IsCvQualifier :: "Token \<Rightarrow> bool" where
  "IsCvQualifier t = (kind t \<in> {kw_const, kw_volatile})"

definition IsPtrOperator :: "Token \<Rightarrow> bool" where
  "IsPtrOperator t = (kind t \<in> {tok_star, tok_amp})"

subsection \<open>Literals\<close>

definition ParseFloatingLiteral :: "NumericLiteral \<Rightarrow> Token \<Rightarrow> Parser \<Rightarrow> ExprNode \<times> Parser" where
  "ParseFloatingLiteral literal tk s =
     (if float_overflow literal \<or> (float_underflow literal \<and> float_is_zero literal)
      then (ErrorNode, BailOut kInvalidNumericLiteral (FloatUnderflowOverflow tk) (location tk) s)
      else let type = (if isFloat literal then eBasicTypeFloat else eBasicTypeDouble)
           in (LiteralNode (ValueFromAPFloat (spelling tk) type), s))"

definition ParseIntegerLiteral :: "NumericLiteral \<Rightarrow> Token \<Rightarrow> Parser \<Rightarrow> ExprNode \<times> Parser" where
  "ParseIntegerLiteral literal tk s =
     (if \<not> integer_value literal < 2 ^ uintmax_size (type_width (ctx s))
      then (ErrorNode, BailOut kInvalidNumericLiteral (IntegerTooLarge tk) (location tk) s)
      else let raw_value = integer_value literal;
               type = PickIntegerType (type_width (ctx s)) literal raw_value;
               is_unsigned = (type = eBasicTypeUnsignedInt \<or> type = eBasicTypeUnsignedLong \<or>
                              type = eBasicTypeUnsignedLongLong)
           in (LiteralNode (ValueFromAPInt raw_value is_unsigned type), s))"

definition ParseNumericConstant :: "Token \<Rightarrow> Parser \<Rightarrow> ExprNode \<times> Parser" where
  "ParseNumericConstant tk s =
     (let literal = NumericLiteralParser (ctx s) (spelling tk) in
      if hadError literal
      then (ErrorNode, BailOut kInvalidNumericLiteral (NotNumericConstant tk) (location tk) s)
      else if isFloatingLiteral literal then ParseFloatingLiteral literal tk s
      else if isIntegerLiteral literal then ParseIntegerLiteral literal tk s
      else (ErrorNode, BailOut kInvalidNumericLiteral (NotFloatOrInteger tk) (location tk) s))"

definition ParseNumericLiteral :: "Parser \<Rightarrow> ExprNode \<times> Parser" where
  "ParseNumericLiteral s =
     (let s1 = Expect tok_numeric_constant s;
          (numeric_constant, s2) = ParseNumericConstant (token s1) s1
      in (numeric_constant, ConsumeToken s2))"

definition ParseBooleanLiteral :: "Parser \<Rightarrow> ExprNode \<times> Parser" where
  "ParseBooleanLiteral s =
     (let s1 = ExpectOneOf [kw_true, kw_false] s;
          literal_value = (kind (token s1) = kw_true)
      in (LiteralNode (ValueFromBool literal_value), ConsumeToken s1))"

definition ParsePointerLiteral :: "Parser \<Rightarrow> ExprNode \<times> Parser" where
  "ParsePointerLiteral s =
     (let s1 = Expect kw_nullptr s in (LiteralNode ValueNullptr, ConsumeToken s1))"

subsection \<open>Names and declarators without recursion\<close>

definition ParseUnqualifiedId :: "Parser \<Rightarrow> string \<times> Parser" where
  "ParseUnqualifiedId s =
     (let s1 = Expect tok_identifier s;
          identifier = spelling (token s1)
      in (identifier, ConsumeToken s1))"

definition ResolveTypeFromTypeDecl :: "Context \<Rightarrow> TypeDeclaration \<Rightarrow> SBType option" where
  "ResolveTypeFromTypeDecl c type_decl =
     (if \<not> IsValid type_decl then None else ResolveTypeByName c (GetBaseName type_decl))"

text \<open>The loop of \<^verbatim>\<open>ResolveTypeDeclarators\<close> over the pointer operators; a kind that is neither
  a star nor an ampersand leaves the type as it is.\<close>

fun ResolveTypeDeclarators :: "SBType \<Rightarrow> TokenKind list \<Rightarrow> Parser \<Rightarrow> SBType option \<times> Parser" where
  "ResolveTypeDeclarators type [] s = (Some type, s)"
| "ResolveTypeDeclarators type (tk # tks) s =
     (if tk = tok_star then
        (if IsReferenceType type
         then (None, BailOut kInvalidOperandType (PointerToReference type) (location (token s)) s)
         else ResolveTypeDeclarators (PointerType type) tks s)
      else if tk = tok_amp then
        (if IsReferenceType type
         then (None, BailOut kInvalidOperandType ReferenceToReference (location (token s)) s)
         else ResolveTypeDeclarators (ReferenceType type) tks s)
      else ResolveTypeDeclarators type tks s)"

text \<open>What is left of the input: nothing once the current token is end-of-input, otherwise
  the current token and the tokens not lexed yet. Every loop of the parser consumes a token
  that is not end-of-input in each round, so this number falls.\<close>

definition remaining :: "Parser \<Rightarrow> nat" where
  "remaining s =
     (if kind (token s) = tok_eof then 0 else Suc (length (pp_tokens s) - pp_pos s))"

text \<open>The loop over cv-qualifiers after a star in \<^verbatim>\<open>ParsePtrOperator\<close>.\<close>

function ConsumeCvQualifiers :: "Parser \<Rightarrow> Parser" where
  "ConsumeCvQualifiers s =
     (if IsCvQualifier (token s) then ConsumeCvQualifiers (ConsumeToken s) else s)"
  by pat_completeness auto
termination
proof (relation "measure remaining")
  show "wf (measure remaining)" by simp
next
  fix s :: Parser
  assume "IsCvQualifier (token s)"
  then have "kind (token s) \<noteq> tok_eof" by (auto simp: IsCvQualifier_def)
  then show "(ConsumeToken s, s) \<in> measure remaining"
    by (auto simp: remaining_def ConsumeToken_def Lex_def eof_token_def)
qed

declare ConsumeCvQualifiers.simps [simp del]

definition ParsePtrOperator :: "TypeDeclaration \<Rightarrow> Parser \<Rightarrow> TypeDeclaration \<times> Parser" where
  "ParsePtrOperator type_decl s =
     (let s1 = ExpectOneOf [tok_star, tok_amp] s in
      if kind (token s1) = tok_star then
        (type_decl\<lparr>ptr_operators := ptr_operators type_decl @ [tok_star]\<rparr>,
         ConsumeCvQualifiers (ConsumeToken s1))
      else if kind (token s1) = tok_amp then
        (type_decl\<lparr>ptr_operators := ptr_operators type_decl @ [tok_amp]\<rparr>, ConsumeToken s1)
      else (type_decl, s1))"

text \<open>The loop of \<^verbatim>\<open>ParseTypeId\<close> over the pointer operators of the abstract declarator.\<close>

function ParsePtrOperators :: "TypeDeclaration \<Rightarrow> Parser \<Rightarrow> TypeDeclaration \<times> Parser" where
  "ParsePtrOperators type_decl s =
     (if IsPtrOperator (token s)
      then (case ParsePtrOperator type_decl s of (type_decl1, s1) \<Rightarrow> ParsePtrOperators type_decl1 s1)
      else (type_decl, s))"
  by pat_completeness auto
termination
proof -
  have cv: "remaining (ConsumeCvQualifiers u) \<le> remaining u" for u
  proof (induction u rule: ConsumeCvQualifiers.induct)
    case (1 u)
    show ?case
    proof (cases "IsCvQualifier (token u)")
      case True
      then have "kind (token u) \<noteq> tok_eof" by (auto simp: IsCvQualifier_def)
      then have "remaining (ConsumeToken u) \<le> remaining u"
        by (auto simp: remaining_def ConsumeToken_def Lex_def eof_token_def)
      with 1 [OF True] True show ?thesis
        by (subst ConsumeCvQualifiers.simps) simp
    next
      case False
      then show ?thesis by (subst ConsumeCvQualifiers.simps) simp
    qed
  qed
  have step: "remaining s1 < remaining s"
    if p: "IsPtrOperator (token s)" and r: "(type_decl1, s1) = ParsePtrOperator type_decl s"
    for type_decl type_decl1 s s1
  proof -
    from p have ne: "kind (token s) \<noteq> tok_eof" and e: "ExpectOneOf [tok_star, tok_amp] s = s"
      by (auto simp: IsPtrOperator_def ExpectOneOf_def)
    from ne have lt: "remaining (ConsumeToken s) < remaining s"
      by (auto simp: remaining_def ConsumeToken_def Lex_def eof_token_def)
    show ?thesis
    proof (cases "kind (token s) = tok_star")
      case True
      then have "s1 = ConsumeCvQualifiers (ConsumeToken s)"
        using r e by (simp add: ParsePtrOperator_def)
      then show ?thesis using cv [of "ConsumeToken s"] lt by simp
    next
      case False
      then have "kind (token s) = tok_amp" using p by (simp add: IsPtrOperator_def)
      then have "s1 = ConsumeToken s"
        using r e by (simp add: ParsePtrOperator_def)
      then show ?thesis using lt by simp
    qed
  qed
  have "(case ParsePtrOperator type_decl s of (type_decl1, s1) \<Rightarrow> remaining s1) < remaining s"
    if "IsPtrOperator (token s)" for type_decl s
    using step [OF that, of "fst (ParsePtrOperator type_decl s)" "snd (ParsePtrOperator type_decl s)"]
    by (simp add: case_prod_beta)
  then show ?thesis
    by (relation "measure (\<lambda>(type_decl, s). remaining s)") auto
qed

declare ParsePtrOperators.simps [simp del]

section \<open>Parsing type ids and qualified names\<close>

text \<open>The recursive functions of the parser take a bound on the depth of the calls as their
  first argument and return \<open>None\<close> when the bound is used up; every call passes the bound
  less one. A result \<open>Some\<close> is what the C++ function returns together with the state of
  the parser it leaves.\<close>

fun ParseTypeId :: "nat \<Rightarrow> Parser \<Rightarrow> (TypeDeclaration \<times> Parser) option"
  and ParseTypeSpecifierSeq ::
    "nat \<Rightarrow> TypeDeclaration \<Rightarrow> Parser \<Rightarrow> (TypeDeclaration \<times> Parser) option"
  and ParseTypeSpecifier ::
    "nat \<Rightarrow> TypeDeclaration \<Rightarrow> Parser \<Rightarrow> (bool \<times> TypeDeclaration \<times> Parser) option"
  and ParseNestedNameSpecifier :: "nat \<Rightarrow> Parser \<Rightarrow> (string \<times> Parser) option"
  and ParseTypeName :: "nat \<Rightarrow> Parser \<Rightarrow> (string \<times> Parser) option"
  and ParseTemplateArgumentList :: "nat \<Rightarrow> Parser \<Rightarrow> (string \<times> Parser) option"
  and ParseTemplateArguments :: "nat \<Rightarrow> string list \<Rightarrow> Parser \<Rightarrow> (string \<times> Parser) option"
  and ParseTemplateArgument :: "nat \<Rightarrow> Parser \<Rightarrow> (string \<times> Parser) option"
  and ParseIdExpression :: "nat \<Rightarrow> Parser \<Rightarrow> (string \<times> Parser) option"
where
  "ParseTypeId 0 s = None"
| "ParseTypeId (Suc n) s =
     do {
       (type_decl, s1) \<leftarrow> ParseTypeSpecifierSeq n \<lparr>typenames = [], ptr_operators = []\<rparr> s;
       Some (ParsePtrOperators type_decl s1)
     }"

| "ParseTypeSpecifierSeq 0 type_decl s = None"
| "ParseTypeSpecifierSeq (Suc n) type_decl s =
     do {
       (type_specifier, type_decl1, s1) \<leftarrow> ParseTypeSpecifier n type_decl s;
       if \<not> type_specifier then Some (type_decl1, s1)
       else ParseTypeSpecifierSeq n type_decl1 s1
     }"

| "ParseTypeSpecifier 0 type_decl s = None"
| "ParseTypeSpecifier (Suc n) type_decl s =
     (if IsCvQualifier (token s) then Some (True, type_decl, ConsumeToken s)
      else if IsSimpleTypeSpecifierKeyword (token s) then
        Some (True, type_decl\<lparr>typenames := typenames type_decl @ [spelling (token s)]\<rparr>,
              ConsumeToken s)
      else do {
        let global_scope = (kind (token s) = tok_coloncolon);
        let s1 = (if global_scope then ConsumeToken s else s);
        (nested_name_specifier, s2) \<leftarrow> ParseNestedNameSpecifier n s1;
        (type_name, s3) \<leftarrow> ParseTypeName n s2;
        if type_name \<noteq> [] then
          let type_specifier =
                (if global_scope then ''::'' else []) @ nested_name_specifier @ type_name
          in Some (True, type_decl\<lparr>typenames := typenames type_decl @ [type_specifier]\<rparr>, s3)
        else Some (False, type_decl, s3)
      })"

| "ParseNestedNameSpecifier 0 s = None"
| "ParseNestedNameSpecifier (Suc n) s =
     (if kind (token s) \<noteq> tok_identifier then Some ([], s)
      else if kind (LookAhead0 s) = tok_coloncolon then do {
        let identifier = spelling (token s);
        let s1 = ConsumeToken s;
        let s2 = Expect tok_coloncolon s1;
        let s3 = ConsumeToken s2;
        (rest, s4) \<leftarrow> ParseNestedNameSpecifier n s3;
        Some (identifier @ ''::'' @ rest, s4)
      }
      else if kind (LookAhead0 s) = tok_less then do {
        let tentative_parsing = new_TentativeParsingAction s;
        (type_name, s1) \<leftarrow> ParseTypeName n s;
        if type_name \<noteq> [] \<and> kind (token s1) = tok_coloncolon then do {
          let s2 = Commit tentative_parsing s1;
          let s3 = ConsumeToken s2;
          (rest, s4) \<leftarrow> ParseNestedNameSpecifier n s3;
          Some (type_name @ ''::'' @ rest, s4)
        }
        else Some ([], Rollback tentative_parsing s1)
      }
      else Some ([], s))"

| "ParseTypeName 0 s = None"
| "ParseTypeName (Suc n) s =
     (if kind (token s) \<noteq> tok_identifier then Some ([], s)
      else if kind (LookAhead0 s) = tok_less then do {
        let template_name = spelling (token s);
        let s1 = ConsumeToken s;
        let s2 = ConsumeToken s1;
        if kind (token s2) = tok_greater then Some (template_name @ ''<>'', ConsumeToken s2)
        else do {
          (template_argument_list, s3) \<leftarrow> ParseTemplateArgumentList n s2;
          if kind (token s3) = tok_greater
          then Some (template_name @ ''<'' @ template_argument_list @ ''>'', ConsumeToken s3)
          else Some ([], s3)
        }
      }
      else Some (spelling (token s), ConsumeToken s))"

| "ParseTemplateArgumentList 0 s = None"
| "ParseTemplateArgumentList (Suc n) s = ParseTemplateArguments n [] s"

| "ParseTemplateArguments 0 arguments s = None"
| "ParseTemplateArguments (Suc n) arguments s =
     do {
       let s1 = (if length arguments > 0 then ConsumeToken s else s);
       (argument, s2) \<leftarrow> ParseTemplateArgument n s1;
       if argument = [] then Some ([], s2)
       else
         let arguments1 = arguments @ [argument] in
         if kind (token s2) = tok_comma then ParseTemplateArguments n arguments1 s2
         else
           let arguments2 =
                 (if last (last arguments1) = CHR ''>''
                  then butlast arguments1 @ [last arguments1 @ '' '']
                  else arguments1)
           in Some (join_range '', '' arguments2, s2)
     }"

| "ParseTemplateArgument 0 s = None"
| "ParseTemplateArgument (Suc n) s =
     do {
       let tentative_parsing = new_TentativeParsingAction s;
       (type_decl, s1) \<leftarrow> ParseTypeId n s;
       if IsValid type_decl \<and> ResolveTypeFromTypeDecl (ctx s1) type_decl \<noteq> None
          \<and> kind (token s1) \<in> {tok_comma, tok_greater}
       then Some (GetName type_decl, Commit tentative_parsing s1)
       else do {
         let s2 = Rollback tentative_parsing s1;
         let tentative_parsing2 = new_TentativeParsingAction s2;
         (id_expression, s3) \<leftarrow> ParseIdExpression n s2;
         if id_expression \<noteq> [] \<and> kind (token s3) \<in> {tok_comma, tok_greater}
         then Some (id_expression, Commit tentative_parsing2 s3)
         else Some ([], Rollback tentative_parsing2 s3)
       }
     }"

| "ParseIdExpression 0 s = None"
| "ParseIdExpression (Suc n) s =
     do {
       let global_scope = (kind (token s) = tok_coloncolon);
       let s1 = (if global_scope then ConsumeToken s else s);
       (nested_name_specifier, s2) \<leftarrow> ParseNestedNameSpecifier n s1;
       if nested_name_specifier \<noteq> [] then
         (case ParseUnqualifiedId s2 of (unqualified_id, s3) \<Rightarrow>
            Some ((if global_scope then ''::'' else []) @ nested_name_specifier @ unqualified_id,
                  s3))
       else if global_scope then
         let s3 = Expect tok_identifier s2;
             identifier = spelling (token s3)
         in Some (''::'' @ identifier, ConsumeToken s3)
       else Some (ParseUnqualifiedId s2)
     }"

section \<open>Parsing expressions\<close>

text \<open>The loop shared by the ten levels of left-associative binary operators: while the
  current token is one of the operators of the level, consume it, parse the right operand
  with the parser of the next level and build the binary node. The first argument bounds
  the number of rounds.\<close>

fun ParseBinaryOperands ::
  "nat \<Rightarrow> TokenKind list \<Rightarrow> (Parser \<Rightarrow> (ExprNode \<times> Parser) option) \<Rightarrow> ExprNode \<Rightarrow> Parser
     \<Rightarrow> (ExprNode \<times> Parser) option"
where
  "ParseBinaryOperands 0 ops operand lhs s = None"
| "ParseBinaryOperands (Suc n) ops operand lhs s =
     (if kind (token s) \<in> set ops then do {
        let k = kind (token s);
        let s1 = ConsumeToken s;
        (rhs, s2) \<leftarrow> operand s1;
        ParseBinaryOperands n ops operand (BinaryOpNode k lhs rhs) s2
      }
      else Some (lhs, s))"

fun ParseExpression :: "nat \<Rightarrow> Parser \<Rightarrow> (ExprNode \<times> Parser) option"
  and ParseAssignmentExpression :: "nat \<Rightarrow> Parser \<Rightarrow> (ExprNode \<times> Parser) option"
  and ParseConditionalExpression :: "nat \<Rightarrow> Parser \<Rightarrow> (ExprNode \<times> Parser) option"
  and ParseLogicalOrExpression :: "nat \<Rightarrow> Parser \<Rightarrow> (ExprNode \<times> Parser) option"
  and ParseLogicalAndExpression :: "nat \<Rightarrow> Parser \<Rightarrow> (ExprNode \<times> Parser) option"
  and ParseInclusiveOrExpression :: "nat \<Rightarrow> Parser \<Rightarrow> (ExprNode \<times> Parser) option"
  and ParseExclusiveOrExpression :: "nat \<Rightarrow> Parser \<Rightarrow> (ExprNode \<times> Parser) option"
  and ParseAndExpression :: "nat \<Rightarrow> Parser \<Rightarrow> (ExprNode \<times> Parser) option"
  and ParseEqualityExpression :: "nat \<Rightarrow> Parser \<Rightarrow> (ExprNode \<times> Parser) option"
  and ParseRelationalExpression :: "nat \<Rightarrow> Parser \<Rightarrow> (ExprNode \<times> Parser) option"
  and ParseShiftExpression :: "nat \<Rightarrow> Parser \<Rightarrow> (ExprNode \<times> Parser) option"
  and ParseAdditiveExpression :: "nat \<Rightarrow> Parser \<Rightarrow> (ExprNode \<times> Parser) option"
  and ParseMultiplicativeExpression :: "nat \<Rightarrow> Parser \<Rightarrow> (ExprNode \<times> Parser) option"
  and ParseCastExpression :: "nat \<Rightarrow> Parser \<Rightarrow> (ExprNode \<times> Parser) option"
  and ParseUnaryExpression :: "nat \<Rightarrow> Parser \<Rightarrow> (ExprNode \<times> Parser) option"
  and ParsePostfixExpression :: "nat \<Rightarrow> Parser \<Rightarrow> (ExprNode \<times> Parser) option"
  and ParsePostfixOperators :: "nat \<Rightarrow> ExprNode \<Rightarrow> Parser \<Rightarrow> (ExprNode \<times> Parser) option"
  and ParsePrimaryExpression :: "nat \<Rightarrow> Parser \<Rightarrow> (ExprNode \<times> Parser) option"
where
  "ParseExpression 0 s = None"
| "ParseExpression (Suc n) s = ParseAssignmentExpression n s"

| "ParseAssignmentExpression 0 s = None"
| "ParseAssignmentExpression (Suc n) s = ParseConditionalExpression n s"

| "ParseConditionalExpression 0 s = None"
| "ParseConditionalExpression (Suc n) s =
     do {
       (lhs, s1) \<leftarrow> ParseLogicalOrExpression n s;
       if kind (token s1) = tok_question then do {
         let s2 = ConsumeToken s1;
         (true_val, s3) \<leftarrow> ParseExpression n s2;
         let s4 = Expect tok_colon s3;
         let s5 = ConsumeToken s4;
         (false_val, s6) \<leftarrow> ParseAssignmentExpression n s5;
         Some (TernaryOpNode lhs true_val false_val, s6)
       }
       else Some (lhs, s1)
     }"

| "ParseLogicalOrExpression 0 s = None"
| "ParseLogicalOrExpression (Suc n) s =
     do {
       (lhs, s1) \<leftarrow> ParseLogicalAndExpression n s;
       ParseBinaryOperands n [tok_pipepipe] (ParseLogicalAndExpression n) lhs s1
     }"

| "ParseLogicalAndExpression 0 s = None"
| "ParseLogicalAndExpression (Suc n) s =
     do {
       (lhs, s1) \<leftarrow> ParseInclusiveOrExpression n s;
       ParseBinaryOperands n [tok_ampamp] (ParseInclusiveOrExpression n) lhs s1
     }"

| "ParseInclusiveOrExpression 0 s = None"
| "ParseInclusiveOrExpression (Suc n) s =
     do {
       (lhs, s1) \<leftarrow> ParseExclusiveOrExpression n s;
       ParseBinaryOperands n [tok_pipe] (ParseExclusiveOrExpression n) lhs s1
     }"

| "ParseExclusiveOrExpression 0 s = None"
| "ParseExclusiveOrExpression (Suc n) s =
     do {
       (lhs, s1) \<leftarrow> ParseAndExpression n s;
       ParseBinaryOperands n [tok_caret] (ParseAndExpression n) lhs s1
     }"

| "ParseAndExpression 0 s = None"
| "ParseAndExpression (Suc n) s =
     do {
       (lhs, s1) \<leftarrow> ParseEqualityExpression n s;
       ParseBinaryOperands n [tok_amp] (ParseEqualityExpression n) lhs s1
     }"

| "ParseEqualityExpression 0 s = None"
| "ParseEqualityExpression (Suc n) s =
     do {
       (lhs, s1) \<leftarrow> ParseRelationalExpression n s;
       ParseBinaryOperands n [tok_equalequal, tok_exclaimequal] (ParseRelationalExpression n) lhs s1
     }"

| "ParseRelationalExpression 0 s = None"
| "ParseRelationalExpression (Suc n) s =
     do {
       (lhs, s1) \<leftarrow> ParseShiftExpression n s;
       ParseBinaryOperands n [tok_less, tok_greater, tok_lessequal, tok_greaterequal]
         (ParseShiftExpression n) lhs s1
     }"

| "ParseShiftExpression 0 s = None"
| "ParseShiftExpression (Suc n) s =
     do {
       (lhs, s1) \<leftarrow> ParseAdditiveExpression n s;
       ParseBinaryOperands n [tok_lessless, tok_greatergreater] (ParseAdditiveExpression n) lhs s1
     }"

| "ParseAdditiveExpression 0 s = None"
| "ParseAdditiveExpression (Suc n) s =
     do {
       (lhs, s1) \<leftarrow> ParseMultiplicativeExpression n s;
       ParseBinaryOperands n [tok_plus, tok_minus] (ParseMultiplicativeExpression n) lhs s1
     }"

| "ParseMultiplicativeExpression 0 s = None"
| "ParseMultiplicativeExpression (Suc n) s =
     do {
       (lhs, s1) \<leftarrow> ParseCastExpression n s;
       ParseBinaryOperands n [tok_star, tok_slash, tok_percent] (ParseCastExpression n) lhs s1
     }"

| "ParseCastExpression 0 s = None"
| "ParseCastExpression (Suc n) s =
     (if kind (token s) = tok_l_paren then do {
        let tentative_parsing = new_TentativeParsingAction s;
        let s1 = ConsumeToken s;
        (type_decl, s2) \<leftarrow> ParseTypeId n s1;
        case ResolveTypeFromTypeDecl (ctx s2) type_decl of
          Some type \<Rightarrow>
            let s3 = Commit tentative_parsing s2 in
            (case ResolveTypeDeclarators type (ptr_operators type_decl) s3 of
               (None, s4) \<Rightarrow> Some (ErrorNode, s4)
             | (Some type1, s4) \<Rightarrow> do {
                 let s5 = Expect tok_r_paren s4;
                 let s6 = ConsumeToken s5;
                 (rhs, s7) \<leftarrow> ParseCastExpression n s6;
                 Some (CStyleCastNode type1 rhs, s7)
               })
        | None \<Rightarrow> ParseUnaryExpression n (Rollback tentative_parsing s2)
      }
      else ParseUnaryExpression n s)"

| "ParseUnaryExpression 0 s = None"
| "ParseUnaryExpression (Suc n) s =
     (if kind (token s) \<in> {tok_plusplus, tok_minusminus, tok_star, tok_amp, tok_plus,
                              tok_minus, tok_exclaim, tok_tilde}
      then do {
        let k = kind (token s);
        let s1 = ConsumeToken s;
        (rhs, s2) \<leftarrow> ParseCastExpression n s1;
        Some (UnaryOpNode k rhs, s2)
      }
      else ParsePostfixExpression n s)"

| "ParsePostfixExpression 0 s = None"
| "ParsePostfixExpression (Suc n) s =
     do {
       (lhs, s1) \<leftarrow> ParsePrimaryExpression n s;
       ParsePostfixOperators n lhs s1
     }"

| "ParsePostfixOperators 0 lhs s = None"
| "ParsePostfixOperators (Suc n) lhs s =
     (if kind (token s) \<in> {tok_period, tok_arrow} then do {
        let type = (if kind (token s) = tok_period then OF_OBJECT else OF_POINTER);
        let s1 = ConsumeToken s;
        (member_id, s2) \<leftarrow> ParseIdExpression n s1;
        ParsePostfixOperators n (MemberOfNode type lhs member_id) s2
      }
      else if kind (token s) \<in> {tok_plusplus, tok_minusminus} then
        Some (ErrorNode,
              BailOut kNotImplemented (PostfixIncDecNotSupported (token s)) (location (token s)) s)
      else if kind (token s) = tok_l_square then do {
        let s1 = ConsumeToken s;
        (rhs, s2) \<leftarrow> ParseExpression n s1;
        let s3 = Expect tok_r_square s2;
        let s4 = ConsumeToken s3;
        ParsePostfixOperators n (BinaryOpNode tok_l_square lhs rhs) s4
      }
      else Some (lhs, s))"

| "ParsePrimaryExpression 0 s = None"
| "ParsePrimaryExpression (Suc n) s =
     (if kind (token s) = tok_numeric_constant then Some (ParseNumericLiteral s)
      else if kind (token s) \<in> {kw_true, kw_false} then Some (ParseBooleanLiteral s)
      else if kind (token s) = kw_nullptr then Some (ParsePointerLiteral s)
      else if kind (token s) \<in> {tok_coloncolon, tok_identifier} then do {
        let loc = location (token s);
        (identifier, s1) \<leftarrow> ParseIdExpression n s;
        case LookupIdentifier (ctx s1) identifier of
          None \<Rightarrow>
            Some (ErrorNode, BailOut kUndeclaredIdentifier (UndeclaredIdentifier identifier) loc s1)
        | Some v \<Rightarrow> Some (IdentifierNode identifier (Value v False), s1)
      }
      else if kind (token s) = kw_this then do {
        let loc = location (token s);
        let s1 = ConsumeToken s;
        case LookupIdentifier (ctx s1) ''this'' of
          None \<Rightarrow> Some (ErrorNode, BailOut kUndeclaredIdentifier InvalidUseOfThis loc s1)
        | Some v \<Rightarrow> Some (IdentifierNode ''this'' (Value v True), s1)
      }
      else if kind (token s) = tok_l_paren then do {
        let s1 = ConsumeToken s;
        (expr, s2) \<leftarrow> ParseExpression n s1;
        let s3 = Expect tok_r_paren s2;
        let s4 = ConsumeToken s3;
        Some (expr, s4)
      }
      else
        Some (ErrorNode,
              BailOut kInvalidExpressionSyntax (UnexpectedToken (token s)) (location (token s)) s))"

text \<open>\<^verbatim>\<open>Run\<close> returns the tree and hands the recorded error to the caller through its
  reference parameter.\<close>

definition Run :: "nat \<Rightarrow> Parser \<Rightarrow> (ExprNode \<times> Error option) option" where
  "Run n s =
     do {
       let s1 = ConsumeToken s;
       (expr, s2) \<leftarrow> ParseExpression n s1;
       let s3 = Expect tok_eof s2;
       let err = error s3;
       if err \<noteq> None then Some (ErrorNode, err) else Some (expr, err)
     }"

section \<open>Reference definitions for the properties\<close>

text \<open>The rewriting that \<^verbatim>\<open>StringReplace\<close> is specified against: \<open>r\<close> is \<open>s\<close> with the
  leftmost occurrence of \<open>old_value\<close> replaced by \<open>new_value\<close>, or \<open>s\<close> itself when
  \<open>old_value\<close> does not occur. An occurrence that starts before position \<open>length p\<close> lies
  within the first \<open>length p + length old_value - 1\<close> characters.\<close>

inductive leftmost_rewrite :: "string \<Rightarrow> string \<Rightarrow> string \<Rightarrow> string \<Rightarrow> bool" where
  absent: "\<not> sublist old_value s \<Longrightarrow> leftmost_rewrite old_value new_value s s"
| leftmost: "\<not> sublist old_value (p @ butlast old_value) \<Longrightarrow>
     leftmost_rewrite old_value new_value (p @ old_value @ q) (p @ new_value @ q)"

text \<open>The integer typing as the specification words it: the ordered cascade of the types the
  suffixes of the literal admit, each with its signedness and its width, and the first entry
  that accommodates the value. A signed type accommodates a value that fits in one bit less
  than its width, for a literal without the \<^verbatim>\<open>u\<close> suffix; an unsigned type accommodates a
  value that fits in its width, when an unsigned type is allowed. When no entry does, the
  type is \<^verbatim>\<open>unsigned long long\<close>.\<close>

definition integer_cascade :: "TypeWidths \<Rightarrow> NumericLiteral \<Rightarrow> (BasicType \<times> bool \<times> nat) list" where
  "integer_cascade w literal =
     (if \<not> isLong literal \<and> \<not> isLongLong literal
      then [(eBasicTypeInt, True, int_size w), (eBasicTypeUnsignedInt, False, int_size w)]
      else []) @
     (if \<not> isLongLong literal
      then [(eBasicTypeLong, True, long_size w), (eBasicTypeUnsignedLong, False, long_size w)]
      else []) @
     [(eBasicTypeLongLong, True, long_long_size w),
      (eBasicTypeUnsignedLongLong, False, long_long_size w)]"

fun accommodates :: "NumericLiteral \<Rightarrow> nat \<Rightarrow> BasicType \<times> bool \<times> nat \<Rightarrow> bool" where
  "accommodates literal v (type, is_signed, width) =
     (if is_signed then \<not> isUnsigned literal \<and> v < 2 ^ (width - 1)
      else (isUnsigned literal \<or> getRadix literal \<noteq> 10) \<and> v < 2 ^ width)"

definition first_accommodating_type :: "TypeWidths \<Rightarrow> NumericLiteral \<Rightarrow> nat \<Rightarrow> BasicType" where
  "first_accommodating_type w literal v =
     (case find (accommodates literal v) (integer_cascade w literal) of
        Some (type, is_signed, width) \<Rightarrow> type
      | None \<Rightarrow> eBasicTypeUnsignedLongLong)"

text \<open>The calls that change the current token or the error slot outside of a tentative
  rollback, and a sequence of them run in order.\<close>

datatype ParserCall = CallConsumeToken | CallBailOut ErrorCode Diagnostic nat

fun run_call :: "ParserCall \<Rightarrow> Parser \<Rightarrow> Parser" where
  "run_call CallConsumeToken s = ConsumeToken s"
| "run_call (CallBailOut code msg loc) s = BailOut code msg loc s"

fun run_calls :: "ParserCall list \<Rightarrow> Parser \<Rightarrow> Parser" where
  "run_calls [] s = s"
| "run_calls (c # cs) s = run_calls cs (run_call c s)"

text \<open>The part of the parser state that parsing never writes: the context and the tokens.\<close>

definition input_of :: "Parser \<Rightarrow> Context \<times> Token list" where
  "input_of s = (ctx s, pp_tokens s)"

text \<open>The statement, for a given bound, that none of the functions for type ids and names
  changes the input.\<close>

definition types_keep_input :: "nat \<Rightarrow> bool" where
  "types_keep_input n \<longleftrightarrow>
     (\<forall>s r s'. ParseTypeId n s = Some (r, s') \<longrightarrow> input_of s' = input_of s) \<and>
     (\<forall>td s r s'. ParseTypeSpecifierSeq n td s = Some (r, s') \<longrightarrow> input_of s' = input_of s) \<and>
     (\<forall>td s b r s'. ParseTypeSpecifier n td s = Some (b, r, s') \<longrightarrow> input_of s' = input_of s) \<and>
     (\<forall>s r s'. ParseNestedNameSpecifier n s = Some (r, s') \<longrightarrow> input_of s' = input_of s) \<and>
     (\<forall>s r s'. ParseTypeName n s = Some (r, s') \<longrightarrow> input_of s' = input_of s) \<and>
     (\<forall>s r s'. ParseTemplateArgumentList n s = Some (r, s') \<longrightarrow> input_of s' = input_of s) \<and>
     (\<forall>a s r s'. ParseTemplateArguments n a s = Some (r, s') \<longrightarrow> input_of s' = input_of s) \<and>
     (\<forall>s r s'. ParseTemplateArgument n s = Some (r, s') \<longrightarrow> input_of s' = input_of s) \<and>
     (\<forall>s r s'. ParseIdExpression n s = Some (r, s') \<longrightarrow> input_of s' = input_of s)"

definition marks_error :: "ExprNode \<Rightarrow> Parser \<Rightarrow> bool" where
  "marks_error e s \<longleftrightarrow> (e = ErrorNode \<longrightarrow> error s \<noteq> None)"

text \<open>The statement, for a given bound, that an expression function which returns the error
  node leaves an error recorded.\<close>

definition error_node_recorded :: "nat \<Rightarrow> bool" where
  "error_node_recorded n \<longleftrightarrow>
     (\<forall>s e s'. ParseExpression n s = Some (e, s') \<longrightarrow> marks_error e s') \<and>
     (\<forall>s e s'. ParseAssignmentExpression n s = Some (e, s') \<longrightarrow> marks_error e s') \<and>
     (\<forall>s e s'. ParseConditionalExpression n s = Some (e, s') \<longrightarrow> marks_error e s') \<and>
     (\<forall>s e s'. ParseLogicalOrExpression n s = Some (e, s') \<longrightarrow> marks_error e s') \<and>
     (\<forall>s e s'. ParseLogicalAndExpression n s = Some (e, s') \<longrightarrow> marks_error e s') \<and>
     (\<forall>s e s'. ParseInclusiveOrExpression n s = Some (e, s') \<longrightarrow> marks_error e s') \<and>
     (\<forall>s e s'. ParseExclusiveOrExpression n s = Some (e, s') \<longrightarrow> marks_error e s') \<and>
     (\<forall>s e s'. ParseAndExpression n s = Some (e, s') \<longrightarrow> marks_error e s') \<and>
     (\<forall>s e s'. ParseEqualityExpression n s = Some (e, s') \<longrightarrow> marks_error e s') \<and>
     (\<forall>s e s'. ParseRelationalExpression n s = Some (e, s') \<longrightarrow> marks_error e s') \<and>
     (\<forall>s e s'. ParseShiftExpression n s = Some (e, s') \<longrightarrow> marks_error e s') \<and>
     (\<forall>s e s'. ParseAdditiveExpression n s = Some (e, s') \<longrightarrow> marks_error e s') \<and>
     (\<forall>s e s'. ParseMultiplicativeExpression n s = Some (e, s') \<longrightarrow> marks_error e s') \<and>
     (\<forall>s e s'. ParseCastExpression n s = Some (e, s') \<longrightarrow> marks_error e s') \<and>
     (\<forall>s e s'. ParseUnaryExpression n s = Some (e, s') \<longrightarrow> marks_error e s') \<and>
     (\<forall>s e s'. ParsePostfixExpression n s = Some (e, s') \<longrightarrow> marks_error e s') \<and>
     (\<forall>s e s'. ParsePrimaryExpression n s = Some (e, s') \<longrightarrow> marks_error e s') \<and>
     (\<forall>lhs s e s'. marks_error lhs s \<longrightarrow> ParsePostfixOperators n lhs s = Some (e, s')
        \<longrightarrow> marks_error e s')"

section \<open>Inputs for the examples\<close>

definition mk_token :: "TokenKind \<Rightarrow> string \<Rightarrow> nat \<Rightarrow> Token" where
  "mk_token k sp loc = \<lparr>kind = k, spelling = sp, location = loc\<rparr>"

text \<open>What the literal parser reports for an integer literal without a suffix.\<close>

definition integer_literal :: "nat \<Rightarrow> nat \<Rightarrow> NumericLiteral" where
  "integer_literal radix v =
     \<lparr>hadError = False, isFloatingLiteral = False, isIntegerLiteral = True, isUnsigned = False,
      isLong = False, isLongLong = False, isFloat = False, getRadix = radix, integer_value = v,
      float_overflow = False, float_underflow = False, float_is_zero = False\<rparr>"

text \<open>A platform with 32-bit \<^verbatim>\<open>int\<close> and 64-bit \<^verbatim>\<open>long\<close> and \<^verbatim>\<open>long long\<close>, and a context
  that knows the given types and values and the literal \<^verbatim>\<open>1\<close>.\<close>

definition lp64 :: TypeWidths where
  "lp64 = \<lparr>int_size = 32, long_size = 64, long_long_size = 64, uintmax_size = 64\<rparr>"

definition context_with :: "(string \<Rightarrow> SBType option) \<Rightarrow> (string \<Rightarrow> SBValue option) \<Rightarrow> Context" where
  "context_with types vals =
     \<lparr>ResolveTypeByName = types, LookupIdentifier = vals,
      NumericLiteralParser = (\<lambda>sp. if sp = ''1'' then integer_literal 10 1
                                    else (integer_literal 10 0)\<lparr>hadError := True\<rparr>),
      type_width = lp64\<rparr>"

text \<open>The token sequences of \<^verbatim>\<open>1 <<\<close>, \<^verbatim>\<open>(foo)\<close> and \<^verbatim>\<open>:: 1\<close>.\<close>

definition tokens_1_shl :: "Token list" where
  "tokens_1_shl = [mk_token tok_numeric_constant ''1'' 0, mk_token tok_lessless ''<<'' 2]"

definition tokens_paren_foo :: "Token list" where
  "tokens_paren_foo =
     [mk_token tok_l_paren ''('' 0, mk_token tok_identifier ''foo'' 1, mk_token tok_r_paren '')'' 4]"

definition tokens_scope_1 :: "Token list" where
  "tokens_scope_1 = [mk_token tok_coloncolon ''::'' 0, mk_token tok_numeric_constant ''1'' 3]"

definition tokens_a_less_1 :: "Token list" where
  "tokens_a_less_1 =
     [mk_token tok_identifier ''a'' 0, mk_token tok_less ''<'' 2,
      mk_token tok_numeric_constant ''1'' 4]"

section \<open>Reference definitions for termination\<close>

text \<open>A call returns, with a result that satisfies \<open>Q\<close>.\<close>

definition returns :: "'a option \<Rightarrow> ('a \<Rightarrow> bool) \<Rightarrow> bool" where
  "returns x Q \<longleftrightarrow> (\<exists>y. x = Some y \<and> Q y)"

text \<open>How much \<^verbatim>\<open>ConsumeToken\<close> takes off what is left of the input, and that amount less
  one.\<close>

definition consumed :: "Parser \<Rightarrow> nat" where
  "consumed s = remaining s - remaining (ConsumeToken s)"

definition consumed_more :: "Parser \<Rightarrow> nat" where
  "consumed_more s = consumed s - 1"

definition remaining_more :: "Parser \<Rightarrow> nat" where
  "remaining_more s = remaining s - 1"

text \<open>The statement, for a given bound, that each function for type ids and names returns
  when the bound is at least 24 times what is left of the input plus the rank of the
  function, and that it leaves no more input than it found. Where a loop relies on it, a
  successful result comes with less input left. The loop over the template arguments is
  entered at a comma in every round but the first.\<close>

definition types_return :: "nat \<Rightarrow> bool" where
  "types_return n \<longleftrightarrow>
     (\<forall>s. 24 * remaining s + 5 \<le> n \<longrightarrow>
        returns (ParseTypeId n s) (\<lambda>(r, s'). remaining s' \<le> remaining s)) \<and>
     (\<forall>td s. 24 * remaining s + 4 \<le> n \<longrightarrow>
        returns (ParseTypeSpecifierSeq n td s) (\<lambda>(r, s'). remaining s' \<le> remaining s)) \<and>
     (\<forall>td s. 24 * remaining s + 3 \<le> n \<longrightarrow>
        returns (ParseTypeSpecifier n td s)
          (\<lambda>(b, r, s'). remaining s' \<le> remaining s \<and> (b \<longrightarrow> remaining s' < remaining s))) \<and>
     (\<forall>s. 24 * remaining s + 2 \<le> n \<longrightarrow>
        returns (ParseNestedNameSpecifier n s) (\<lambda>(r, s'). remaining s' \<le> remaining s)) \<and>
     (\<forall>s. 24 * remaining s + 1 \<le> n \<longrightarrow>
        returns (ParseTypeName n s)
          (\<lambda>(r, s'). remaining s' \<le> remaining s \<and> (r \<noteq> [] \<longrightarrow> remaining s' < remaining s))) \<and>
     (\<forall>s. 24 * remaining s + 9 \<le> n \<longrightarrow>
        returns (ParseTemplateArgumentList n s) (\<lambda>(r, s'). remaining s' \<le> remaining s)) \<and>
     (\<forall>a s. (a \<noteq> [] \<longrightarrow> kind (token s) = tok_comma) \<longrightarrow>
        24 * remaining s + (if a = [] then 8 else 7) \<le> n \<longrightarrow>
        returns (ParseTemplateArguments n a s) (\<lambda>(r, s'). remaining s' \<le> remaining s)) \<and>
     (\<forall>s. 24 * remaining s + 6 \<le> n \<longrightarrow>
        returns (ParseTemplateArgument n s) (\<lambda>(r, s'). remaining s' \<le> remaining s)) \<and>
     (\<forall>s. 24 * remaining s + 3 \<le> n \<longrightarrow>
        returns (ParseIdExpression n s) (\<lambda>(r, s'). remaining s' \<le> remaining s))"

text \<open>The same statement for the expression functions, with their ranks.\<close>

definition exprs_return :: "nat \<Rightarrow> bool" where
  "exprs_return n \<longleftrightarrow>
     (\<forall>s. 24 * remaining s + 20 \<le> n \<longrightarrow>
        returns (ParseExpression n s) (\<lambda>(r, s'). remaining s' \<le> remaining s)) \<and>
     (\<forall>s. 24 * remaining s + 19 \<le> n \<longrightarrow>
        returns (ParseAssignmentExpression n s) (\<lambda>(r, s'). remaining s' \<le> remaining s)) \<and>
     (\<forall>s. 24 * remaining s + 18 \<le> n \<longrightarrow>
        returns (ParseConditionalExpression n s) (\<lambda>(r, s'). remaining s' \<le> remaining s)) \<and>
     (\<forall>s. 24 * remaining s + 17 \<le> n \<longrightarrow>
        returns (ParseLogicalOrExpression n s) (\<lambda>(r, s'). remaining s' \<le> remaining s)) \<and>
     (\<forall>s. 24 * remaining s + 16 \<le> n \<longrightarrow>
        returns (ParseLogicalAndExpression n s) (\<lambda>(r, s'). remaining s' \<le> remaining s)) \<and>
     (\<forall>s. 24 * remaining s + 15 \<le> n \<longrightarrow>
        returns (ParseInclusiveOrExpression n s) (\<lambda>(r, s'). remaining s' \<le> remaining s)) \<and>
     (\<forall>s. 24 * remaining s + 14 \<le> n \<longrightarrow>
        returns (ParseExclusiveOrExpression n s) (\<lambda>(r, s'). remaining s' \<le> remaining s)) \<and>
     (\<forall>s. 24 * remaining s + 13 \<le> n \<longrightarrow>
        returns (ParseAndExpression n s) (\<lambda>(r, s'). remaining s' \<le> remaining s)) \<and>
     (\<forall>s. 24 * remaining s + 12 \<le> n \<longrightarrow>
        returns (ParseEqualityExpression n s) (\<lambda>(r, s'). remaining s' \<le> remaining s)) \<and>
     (\<forall>s. 24 * remaining s + 11 \<le> n \<longrightarrow>
        returns (ParseRelationalExpression n s) (\<lambda>(r, s'). remaining s' \<le> remaining s)) \<and>
     (\<forall>s. 24 * remaining s + 10 \<le> n \<longrightarrow>
        returns (ParseShiftExpression n s) (\<lambda>(r, s'). remaining s' \<le> remaining s)) \<and>
     (\<forall>s. 24 * remaining s + 9 \<le> n \<longrightarrow>
        returns (ParseAdditiveExpression n s) (\<lambda>(r, s'). remaining s' \<le> remaining s)) \<and>
     (\<forall>s. 24 * remaining s + 8 \<le> n \<longrightarrow>
        returns (ParseMultiplicativeExpression n s) (\<lambda>(r, s'). remaining s' \<le> remaining s)) \<and>
     (\<forall>s. 24 * remaining s + 7 \<le> n \<longrightarrow>
        returns (ParseCastExpression n s) (\<lambda>(r, s'). remaining s' \<le> remaining s)) \<and>
     (\<forall>s. 24 * remaining s + 6 \<le> n \<longrightarrow>
        returns (ParseUnaryExpression n s) (\<lambda>(r, s'). remaining s' \<le> remaining s)) \<and>
     (\<forall>s. 24 * remaining s + 5 \<le> n \<longrightarrow>
        returns (ParsePostfixExpression n s) (\<lambda>(r, s'). remaining s' \<le> remaining s)) \<and>
     (\<forall>s. 24 * remaining s + 4 \<le> n \<longrightarrow>
        returns (ParsePrimaryExpression n s) (\<lambda>(r, s'). remaining s' \<le> remaining s)) \<and>
     (\<forall>lhs s. 24 * remaining s + 1 \<le> n \<longrightarrow>
        returns (ParsePostfixOperators n lhs s) (\<lambda>(r, s'). remaining s' \<le> remaining s))"

text \<open>What a call returns under one bound it returns under another.\<close>

definition carries_over :: "'a option \<Rightarrow> 'a option \<Rightarrow> bool" where
  "carries_over x y \<longleftrightarrow> (\<forall>r. x = Some r \<longrightarrow> y = Some r)"

text \<open>The statement, for a given bound, that a function for type ids and names that returns
  under the bound returns the same under the bound raised by \<open>k\<close>.\<close>

definition types_bound_mono :: "nat \<Rightarrow> nat \<Rightarrow> bool" where
  "types_bound_mono n k \<longleftrightarrow>
     (\<forall>s. carries_over (ParseTypeId n s) (ParseTypeId (n + k) s)) \<and>
     (\<forall>td s. carries_over (ParseTypeSpecifierSeq n td s) (ParseTypeSpecifierSeq (n + k) td s)) \<and>
     (\<forall>td s. carries_over (ParseTypeSpecifier n td s) (ParseTypeSpecifier (n + k) td s)) \<and>
     (\<forall>s. carries_over (ParseNestedNameSpecifier n s) (ParseNestedNameSpecifier (n + k) s)) \<and>
     (\<forall>s. carries_over (ParseTypeName n s) (ParseTypeName (n + k) s)) \<and>
     (\<forall>s. carries_over (ParseTemplateArgumentList n s) (ParseTemplateArgumentList (n + k) s)) \<and>
     (\<forall>a s. carries_over (ParseTemplateArguments n a s) (ParseTemplateArguments (n + k) a s)) \<and>
     (\<forall>s. carries_over (ParseTemplateArgument n s) (ParseTemplateArgument (n + k) s)) \<and>
     (\<forall>s. carries_over (ParseIdExpression n s) (ParseIdExpression (n + k) s))"

text \<open>The same statement for the expression functions.\<close>

definition exprs_bound_mono :: "nat \<Rightarrow> nat \<Rightarrow> bool" where
  "exprs_bound_mono n k \<longleftrightarrow>
     (\<forall>s. carries_over (ParseExpression n s) (ParseExpression (n + k) s)) \<and>
     (\<forall>s. carries_over (ParseAssignmentExpression n s) (ParseAssignmentExpression (n + k) s)) \<and>
     (\<forall>s. carries_over (ParseConditionalExpression n s) (ParseConditionalExpression (n + k) s)) \<and>
     (\<forall>s. carries_over (ParseLogicalOrExpression n s) (ParseLogicalOrExpression (n + k) s)) \<and>
     (\<forall>s. carries_over (ParseLogicalAndExpression n s) (ParseLogicalAndExpression (n + k) s)) \<and>
     (\<forall>s. carries_over (ParseInclusiveOrExpression n s) (ParseInclusiveOrExpression (n + k) s)) \<and>
     (\<forall>s. carries_over (ParseExclusiveOrExpression n s) (ParseExclusiveOrExpression (n + k) s)) \<and>
     (\<forall>s. carries_over (ParseAndExpression n s) (ParseAndExpression (n + k) s)) \<and>
     (\<forall>s. carries_over (ParseEqualityExpression n s) (ParseEqualityExpression (n + k) s)) \<and>
     (\<forall>s. carries_over (ParseRelationalExpression n s) (ParseRelationalExpression (n + k) s)) \<and>
     (\<forall>s. carries_over (ParseShiftExpression n s) (ParseShiftExpression (n + k) s)) \<and>
     (\<forall>s. carries_over (ParseAdditiveExpression n s) (ParseAdditiveExpression (n + k) s)) \<and>
     (\<forall>s. carries_over (ParseMultiplicativeExpression n s) (ParseMultiplicativeExpression (n + k) s)) \<and>
     (\<forall>s. carries_over (ParseCastExpression n s) (ParseCastExpression (n + k) s)) \<and>
     (\<forall>s. carries_over (ParseUnaryExpression n s) (ParseUnaryExpression (n + k) s)) \<and>
     (\<forall>s. carries_over (ParsePostfixExpression n s) (ParsePostfixExpression (n + k) s)) \<and>
     (\<forall>s. carries_over (ParsePrimaryExpression n s) (ParsePrimaryExpression (n + k) s)) \<and>
     (\<forall>lhs s. carries_over (ParsePostfixOperators n lhs s) (ParsePostfixOperators (n + k) lhs s))"

section \<open>Properties of the textual form of a type declaration\<close>

lemma str_find_None_iff: "str_find s old_value = None \<longleftrightarrow> \<not> sublist old_value s"
proof (induction s)
  case Nil
  then show ?case by auto
next
  case (Cons c cs)
  then show ?case by (auto simp: sublist_Cons_right)
qed

lemma str_find_leftmost:
  assumes "\<not> sublist old_value (p @ butlast old_value)"
  shows "str_find (p @ old_value @ q) old_value = Some (length p)"
  using assms
proof (induction p)
  case Nil
  then show ?case by (cases old_value) auto
next
  case (Cons c p)
  have np: "\<not> prefix old_value (c # p @ old_value @ q)"
  proof
    assume pr: "prefix old_value (c # p @ old_value @ q)"
    have ne: "old_value \<noteq> []" using Cons.prems by auto
    have eq: "c # p @ old_value @ q = (c # p @ butlast old_value) @ (last old_value # q)"
      using ne by simp
    have p2: "prefix (c # p @ butlast old_value) (c # p @ old_value @ q)"
      unfolding eq by (rule prefixI) simp
    have "length old_value \<le> length (c # p @ butlast old_value)"
      using ne by (cases old_value) auto
    with pr p2 have "prefix old_value (c # p @ butlast old_value)"
      by (rule prefix_length_prefix)
    then have "sublist old_value ((c # p) @ butlast old_value)"
      by (simp add: prefix_imp_sublist)
    then show False using Cons.prems by simp
  qed
  have "\<not> sublist old_value (p @ butlast old_value)"
    using Cons.prems by (auto simp: sublist_Cons_right)
  then show ?case using Cons.IH np by simp
qed

lemma StringReplace_leftmost_rewrite:
  "leftmost_rewrite old_value new_value s r \<Longrightarrow> StringReplace s old_value new_value = r"
proof (induction rule: leftmost_rewrite.induct)
  case (absent old_value s new_value)
  then show ?case by (simp add: StringReplace_def str_find_None_iff[symmetric])
next
  case (leftmost old_value p new_value q)
  then show ?case by (simp add: StringReplace_def str_find_leftmost str_replace_def)
qed

lemma append_ptr_operators_eq:
  "append_ptr_operators name tks =
     name @ concat (map (\<lambda>tk. if tk = tok_star then ''*'' else if tk = tok_amp then ''&'' else []) tks)"
  by (induction tks arbitrary: name) auto

text \<open>C9. \<^verbatim>\<open>GetName\<close> is the base name alone when there is no pointer operator; otherwise it
  is the base name, one space, and then one \<^verbatim>\<open>*\<close> per star and one \<^verbatim>\<open>&\<close> per ampersand,
  in order and with nothing between them.\<close>

theorem GetName_form:
  "GetName td =
     (if ptr_operators td = [] then GetBaseName td
      else GetBaseName td @ '' '' @
           concat (map (\<lambda>tk. if tk = tok_star then ''*'' else if tk = tok_amp then ''&'' else [])
                       (ptr_operators td)))"
  by (simp add: GetName_def append_ptr_operators_eq Let_def)

text \<open>C3, as stated, fails: with two occurrences of \<^verbatim>\<open>short int\<close> in the joined typenames the
  base name still contains one, since \<^verbatim>\<open>StringReplace\<close> replaces a single occurrence.\<close>

theorem GetBaseName_keeps_second_occurrence:
  "sublist ''short int''
     (GetBaseName \<lparr>typenames = [''short'', ''int'', ''short'', ''int''], ptr_operators = []\<rparr>)"
proof -
  have "str_find
          (GetBaseName \<lparr>typenames = [''short'', ''int'', ''short'', ''int''], ptr_operators = []\<rparr>)
          ''short int'' = Some 6"
    by (simp add: GetBaseName_def StringReplace_def str_replace_def)
  then show ?thesis using str_find_None_iff by (metis option.distinct(1))
qed

text \<open>C3, amended. \<^verbatim>\<open>GetBaseName\<close> rewrites the leftmost occurrence of \<^verbatim>\<open>short int\<close> in the
  space-joined typenames to \<^verbatim>\<open>short\<close>, and then the leftmost occurrence of \<^verbatim>\<open>long int\<close> in
  that result to \<^verbatim>\<open>long\<close>; nothing else changes.\<close>

theorem GetBaseName_leftmost_rewrites:
  assumes "leftmost_rewrite ''short int'' ''short'' (join_range '' '' (typenames td)) s1"
    and "leftmost_rewrite ''long int'' ''long'' s1 s2"
  shows "GetBaseName td = s2"
  using assms by (simp add: GetBaseName_def StringReplace_leftmost_rewrite)

theorem GetBaseName_leftmost_rewrites_witness:
  "GetBaseName \<lparr>typenames = [''long'', ''long'', ''int''], ptr_operators = []\<rparr> = ''long long''"
proof -
  have a: "leftmost_rewrite ''short int'' ''short''
             (join_range '' '' (typenames \<lparr>typenames = [''long'', ''long'', ''int''], ptr_operators = []\<rparr>))
             ''long long int''"
    using leftmost_rewrite.absent [of "''short int''" "''long long int''" "''short''"]
    by (simp add: str_find_None_iff [symmetric])
  have b: "leftmost_rewrite ''long int'' ''long'' ''long long int'' ''long long''"
    using leftmost_rewrite.leftmost [of "''long int''" "''long ''" "''long''" "[]"]
    by (simp add: str_find_None_iff [symmetric])
  show ?thesis by (rule GetBaseName_leftmost_rewrites [OF a b])
qed

section \<open>The input is never written\<close>

lemma input_of_ConsumeToken [simp]: "input_of (ConsumeToken s) = input_of s"
  by (simp add: input_of_def ConsumeToken_def Lex_def)

lemma input_of_BailOut [simp]: "input_of (BailOut code msg loc s) = input_of s"
  by (simp add: input_of_def BailOut_def)

lemma input_of_Expect [simp]: "input_of (Expect k s) = input_of s"
  by (simp add: Expect_def)

lemma input_of_ExpectOneOf [simp]: "input_of (ExpectOneOf ks s) = input_of s"
  by (simp add: ExpectOneOf_def)

lemma input_of_Commit [simp]: "input_of (Commit t s) = input_of s"
  by (simp add: Commit_def)

lemma input_of_Rollback [simp]: "input_of (Rollback t s) = input_of s"
  by (simp add: input_of_def Rollback_def)

lemma input_of_ParseUnqualifiedId [simp]: "input_of (snd (ParseUnqualifiedId s)) = input_of s"
  by (simp add: ParseUnqualifiedId_def Let_def)

lemma input_of_ConsumeCvQualifiers [simp]: "input_of (ConsumeCvQualifiers s) = input_of s"
proof (induction s rule: ConsumeCvQualifiers.induct)
  case (1 s)
  then show ?case by (subst ConsumeCvQualifiers.simps) simp
qed

lemma input_of_ParsePtrOperator [simp]: "input_of (snd (ParsePtrOperator td s)) = input_of s"
  by (simp add: ParsePtrOperator_def Let_def)

lemma input_of_ParsePtrOperators [simp]: "input_of (snd (ParsePtrOperators td s)) = input_of s"
proof (induction td s rule: ParsePtrOperators.induct)
  case (1 td s)
  show ?case
  proof (cases "IsPtrOperator (token s)")
    case True
    obtain td1 s1 where p: "ParsePtrOperator td s = (td1, s1)" by (cases "ParsePtrOperator td s")
    have "input_of s1 = input_of s" using input_of_ParsePtrOperator [of td s] p by simp
    moreover have "input_of (snd (ParsePtrOperators td1 s1)) = input_of s1"
      using 1 [OF True p [symmetric]] .
    ultimately show ?thesis using True p by (subst ParsePtrOperators.simps) simp
  next
    case False
    then show ?thesis by (subst ParsePtrOperators.simps) simp
  qed
qed

lemma input_of_pairs:
  "ParseUnqualifiedId s = (r1, s') \<Longrightarrow> input_of s' = input_of s"
  "ParsePtrOperator td s = (r2, s') \<Longrightarrow> input_of s' = input_of s"
  "ParsePtrOperators td s = (r2, s') \<Longrightarrow> input_of s' = input_of s"
  using input_of_ParseUnqualifiedId [of s] input_of_ParsePtrOperator [of td s]
    input_of_ParsePtrOperators [of td s]
  by simp_all

lemma Rollback_restores:
  "input_of s1 = input_of s \<Longrightarrow> Rollback (new_TentativeParsingAction s) s1 = s"
  by (cases s, cases s1) (simp add: Rollback_def new_TentativeParsingAction_def input_of_def)

lemma types_keep_inputD:
  assumes "types_keep_input n"
  shows "ParseTypeId n s = Some (r1, s') \<Longrightarrow> input_of s' = input_of s"
    and "ParseTypeSpecifierSeq n td s = Some (r2, s') \<Longrightarrow> input_of s' = input_of s"
    and "ParseTypeSpecifier n td s = Some (b, r3, s') \<Longrightarrow> input_of s' = input_of s"
    and "ParseNestedNameSpecifier n s = Some (r4, s') \<Longrightarrow> input_of s' = input_of s"
    and "ParseTypeName n s = Some (r5, s') \<Longrightarrow> input_of s' = input_of s"
    and "ParseTemplateArgumentList n s = Some (r6, s') \<Longrightarrow> input_of s' = input_of s"
    and "ParseTemplateArguments n a s = Some (r7, s') \<Longrightarrow> input_of s' = input_of s"
    and "ParseTemplateArgument n s = Some (r8, s') \<Longrightarrow> input_of s' = input_of s"
    and "ParseIdExpression n s = Some (r9, s') \<Longrightarrow> input_of s' = input_of s"
  using assms by (simp_all add: types_keep_input_def)

lemma tki_TypeId:
  assumes ih: "types_keep_input n" and p: "ParseTypeId (Suc n) s = Some (r, s')"
  shows "input_of s' = input_of s"
  using p
  by (auto simp: bind_eq_Some_conv Let_def split: if_splits prod.splits
      dest!: types_keep_inputD [OF ih] input_of_pairs)

lemma tki_TypeSpecifierSeq:
  assumes ih: "types_keep_input n" and p: "ParseTypeSpecifierSeq (Suc n) td s = Some (r, s')"
  shows "input_of s' = input_of s"
  using p
  by (auto simp: bind_eq_Some_conv Let_def split: if_splits prod.splits
      dest!: types_keep_inputD [OF ih] input_of_pairs)

lemma tki_TypeSpecifier:
  assumes ih: "types_keep_input n" and p: "ParseTypeSpecifier (Suc n) td s = Some (b, r, s')"
  shows "input_of s' = input_of s"
  using p
  by (auto simp: bind_eq_Some_conv Let_def split: if_splits prod.splits
      dest!: types_keep_inputD [OF ih] input_of_pairs)

lemma tki_NestedNameSpecifier:
  assumes ih: "types_keep_input n" and p: "ParseNestedNameSpecifier (Suc n) s = Some (r, s')"
  shows "input_of s' = input_of s"
  using p
  by (auto simp: bind_eq_Some_conv Let_def split: if_splits prod.splits
      dest!: types_keep_inputD [OF ih] input_of_pairs)

lemma tki_TypeName:
  assumes ih: "types_keep_input n" and p: "ParseTypeName (Suc n) s = Some (r, s')"
  shows "input_of s' = input_of s"
  using p
  by (auto simp: bind_eq_Some_conv Let_def split: if_splits prod.splits
      dest!: types_keep_inputD [OF ih] input_of_pairs)

lemma tki_TemplateArgumentList:
  assumes ih: "types_keep_input n" and p: "ParseTemplateArgumentList (Suc n) s = Some (r, s')"
  shows "input_of s' = input_of s"
  using p
  by (auto simp: bind_eq_Some_conv Let_def split: if_splits prod.splits
      dest!: types_keep_inputD [OF ih] input_of_pairs)

lemma tki_TemplateArguments:
  assumes ih: "types_keep_input n" and p: "ParseTemplateArguments (Suc n) a s = Some (r, s')"
  shows "input_of s' = input_of s"
  using p
  by (auto simp: bind_eq_Some_conv Let_def split: if_splits prod.splits
      dest!: types_keep_inputD [OF ih] input_of_pairs)

lemma tki_TemplateArgument:
  assumes ih: "types_keep_input n" and p: "ParseTemplateArgument (Suc n) s = Some (r, s')"
  shows "input_of s' = input_of s"
  using p
  by (auto simp: bind_eq_Some_conv Let_def split: if_splits prod.splits
      dest!: types_keep_inputD [OF ih] input_of_pairs)

lemma tki_IdExpression:
  assumes ih: "types_keep_input n" and p: "ParseIdExpression (Suc n) s = Some (r, s')"
  shows "input_of s' = input_of s"
  using p
  by (auto simp: bind_eq_Some_conv Let_def split: if_splits prod.splits
      dest!: types_keep_inputD [OF ih] input_of_pairs)

lemma types_keep_input: "types_keep_input n"
proof (induction n)
  case 0
  show ?case by (simp add: types_keep_input_def)
next
  case (Suc n)
  show ?case
    unfolding types_keep_input_def
    using tki_TypeId [OF Suc] tki_TypeSpecifierSeq [OF Suc] tki_TypeSpecifier [OF Suc]
      tki_NestedNameSpecifier [OF Suc] tki_TypeName [OF Suc] tki_TemplateArgumentList [OF Suc]
      tki_TemplateArguments [OF Suc] tki_TemplateArgument [OF Suc] tki_IdExpression [OF Suc]
    by blast
qed

section \<open>An error node comes with a recorded error\<close>

lemma error_BailOut [simp]: "error (BailOut code msg loc s) \<noteq> None"
  by (simp add: BailOut_def)

lemma error_BailOut_ex [simp]: "\<exists>a b c. error (BailOut code msg loc s) = Some (a, b, c)"
  by (cases "error s") (auto simp: BailOut_def)

lemma error_ConsumeToken [simp]: "error (ConsumeToken s) = error s"
  by (simp add: ConsumeToken_def Lex_def)

lemma error_Expect: "error s \<noteq> None \<Longrightarrow> error (Expect k s) \<noteq> None"
  by (simp add: Expect_def)

lemma marks_error_simps [simp]:
  "marks_error ErrorNode s \<longleftrightarrow> error s \<noteq> None"
  "marks_error (LiteralNode v) s"
  "marks_error (IdentifierNode i w) s"
  "marks_error (CStyleCastNode t e) s"
  "marks_error (MemberOfNode m e i) s"
  "marks_error (BinaryOpNode k a b) s"
  "marks_error (UnaryOpNode k a) s"
  "marks_error (TernaryOpNode a b c) s"
  by (simp_all add: marks_error_def)

lemma marks_error_ConsumeToken [simp]: "marks_error e (ConsumeToken s) \<longleftrightarrow> marks_error e s"
  by (simp add: marks_error_def)

lemma marks_error_Expect [simp]: "marks_error e s \<Longrightarrow> marks_error e (Expect k s)"
  by (auto simp: marks_error_def error_Expect)

lemma marks_error_literals:
  "ParseNumericLiteral s = (e, s') \<Longrightarrow> marks_error e s'"
  "ParseBooleanLiteral s = (e, s') \<Longrightarrow> marks_error e s'"
  "ParsePointerLiteral s = (e, s') \<Longrightarrow> marks_error e s'"
  by (auto simp: ParseNumericLiteral_def ParseNumericConstant_def ParseFloatingLiteral_def
      ParseIntegerLiteral_def ParseBooleanLiteral_def ParsePointerLiteral_def Let_def
      split: if_splits prod.splits)

lemma ResolveTypeDeclarators_None:
  "ResolveTypeDeclarators type tks s = (None, s') \<Longrightarrow> error s' \<noteq> None"
  by (induction tks arbitrary: type) (auto split: if_splits)

lemma marks_error_ParseBinaryOperands:
  "marks_error lhs s \<Longrightarrow> ParseBinaryOperands k ops operand lhs s = Some (e, s')
     \<Longrightarrow> marks_error e s'"
proof (induction k arbitrary: lhs s)
  case 0
  then show ?case by simp
next
  case (Suc k)
  show ?case
  proof (cases "kind (token s) \<in> set ops")
    case True
    with Suc.prems(2) obtain rhs s2 where
      "ParseBinaryOperands k ops operand (BinaryOpNode (kind (token s)) lhs rhs) s2 = Some (e, s')"
      by (auto simp: bind_eq_Some_conv Let_def)
    then show ?thesis by (rule Suc.IH [rotated]) simp
  next
    case False
    with Suc.prems show ?thesis by simp
  qed
qed

lemma error_node_recordedD:
  assumes "error_node_recorded n"
  shows "ParseExpression n s = Some (e, s') \<Longrightarrow> marks_error e s'"
    and "ParseAssignmentExpression n s = Some (e, s') \<Longrightarrow> marks_error e s'"
    and "ParseConditionalExpression n s = Some (e, s') \<Longrightarrow> marks_error e s'"
    and "ParseLogicalOrExpression n s = Some (e, s') \<Longrightarrow> marks_error e s'"
    and "ParseLogicalAndExpression n s = Some (e, s') \<Longrightarrow> marks_error e s'"
    and "ParseInclusiveOrExpression n s = Some (e, s') \<Longrightarrow> marks_error e s'"
    and "ParseExclusiveOrExpression n s = Some (e, s') \<Longrightarrow> marks_error e s'"
    and "ParseAndExpression n s = Some (e, s') \<Longrightarrow> marks_error e s'"
    and "ParseEqualityExpression n s = Some (e, s') \<Longrightarrow> marks_error e s'"
    and "ParseRelationalExpression n s = Some (e, s') \<Longrightarrow> marks_error e s'"
    and "ParseShiftExpression n s = Some (e, s') \<Longrightarrow> marks_error e s'"
    and "ParseAdditiveExpression n s = Some (e, s') \<Longrightarrow> marks_error e s'"
    and "ParseMultiplicativeExpression n s = Some (e, s') \<Longrightarrow> marks_error e s'"
    and "ParseCastExpression n s = Some (e, s') \<Longrightarrow> marks_error e s'"
    and "ParseUnaryExpression n s = Some (e, s') \<Longrightarrow> marks_error e s'"
    and "ParsePostfixExpression n s = Some (e, s') \<Longrightarrow> marks_error e s'"
    and "ParsePrimaryExpression n s = Some (e, s') \<Longrightarrow> marks_error e s'"
    and "ParsePostfixOperators n lhs s = Some (e, s') \<Longrightarrow> marks_error lhs s \<Longrightarrow> marks_error e s'"
  using assms by (simp_all add: error_node_recorded_def)

lemma enr_Expression:
  assumes ih: "error_node_recorded n" and p: "ParseExpression (Suc n) s = Some (e, s')"
  shows "marks_error e s'"
  using p
  by (auto simp: bind_eq_Some_conv Let_def split: if_splits prod.splits option.splits
      dest!: error_node_recordedD [OF ih] marks_error_literals ResolveTypeDeclarators_None
      dest: marks_error_ParseBinaryOperands)

lemma enr_AssignmentExpression:
  assumes ih: "error_node_recorded n" and p: "ParseAssignmentExpression (Suc n) s = Some (e, s')"
  shows "marks_error e s'"
  using p
  by (auto simp: bind_eq_Some_conv Let_def split: if_splits prod.splits option.splits
      dest!: error_node_recordedD [OF ih] marks_error_literals ResolveTypeDeclarators_None
      dest: marks_error_ParseBinaryOperands)

lemma enr_ConditionalExpression:
  assumes ih: "error_node_recorded n" and p: "ParseConditionalExpression (Suc n) s = Some (e, s')"
  shows "marks_error e s'"
  using p
  by (auto simp: bind_eq_Some_conv Let_def split: if_splits prod.splits option.splits
      dest!: error_node_recordedD [OF ih] marks_error_literals ResolveTypeDeclarators_None
      dest: marks_error_ParseBinaryOperands)

lemma enr_LogicalOrExpression:
  assumes ih: "error_node_recorded n" and p: "ParseLogicalOrExpression (Suc n) s = Some (e, s')"
  shows "marks_error e s'"
  using p
  by (auto simp: bind_eq_Some_conv Let_def split: if_splits prod.splits option.splits
      dest!: error_node_recordedD [OF ih] marks_error_literals ResolveTypeDeclarators_None
      dest: marks_error_ParseBinaryOperands)

lemma enr_LogicalAndExpression:
  assumes ih: "error_node_recorded n" and p: "ParseLogicalAndExpression (Suc n) s = Some (e, s')"
  shows "marks_error e s'"
  using p
  by (auto simp: bind_eq_Some_conv Let_def split: if_splits prod.splits option.splits
      dest!: error_node_recordedD [OF ih] marks_error_literals ResolveTypeDeclarators_None
      dest: marks_error_ParseBinaryOperands)

lemma enr_InclusiveOrExpression:
  assumes ih: "error_node_recorded n" and p: "ParseInclusiveOrExpression (Suc n) s = Some (e, s')"
  shows "marks_error e s'"
  using p
  by (auto simp: bind_eq_Some_conv Let_def split: if_splits prod.splits option.splits
      dest!: error_node_recordedD [OF ih] marks_error_literals ResolveTypeDeclarators_None
      dest: marks_error_ParseBinaryOperands)

lemma enr_ExclusiveOrExpression:
  assumes ih: "error_node_recorded n" and p: "ParseExclusiveOrExpression (Suc n) s = Some (e, s')"
  shows "marks_error e s'"
  using p
  by (auto simp: bind_eq_Some_conv Let_def split: if_splits prod.splits option.splits
      dest!: error_node_recordedD [OF ih] marks_error_literals ResolveTypeDeclarators_None
      dest: marks_error_ParseBinaryOperands)

lemma enr_AndExpression:
  assumes ih: "error_node_recorded n" and p: "ParseAndExpression (Suc n) s = Some (e, s')"
  shows "marks_error e s'"
  using p
  by (auto simp: bind_eq_Some_conv Let_def split: if_splits prod.splits option.splits
      dest!: error_node_recordedD [OF ih] marks_error_literals ResolveTypeDeclarators_None
      dest: marks_error_ParseBinaryOperands)

lemma enr_EqualityExpression:
  assumes ih: "error_node_recorded n" and p: "ParseEqualityExpression (Suc n) s = Some (e, s')"
  shows "marks_error e s'"
  using p
  by (auto simp: bind_eq_Some_conv Let_def split: if_splits prod.splits option.splits
      dest!: error_node_recordedD [OF ih] marks_error_literals ResolveTypeDeclarators_None
      dest: marks_error_ParseBinaryOperands)

lemma enr_RelationalExpression:
  assumes ih: "error_node_recorded n" and p: "ParseRelationalExpression (Suc n) s = Some (e, s')"
  shows "marks_error e s'"
  using p
  by (auto simp: bind_eq_Some_conv Let_def split: if_splits prod.splits option.splits
      dest!: error_node_recordedD [OF ih] marks_error_literals ResolveTypeDeclarators_None
      dest: marks_error_ParseBinaryOperands)

lemma enr_ShiftExpression:
  assumes ih: "error_node_recorded n" and p: "ParseShiftExpression (Suc n) s = Some (e, s')"
  shows "marks_error e s'"
  using p
  by (auto simp: bind_eq_Some_conv Let_def split: if_splits prod.splits option.splits
      dest!: error_node_recordedD [OF ih] marks_error_literals ResolveTypeDeclarators_None
      dest: marks_error_ParseBinaryOperands)

lemma enr_AdditiveExpression:
  assumes ih: "error_node_recorded n" and p: "ParseAdditiveExpression (Suc n) s = Some (e, s')"
  shows "marks_error e s'"
  using p
  by (auto simp: bind_eq_Some_conv Let_def split: if_splits prod.splits option.splits
      dest!: error_node_recordedD [OF ih] marks_error_literals ResolveTypeDeclarators_None
      dest: marks_error_ParseBinaryOperands)

lemma enr_MultiplicativeExpression:
  assumes ih: "error_node_recorded n" and p: "ParseMultiplicativeExpression (Suc n) s = Some (e, s')"
  shows "marks_error e s'"
  using p
  by (auto simp: bind_eq_Some_conv Let_def split: if_splits prod.splits option.splits
      dest!: error_node_recordedD [OF ih] marks_error_literals ResolveTypeDeclarators_None
      dest: marks_error_ParseBinaryOperands)

lemma enr_CastExpression:
  assumes ih: "error_node_recorded n" and p: "ParseCastExpression (Suc n) s = Some (e, s')"
  shows "marks_error e s'"
proof (cases "kind (token s) = tok_l_paren")
  case False
  with p show ?thesis by (auto dest!: error_node_recordedD [OF ih])
next
  case True
  with p obtain type_decl s2 where t: "ParseTypeId n (ConsumeToken s) = Some (type_decl, s2)"
    by (auto simp: bind_eq_Some_conv Let_def)
  show ?thesis
  proof (cases "ResolveTypeFromTypeDecl (ctx s2) type_decl")
    case None
    with p True t show ?thesis
      by (auto simp: Let_def dest!: error_node_recordedD [OF ih])
  next
    case (Some type)
    obtain r s4 where d: "ResolveTypeDeclarators type (ptr_operators type_decl)
        (Commit (new_TentativeParsingAction s) s2) = (r, s4)"
      by (cases "ResolveTypeDeclarators type (ptr_operators type_decl)
        (Commit (new_TentativeParsingAction s) s2)")
    show ?thesis
    proof (cases r)
      case None
      with p True t Some d show ?thesis
        by (auto simp: Let_def dest!: ResolveTypeDeclarators_None)
    next
      case (Some type1)
      with p True t \<open>ResolveTypeFromTypeDecl (ctx s2) type_decl = Some type\<close> d show ?thesis
        by (auto simp: Let_def bind_eq_Some_conv)
    qed
  qed
qed

lemma enr_UnaryExpression:
  assumes ih: "error_node_recorded n" and p: "ParseUnaryExpression (Suc n) s = Some (e, s')"
  shows "marks_error e s'"
  using p
  by (auto simp: bind_eq_Some_conv Let_def split: if_splits prod.splits option.splits
      dest!: error_node_recordedD [OF ih] marks_error_literals ResolveTypeDeclarators_None
      dest: marks_error_ParseBinaryOperands)

lemma enr_PostfixExpression:
  assumes ih: "error_node_recorded n" and p: "ParsePostfixExpression (Suc n) s = Some (e, s')"
  shows "marks_error e s'"
  using p
  by (auto simp: bind_eq_Some_conv Let_def split: if_splits prod.splits option.splits
      dest!: error_node_recordedD [OF ih] marks_error_literals ResolveTypeDeclarators_None
      dest: marks_error_ParseBinaryOperands)

lemma enr_PrimaryExpression:
  assumes ih: "error_node_recorded n" and p: "ParsePrimaryExpression (Suc n) s = Some (e, s')"
  shows "marks_error e s'"
  using p
  by (auto simp: bind_eq_Some_conv Let_def split: if_splits prod.splits option.splits
      dest!: error_node_recordedD [OF ih] marks_error_literals ResolveTypeDeclarators_None
      dest: marks_error_ParseBinaryOperands)

lemma enr_PostfixOperators:
  assumes ih: "error_node_recorded n" and p: "ParsePostfixOperators (Suc n) lhs s = Some (e, s')"
    and l: "marks_error lhs s"
  shows "marks_error e s'"
  using p l
  by (auto simp: bind_eq_Some_conv Let_def split: if_splits prod.splits option.splits
      dest!: error_node_recordedD [OF ih])

lemma error_node_recorded: "error_node_recorded n"
proof (induction n)
  case 0
  show ?case by (simp add: error_node_recorded_def)
next
  case (Suc n)
  show ?case
    unfolding error_node_recorded_def
    by (intro conjI allI impI)
      (erule enr_Expression [OF Suc] enr_AssignmentExpression [OF Suc] enr_ConditionalExpression [OF Suc] enr_LogicalOrExpression [OF Suc] enr_LogicalAndExpression [OF Suc] enr_InclusiveOrExpression [OF Suc] enr_ExclusiveOrExpression [OF Suc] enr_AndExpression [OF Suc] enr_EqualityExpression [OF Suc] enr_RelationalExpression [OF Suc] enr_ShiftExpression [OF Suc] enr_AdditiveExpression [OF Suc] enr_MultiplicativeExpression [OF Suc] enr_CastExpression [OF Suc] enr_UnaryExpression [OF Suc] enr_PostfixExpression [OF Suc] enr_PrimaryExpression [OF Suc] enr_PostfixOperators [OF Suc] | assumption)+
qed

section \<open>The functions for type ids and names return\<close>

lemma returns_Some [simp]: "returns (Some y) Q \<longleftrightarrow> Q y"
  by (simp add: returns_def)

lemma returns_None [simp]: "\<not> returns None Q"
  by (simp add: returns_def)

lemma returns_bind: "returns x (\<lambda>y. returns (f y) Q) \<Longrightarrow> returns (Option.bind x f) Q"
  by (auto simp: returns_def)

lemma returns_weaken: "returns x P \<Longrightarrow> (\<And>y. x = Some y \<Longrightarrow> P y \<Longrightarrow> Q y) \<Longrightarrow> returns x Q"
  by (auto simp: returns_def)

lemma remaining_ConsumeToken_le: "remaining (ConsumeToken s) \<le> remaining s"
  by (auto simp: remaining_def ConsumeToken_def Lex_def eof_token_def)

lemma remaining_ConsumeToken_less:
  "kind (token s) \<noteq> tok_eof \<Longrightarrow> remaining (ConsumeToken s) < remaining s"
  by (auto simp: remaining_def ConsumeToken_def Lex_def eof_token_def)

lemma remaining_ConsumeToken: "remaining (ConsumeToken s) = remaining s - consumed s"
  using remaining_ConsumeToken_le [of s] unfolding consumed_def by arith

lemma consumed_Suc: "kind (token s) \<noteq> tok_eof \<Longrightarrow> consumed s = Suc (consumed_more s)"
  using remaining_ConsumeToken_less [of s] unfolding consumed_def consumed_more_def by arith

lemma remaining_Suc: "kind (token s) \<noteq> tok_eof \<Longrightarrow> remaining s = Suc (remaining_more s)"
  by (simp add: remaining_def remaining_more_def)

lemma remaining_BailOut [simp]:
  "remaining (BailOut code msg loc s) = (if error s = None then 0 else remaining s)"
  by (simp add: remaining_def BailOut_def)

lemma remaining_Expect_le: "remaining (Expect k s) \<le> remaining s"
  by (simp add: Expect_def)

lemma remaining_ExpectOneOf_le: "remaining (ExpectOneOf ks s) \<le> remaining s"
  by (simp add: ExpectOneOf_def)

lemma remaining_Commit [simp]: "remaining (Commit t s) = remaining s"
  by (simp add: Commit_def)

lemma remaining_ParseUnqualifiedId:
  "ParseUnqualifiedId s = (r, s') \<Longrightarrow> remaining s' \<le> remaining s"
  using remaining_Expect_le [of tok_identifier s]
    remaining_ConsumeToken_le [of "Expect tok_identifier s"]
  by (auto simp: ParseUnqualifiedId_def Let_def)

lemma remaining_ConsumeCvQualifiers: "remaining (ConsumeCvQualifiers s) \<le> remaining s"
proof (induction s rule: ConsumeCvQualifiers.induct)
  case (1 s)
  show ?case
  proof (cases "IsCvQualifier (token s)")
    case True
    with 1 [OF True] remaining_ConsumeToken_le [of s] show ?thesis
      by (subst ConsumeCvQualifiers.simps) simp
  next
    case False
    then show ?thesis by (subst ConsumeCvQualifiers.simps) simp
  qed
qed

lemma remaining_ParsePtrOperator:
  "ParsePtrOperator td s = (r, s') \<Longrightarrow> remaining s' \<le> remaining s"
  using remaining_ExpectOneOf_le [of "[tok_star, tok_amp]" s]
    remaining_ConsumeCvQualifiers [of "ConsumeToken (ExpectOneOf [tok_star, tok_amp] s)"]
    remaining_ConsumeToken_le [of "ExpectOneOf [tok_star, tok_amp] s"]
  by (auto simp: ParsePtrOperator_def Let_def split: if_splits)

lemma remaining_ParsePtrOperators:
  "ParsePtrOperators td s = (r, s') \<Longrightarrow> remaining s' \<le> remaining s"
proof (induction td s arbitrary: r s' rule: ParsePtrOperators.induct)
  case (1 td s)
  show ?case
  proof (cases "IsPtrOperator (token s)")
    case True
    obtain td1 s1 where p: "ParsePtrOperator td s = (td1, s1)" by (cases "ParsePtrOperator td s")
    from "1.prems" True p have q: "ParsePtrOperators td1 s1 = (r, s')"
      by (subst (asm) ParsePtrOperators.simps) simp
    from 1 (1) [OF True p [symmetric] q] remaining_ParsePtrOperator [OF p] show ?thesis by simp
  next
    case False
    with "1.prems" show ?thesis by (subst (asm) ParsePtrOperators.simps) simp
  qed
qed

lemma tr_TypeId:
  assumes "types_return n" and "24 * remaining s + 5 \<le> n"
    and "\<And>r s'. ParseTypeId n s = Some (r, s') \<Longrightarrow> remaining s' \<le> remaining s
       \<Longrightarrow> Q (r, s')"
  shows "returns (ParseTypeId n s) Q"
proof -
  from assms(1,2) have "returns (ParseTypeId n s)
      (\<lambda>(r, s'). remaining s' \<le> remaining s)"
    by (simp add: types_return_def)
  then show ?thesis
    by (rule returns_weaken) (use assms(3) in auto)
qed

lemma tr_TypeSpecifierSeq:
  assumes "types_return n" and "24 * remaining s + 4 \<le> n"
    and "\<And>r s'. ParseTypeSpecifierSeq n td s = Some (r, s') \<Longrightarrow> remaining s' \<le> remaining s
       \<Longrightarrow> Q (r, s')"
  shows "returns (ParseTypeSpecifierSeq n td s) Q"
proof -
  from assms(1,2) have "returns (ParseTypeSpecifierSeq n td s)
      (\<lambda>(r, s'). remaining s' \<le> remaining s)"
    by (simp add: types_return_def)
  then show ?thesis
    by (rule returns_weaken) (use assms(3) in auto)
qed

lemma tr_TypeSpecifier:
  assumes "types_return n" and "24 * remaining s + 3 \<le> n"
    and "\<And>b r s'. ParseTypeSpecifier n td s = Some (b, r, s') \<Longrightarrow> remaining s' \<le> remaining s
       \<Longrightarrow> (b \<longrightarrow> remaining s' < remaining s)
       \<Longrightarrow> Q (b, r, s')"
  shows "returns (ParseTypeSpecifier n td s) Q"
proof -
  from assms(1,2) have "returns (ParseTypeSpecifier n td s)
      (\<lambda>(b, r, s'). remaining s' \<le> remaining s \<and> (b \<longrightarrow> remaining s' < remaining s))"
    by (simp add: types_return_def)
  then show ?thesis
    by (rule returns_weaken) (use assms(3) in auto)
qed

lemma tr_NestedNameSpecifier:
  assumes "types_return n" and "24 * remaining s + 2 \<le> n"
    and "\<And>r s'. ParseNestedNameSpecifier n s = Some (r, s') \<Longrightarrow> remaining s' \<le> remaining s
       \<Longrightarrow> Q (r, s')"
  shows "returns (ParseNestedNameSpecifier n s) Q"
proof -
  from assms(1,2) have "returns (ParseNestedNameSpecifier n s)
      (\<lambda>(r, s'). remaining s' \<le> remaining s)"
    by (simp add: types_return_def)
  then show ?thesis
    by (rule returns_weaken) (use assms(3) in auto)
qed

lemma tr_TypeName:
  assumes "types_return n" and "24 * remaining s + 1 \<le> n"
    and "\<And>r s'. ParseTypeName n s = Some (r, s') \<Longrightarrow> remaining s' \<le> remaining s
       \<Longrightarrow> (r \<noteq> [] \<longrightarrow> remaining s' < remaining s)
       \<Longrightarrow> Q (r, s')"
  shows "returns (ParseTypeName n s) Q"
proof -
  from assms(1,2) have "returns (ParseTypeName n s)
      (\<lambda>(r, s'). remaining s' \<le> remaining s \<and> (r \<noteq> [] \<longrightarrow> remaining s' < remaining s))"
    by (simp add: types_return_def)
  then show ?thesis
    by (rule returns_weaken) (use assms(3) in auto)
qed

lemma tr_TemplateArgumentList:
  assumes "types_return n" and "24 * remaining s + 9 \<le> n"
    and "\<And>r s'. ParseTemplateArgumentList n s = Some (r, s') \<Longrightarrow> remaining s' \<le> remaining s
       \<Longrightarrow> Q (r, s')"
  shows "returns (ParseTemplateArgumentList n s) Q"
proof -
  from assms(1,2) have "returns (ParseTemplateArgumentList n s)
      (\<lambda>(r, s'). remaining s' \<le> remaining s)"
    by (simp add: types_return_def)
  then show ?thesis
    by (rule returns_weaken) (use assms(3) in auto)
qed

lemma tr_TemplateArguments:
  assumes "types_return n" and "24 * remaining s + (if a = [] then 8 else 7) \<le> n"
    and "\<And>r s'. ParseTemplateArguments n a s = Some (r, s') \<Longrightarrow> remaining s' \<le> remaining s
       \<Longrightarrow> Q (r, s')" and "a \<noteq> [] \<longrightarrow> kind (token s) = tok_comma"
  shows "returns (ParseTemplateArguments n a s) Q"
proof -
  from assms(1,2,4) have "returns (ParseTemplateArguments n a s)
      (\<lambda>(r, s'). remaining s' \<le> remaining s)"
    by (simp add: types_return_def)
  then show ?thesis
    by (rule returns_weaken) (use assms(3) in auto)
qed

lemma tr_TemplateArgument:
  assumes "types_return n" and "24 * remaining s + 6 \<le> n"
    and "\<And>r s'. ParseTemplateArgument n s = Some (r, s') \<Longrightarrow> remaining s' \<le> remaining s
       \<Longrightarrow> Q (r, s')"
  shows "returns (ParseTemplateArgument n s) Q"
proof -
  from assms(1,2) have "returns (ParseTemplateArgument n s)
      (\<lambda>(r, s'). remaining s' \<le> remaining s)"
    by (simp add: types_return_def)
  then show ?thesis
    by (rule returns_weaken) (use assms(3) in auto)
qed

lemma tr_IdExpression:
  assumes "types_return n" and "24 * remaining s + 3 \<le> n"
    and "\<And>r s'. ParseIdExpression n s = Some (r, s') \<Longrightarrow> remaining s' \<le> remaining s
       \<Longrightarrow> Q (r, s')"
  shows "returns (ParseIdExpression n s) Q"
proof -
  from assms(1,2) have "returns (ParseIdExpression n s)
      (\<lambda>(r, s'). remaining s' \<le> remaining s)"
    by (simp add: types_return_def)
  then show ?thesis
    by (rule returns_weaken) (use assms(3) in auto)
qed

lemmas remaining_simps =
  remaining_ConsumeToken consumed_Suc remaining_Suc remaining_BailOut Expect_def ExpectOneOf_def Rollback_restores
  IsCvQualifier_def IsSimpleTypeSpecifierKeyword_def Let_def

lemmas remaining_pairs =
  remaining_ParseUnqualifiedId remaining_ParsePtrOperator remaining_ParsePtrOperators

lemma trs_TypeId:
  assumes ih: "types_return n" and b: "24 * remaining s + 5 \<le> Suc n"
  shows "returns (ParseTypeId (Suc n) s)
    (\<lambda>(r, s'). remaining s' \<le> remaining s)"
  using b
  by (auto simp: remaining_simps split: prod.splits if_splits
      intro!: returns_bind tr_TypeId [OF ih] tr_TypeSpecifierSeq [OF ih] tr_TypeSpecifier [OF ih] tr_NestedNameSpecifier [OF ih] tr_TypeName [OF ih] tr_TemplateArgumentList [OF ih] tr_TemplateArguments [OF ih] tr_TemplateArgument [OF ih] tr_IdExpression [OF ih]
      dest!: types_keep_inputD [OF types_keep_input] remaining_pairs; arith)

lemma trs_TypeSpecifierSeq:
  assumes ih: "types_return n" and b: "24 * remaining s + 4 \<le> Suc n"
  shows "returns (ParseTypeSpecifierSeq (Suc n) td s)
    (\<lambda>(r, s'). remaining s' \<le> remaining s)"
  using b
  by (auto simp: remaining_simps split: prod.splits if_splits
      intro!: returns_bind tr_TypeId [OF ih] tr_TypeSpecifierSeq [OF ih] tr_TypeSpecifier [OF ih] tr_NestedNameSpecifier [OF ih] tr_TypeName [OF ih] tr_TemplateArgumentList [OF ih] tr_TemplateArguments [OF ih] tr_TemplateArgument [OF ih] tr_IdExpression [OF ih]
      dest!: types_keep_inputD [OF types_keep_input] remaining_pairs; arith)

lemma trs_TypeSpecifier:
  assumes ih: "types_return n" and b: "24 * remaining s + 3 \<le> Suc n"
  shows "returns (ParseTypeSpecifier (Suc n) td s)
    (\<lambda>(b, r, s'). remaining s' \<le> remaining s \<and> (b \<longrightarrow> remaining s' < remaining s))"
  using b
  by (auto simp: remaining_simps split: prod.splits if_splits
      intro!: returns_bind tr_TypeId [OF ih] tr_TypeSpecifierSeq [OF ih] tr_TypeSpecifier [OF ih] tr_NestedNameSpecifier [OF ih] tr_TypeName [OF ih] tr_TemplateArgumentList [OF ih] tr_TemplateArguments [OF ih] tr_TemplateArgument [OF ih] tr_IdExpression [OF ih]
      dest!: types_keep_inputD [OF types_keep_input] remaining_pairs; arith)

lemma trs_NestedNameSpecifier:
  assumes ih: "types_return n" and b: "24 * remaining s + 2 \<le> Suc n"
  shows "returns (ParseNestedNameSpecifier (Suc n) s)
    (\<lambda>(r, s'). remaining s' \<le> remaining s)"
  using b
  by (auto simp: remaining_simps split: prod.splits if_splits
      intro!: returns_bind tr_TypeId [OF ih] tr_TypeSpecifierSeq [OF ih] tr_TypeSpecifier [OF ih] tr_NestedNameSpecifier [OF ih] tr_TypeName [OF ih] tr_TemplateArgumentList [OF ih] tr_TemplateArguments [OF ih] tr_TemplateArgument [OF ih] tr_IdExpression [OF ih]
      dest!: types_keep_inputD [OF types_keep_input] remaining_pairs; arith)

lemma trs_TypeName:
  assumes ih: "types_return n" and b: "24 * remaining s + 1 \<le> Suc n"
  shows "returns (ParseTypeName (Suc n) s)
    (\<lambda>(r, s'). remaining s' \<le> remaining s \<and> (r \<noteq> [] \<longrightarrow> remaining s' < remaining s))"
  using b
  by (auto simp: remaining_simps split: prod.splits if_splits
      intro!: returns_bind tr_TypeId [OF ih] tr_TypeSpecifierSeq [OF ih] tr_TypeSpecifier [OF ih] tr_NestedNameSpecifier [OF ih] tr_TypeName [OF ih] tr_TemplateArgumentList [OF ih] tr_TemplateArguments [OF ih] tr_TemplateArgument [OF ih] tr_IdExpression [OF ih]
      dest!: types_keep_inputD [OF types_keep_input] remaining_pairs; arith)

lemma trs_TemplateArgumentList:
  assumes ih: "types_return n" and b: "24 * remaining s + 9 \<le> Suc n"
  shows "returns (ParseTemplateArgumentList (Suc n) s)
    (\<lambda>(r, s'). remaining s' \<le> remaining s)"
  using b
  by (auto simp: remaining_simps split: prod.splits if_splits
      intro!: returns_bind tr_TypeId [OF ih] tr_TypeSpecifierSeq [OF ih] tr_TypeSpecifier [OF ih] tr_NestedNameSpecifier [OF ih] tr_TypeName [OF ih] tr_TemplateArgumentList [OF ih] tr_TemplateArguments [OF ih] tr_TemplateArgument [OF ih] tr_IdExpression [OF ih]
      dest!: types_keep_inputD [OF types_keep_input] remaining_pairs; arith)

lemma trs_TemplateArguments:
  assumes ih: "types_return n" and b: "24 * remaining s + (if a = [] then 8 else 7) \<le> Suc n" and c: "a \<noteq> [] \<longrightarrow> kind (token s) = tok_comma"
  shows "returns (ParseTemplateArguments (Suc n) a s)
    (\<lambda>(r, s'). remaining s' \<le> remaining s)"
  using b c
  by (auto simp: remaining_simps split: prod.splits if_splits
      intro!: returns_bind tr_TypeId [OF ih] tr_TypeSpecifierSeq [OF ih] tr_TypeSpecifier [OF ih] tr_NestedNameSpecifier [OF ih] tr_TypeName [OF ih] tr_TemplateArgumentList [OF ih] tr_TemplateArguments [OF ih] tr_TemplateArgument [OF ih] tr_IdExpression [OF ih]
      dest!: types_keep_inputD [OF types_keep_input] remaining_pairs; arith)

lemma trs_TemplateArgument:
  assumes ih: "types_return n" and b: "24 * remaining s + 6 \<le> Suc n"
  shows "returns (ParseTemplateArgument (Suc n) s)
    (\<lambda>(r, s'). remaining s' \<le> remaining s)"
  using b
  by (auto simp: remaining_simps split: prod.splits if_splits
      intro!: returns_bind tr_TypeId [OF ih] tr_TypeSpecifierSeq [OF ih] tr_TypeSpecifier [OF ih] tr_NestedNameSpecifier [OF ih] tr_TypeName [OF ih] tr_TemplateArgumentList [OF ih] tr_TemplateArguments [OF ih] tr_TemplateArgument [OF ih] tr_IdExpression [OF ih]
      dest!: types_keep_inputD [OF types_keep_input] remaining_pairs; arith)

lemma trs_IdExpression:
  assumes ih: "types_return n" and b: "24 * remaining s + 3 \<le> Suc n"
  shows "returns (ParseIdExpression (Suc n) s)
    (\<lambda>(r, s'). remaining s' \<le> remaining s)"
  using b
  by (auto simp: remaining_simps split: prod.splits if_splits
      intro!: returns_bind tr_TypeId [OF ih] tr_TypeSpecifierSeq [OF ih] tr_TypeSpecifier [OF ih] tr_NestedNameSpecifier [OF ih] tr_TypeName [OF ih] tr_TemplateArgumentList [OF ih] tr_TemplateArguments [OF ih] tr_TemplateArgument [OF ih] tr_IdExpression [OF ih]
      dest!: types_keep_inputD [OF types_keep_input] remaining_pairs; arith)

lemma types_return: "types_return n"
proof (induction n)
  case 0
  show ?case by (simp add: types_return_def)
next
  case (Suc n)
  show ?case
    unfolding types_return_def
    by (intro conjI allI impI)
      (erule trs_TypeId [OF Suc] trs_TypeSpecifierSeq [OF Suc] trs_TypeSpecifier [OF Suc] trs_NestedNameSpecifier [OF Suc] trs_TypeName [OF Suc] trs_TemplateArgumentList [OF Suc] trs_TemplateArguments [OF Suc] trs_TemplateArgument [OF Suc] trs_IdExpression [OF Suc] | assumption)+
qed

section \<open>The expression functions return\<close>

lemma remaining_ParseNumericLiteral:
  "ParseNumericLiteral s = (e, s') \<Longrightarrow> remaining s' \<le> remaining s"
  by (auto simp: ParseNumericLiteral_def ParseNumericConstant_def ParseFloatingLiteral_def
      ParseIntegerLiteral_def Let_def remaining_ConsumeToken Expect_def
      split: if_splits prod.splits; arith)

lemma remaining_ParseBooleanLiteral:
  "ParseBooleanLiteral s = (e, s') \<Longrightarrow> remaining s' \<le> remaining s"
  by (auto simp: ParseBooleanLiteral_def Let_def remaining_ConsumeToken ExpectOneOf_def
      split: if_splits; arith)

lemma remaining_ParsePointerLiteral:
  "ParsePointerLiteral s = (e, s') \<Longrightarrow> remaining s' \<le> remaining s"
  by (auto simp: ParsePointerLiteral_def Let_def remaining_ConsumeToken Expect_def
      split: if_splits; arith)

lemmas remaining_literals =
  remaining_ParseNumericLiteral remaining_ParseBooleanLiteral remaining_ParsePointerLiteral

lemma remaining_ResolveTypeDeclarators:
  "ResolveTypeDeclarators type tks s = (r, s') \<Longrightarrow> remaining s' \<le> remaining s"
  by (induction tks arbitrary: type) (auto split: if_splits)

lemma returns_ParseBinaryOperands_le:
  assumes "tok_eof \<notin> set ops" and "remaining s < k"
    and "\<And>u. remaining u < remaining s \<Longrightarrow>
           returns (operand u) (\<lambda>(r, u'). remaining u' \<le> remaining u)"
  shows "returns (ParseBinaryOperands k ops operand lhs s) (\<lambda>(r, s'). remaining s' \<le> remaining s)"
  using assms(2,3)
proof (induction k arbitrary: lhs s)
  case 0
  then show ?case by simp
next
  case (Suc k)
  show ?case
  proof (cases "kind (token s) \<in> set ops")
    case False
    then show ?thesis by simp
  next
    case True
    with assms(1) have ne: "kind (token s) \<noteq> tok_eof" by auto
    then have lt: "remaining (ConsumeToken s) < remaining s"
      by (rule remaining_ConsumeToken_less)
    from Suc.prems(2) [OF lt] obtain rhs s2 where
      o: "operand (ConsumeToken s) = Some (rhs, s2)"
      and le: "remaining s2 \<le> remaining (ConsumeToken s)"
      by (auto simp: returns_def)
    have "returns (ParseBinaryOperands k ops operand (BinaryOpNode (kind (token s)) lhs rhs) s2)
            (\<lambda>(r, s'). remaining s' \<le> remaining s2)"
    proof (rule Suc.IH)
      show "remaining s2 < k" using le lt Suc.prems(1) by arith
    next
      fix u assume "remaining u < remaining s2"
      then have "remaining u < remaining s" using le lt by arith
      then show "returns (operand u) (\<lambda>(r, u'). remaining u' \<le> remaining u)"
        by (rule Suc.prems(2))
    qed
    then have "returns (ParseBinaryOperands k ops operand (BinaryOpNode (kind (token s)) lhs rhs) s2)
            (\<lambda>(r, s'). remaining s' \<le> remaining s)"
      by (rule returns_weaken) (use le lt in auto)
    with True o show ?thesis by (simp add: Let_def)
  qed
qed

lemma returns_ParseBinaryOperands:
  assumes "tok_eof \<notin> set ops" and "remaining s < k"
    and "\<And>u. remaining u < remaining s \<Longrightarrow>
           returns (operand u) (\<lambda>(r, u'). remaining u' \<le> remaining u)"
    and "\<And>r s'. remaining s' \<le> remaining s \<Longrightarrow> Q (r, s')"
  shows "returns (ParseBinaryOperands k ops operand lhs s) Q"
  by (rule returns_weaken [OF returns_ParseBinaryOperands_le [OF assms(1,2,3)]])
    (use assms(4) in auto)

lemma er_Expression:
  assumes "exprs_return n" and "24 * remaining s + 20 \<le> n"
    and "\<And>r s'. remaining s' \<le> remaining s \<Longrightarrow> Q (r, s')"
  shows "returns (ParseExpression n s) Q"
proof -
  from assms(1,2) have "returns (ParseExpression n s) (\<lambda>(r, s'). remaining s' \<le> remaining s)"
    by (simp add: exprs_return_def)
  then show ?thesis
    by (rule returns_weaken) (use assms(3) in auto)
qed

lemma er_AssignmentExpression:
  assumes "exprs_return n" and "24 * remaining s + 19 \<le> n"
    and "\<And>r s'. remaining s' \<le> remaining s \<Longrightarrow> Q (r, s')"
  shows "returns (ParseAssignmentExpression n s) Q"
proof -
  from assms(1,2) have "returns (ParseAssignmentExpression n s) (\<lambda>(r, s'). remaining s' \<le> remaining s)"
    by (simp add: exprs_return_def)
  then show ?thesis
    by (rule returns_weaken) (use assms(3) in auto)
qed

lemma er_ConditionalExpression:
  assumes "exprs_return n" and "24 * remaining s + 18 \<le> n"
    and "\<And>r s'. remaining s' \<le> remaining s \<Longrightarrow> Q (r, s')"
  shows "returns (ParseConditionalExpression n s) Q"
proof -
  from assms(1,2) have "returns (ParseConditionalExpression n s) (\<lambda>(r, s'). remaining s' \<le> remaining s)"
    by (simp add: exprs_return_def)
  then show ?thesis
    by (rule returns_weaken) (use assms(3) in auto)
qed

lemma er_LogicalOrExpression:
  assumes "exprs_return n" and "24 * remaining s + 17 \<le> n"
    and "\<And>r s'. remaining s' \<le> remaining s \<Longrightarrow> Q (r, s')"
  shows "returns (ParseLogicalOrExpression n s) Q"
proof -
  from assms(1,2) have "returns (ParseLogicalOrExpression n s) (\<lambda>(r, s'). remaining s' \<le> remaining s)"
    by (simp add: exprs_return_def)
  then show ?thesis
    by (rule returns_weaken) (use assms(3) in auto)
qed

lemma er_LogicalAndExpression:
  assumes "exprs_return n" and "24 * remaining s + 16 \<le> n"
    and "\<And>r s'. remaining s' \<le> remaining s \<Longrightarrow> Q (r, s')"
  shows "returns (ParseLogicalAndExpression n s) Q"
proof -
  from assms(1,2) have "returns (ParseLogicalAndExpression n s) (\<lambda>(r, s'). remaining s' \<le> remaining s)"
    by (simp add: exprs_return_def)
  then show ?thesis
    by (rule returns_weaken) (use assms(3) in auto)
qed

lemma er_InclusiveOrExpression:
  assumes "exprs_return n" and "24 * remaining s + 15 \<le> n"
    and "\<And>r s'. remaining s' \<le> remaining s \<Longrightarrow> Q (r, s')"
  shows "returns (ParseInclusiveOrExpression n s) Q"
proof -
  from assms(1,2) have "returns (ParseInclusiveOrExpression n s) (\<lambda>(r, s'). remaining s' \<le> remaining s)"
    by (simp add: exprs_return_def)
  then show ?thesis
    by (rule returns_weaken) (use assms(3) in auto)
qed

lemma er_ExclusiveOrExpression:
  assumes "exprs_return n" and "24 * remaining s + 14 \<le> n"
    and "\<And>r s'. remaining s' \<le> remaining s \<Longrightarrow> Q (r, s')"
  shows "returns (ParseExclusiveOrExpression n s) Q"
proof -
  from assms(1,2) have "returns (ParseExclusiveOrExpression n s) (\<lambda>(r, s'). remaining s' \<le> remaining s)"
    by (simp add: exprs_return_def)
  then show ?thesis
    by (rule returns_weaken) (use assms(3) in auto)
qed

lemma er_AndExpression:
  assumes "exprs_return n" and "24 * remaining s + 13 \<le> n"
    and "\<And>r s'. remaining s' \<le> remaining s \<Longrightarrow> Q (r, s')"
  shows "returns (ParseAndExpression n s) Q"
proof -
  from assms(1,2) have "returns (ParseAndExpression n s) (\<lambda>(r, s'). remaining s' \<le> remaining s)"
    by (simp add: exprs_return_def)
  then show ?thesis
    by (rule returns_weaken) (use assms(3) in auto)
qed

lemma er_EqualityExpression:
  assumes "exprs_return n" and "24 * remaining s + 12 \<le> n"
    and "\<And>r s'. remaining s' \<le> remaining s \<Longrightarrow> Q (r, s')"
  shows "returns (ParseEqualityExpression n s) Q"
proof -
  from assms(1,2) have "returns (ParseEqualityExpression n s) (\<lambda>(r, s'). remaining s' \<le> remaining s)"
    by (simp add: exprs_return_def)
  then show ?thesis
    by (rule returns_weaken) (use assms(3) in auto)
qed

lemma er_RelationalExpression:
  assumes "exprs_return n" and "24 * remaining s + 11 \<le> n"
    and "\<And>r s'. remaining s' \<le> remaining s \<Longrightarrow> Q (r, s')"
  shows "returns (ParseRelationalExpression n s) Q"
proof -
  from assms(1,2) have "returns (ParseRelationalExpression n s) (\<lambda>(r, s'). remaining s' \<le> remaining s)"
    by (simp add: exprs_return_def)
  then show ?thesis
    by (rule returns_weaken) (use assms(3) in auto)
qed

lemma er_ShiftExpression:
  assumes "exprs_return n" and "24 * remaining s + 10 \<le> n"
    and "\<And>r s'. remaining s' \<le> remaining s \<Longrightarrow> Q (r, s')"
  shows "returns (ParseShiftExpression n s) Q"
proof -
  from assms(1,2) have "returns (ParseShiftExpression n s) (\<lambda>(r, s'). remaining s' \<le> remaining s)"
    by (simp add: exprs_return_def)
  then show ?thesis
    by (rule returns_weaken) (use assms(3) in auto)
qed

lemma er_AdditiveExpression:
  assumes "exprs_return n" and "24 * remaining s + 9 \<le> n"
    and "\<And>r s'. remaining s' \<le> remaining s \<Longrightarrow> Q (r, s')"
  shows "returns (ParseAdditiveExpression n s) Q"
proof -
  from assms(1,2) have "returns (ParseAdditiveExpression n s) (\<lambda>(r, s'). remaining s' \<le> remaining s)"
    by (simp add: exprs_return_def)
  then show ?thesis
    by (rule returns_weaken) (use assms(3) in auto)
qed

lemma er_MultiplicativeExpression:
  assumes "exprs_return n" and "24 * remaining s + 8 \<le> n"
    and "\<And>r s'. remaining s' \<le> remaining s \<Longrightarrow> Q (r, s')"
  shows "returns (ParseMultiplicativeExpression n s) Q"
proof -
  from assms(1,2) have "returns (ParseMultiplicativeExpression n s) (\<lambda>(r, s'). remaining s' \<le> remaining s)"
    by (simp add: exprs_return_def)
  then show ?thesis
    by (rule returns_weaken) (use assms(3) in auto)
qed

lemma er_CastExpression:
  assumes "exprs_return n" and "24 * remaining s + 7 \<le> n"
    and "\<And>r s'. remaining s' \<le> remaining s \<Longrightarrow> Q (r, s')"
  shows "returns (ParseCastExpression n s) Q"
proof -
  from assms(1,2) have "returns (ParseCastExpression n s) (\<lambda>(r, s'). remaining s' \<le> remaining s)"
    by (simp add: exprs_return_def)
  then show ?thesis
    by (rule returns_weaken) (use assms(3) in auto)
qed

lemma er_UnaryExpression:
  assumes "exprs_return n" and "24 * remaining s + 6 \<le> n"
    and "\<And>r s'. remaining s' \<le> remaining s \<Longrightarrow> Q (r, s')"
  shows "returns (ParseUnaryExpression n s) Q"
proof -
  from assms(1,2) have "returns (ParseUnaryExpression n s) (\<lambda>(r, s'). remaining s' \<le> remaining s)"
    by (simp add: exprs_return_def)
  then show ?thesis
    by (rule returns_weaken) (use assms(3) in auto)
qed

lemma er_PostfixExpression:
  assumes "exprs_return n" and "24 * remaining s + 5 \<le> n"
    and "\<And>r s'. remaining s' \<le> remaining s \<Longrightarrow> Q (r, s')"
  shows "returns (ParsePostfixExpression n s) Q"
proof -
  from assms(1,2) have "returns (ParsePostfixExpression n s) (\<lambda>(r, s'). remaining s' \<le> remaining s)"
    by (simp add: exprs_return_def)
  then show ?thesis
    by (rule returns_weaken) (use assms(3) in auto)
qed

lemma er_PrimaryExpression:
  assumes "exprs_return n" and "24 * remaining s + 4 \<le> n"
    and "\<And>r s'. remaining s' \<le> remaining s \<Longrightarrow> Q (r, s')"
  shows "returns (ParsePrimaryExpression n s) Q"
proof -
  from assms(1,2) have "returns (ParsePrimaryExpression n s) (\<lambda>(r, s'). remaining s' \<le> remaining s)"
    by (simp add: exprs_return_def)
  then show ?thesis
    by (rule returns_weaken) (use assms(3) in auto)
qed

lemma er_PostfixOperators:
  assumes "exprs_return n" and "24 * remaining s + 1 \<le> n"
    and "\<And>r s'. remaining s' \<le> remaining s \<Longrightarrow> Q (r, s')"
  shows "returns (ParsePostfixOperators n lhs s) Q"
proof -
  from assms(1,2) have "returns (ParsePostfixOperators n lhs s) (\<lambda>(r, s'). remaining s' \<le> remaining s)"
    by (simp add: exprs_return_def)
  then show ?thesis
    by (rule returns_weaken) (use assms(3) in auto)
qed

lemmas tr_rules =
  tr_TypeId [OF types_return] tr_IdExpression [OF types_return]

lemma ers_Expression:
  assumes ih: "exprs_return n" and b: "24 * remaining s + 20 \<le> Suc n"
  shows "returns (ParseExpression (Suc n) s) (\<lambda>(r, s'). remaining s' \<le> remaining s)"
  using b
  by (auto simp: remaining_simps split: prod.splits if_splits option.splits
      intro!: returns_bind returns_ParseBinaryOperands tr_rules er_Expression [OF ih] er_AssignmentExpression [OF ih] er_ConditionalExpression [OF ih] er_LogicalOrExpression [OF ih] er_LogicalAndExpression [OF ih] er_InclusiveOrExpression [OF ih] er_ExclusiveOrExpression [OF ih] er_AndExpression [OF ih] er_EqualityExpression [OF ih] er_RelationalExpression [OF ih] er_ShiftExpression [OF ih] er_AdditiveExpression [OF ih] er_MultiplicativeExpression [OF ih] er_CastExpression [OF ih] er_UnaryExpression [OF ih] er_PostfixExpression [OF ih] er_PrimaryExpression [OF ih] er_PostfixOperators [OF ih]
      dest!: types_keep_inputD [OF types_keep_input] remaining_pairs remaining_literals
        remaining_ResolveTypeDeclarators; arith)

lemma ers_AssignmentExpression:
  assumes ih: "exprs_return n" and b: "24 * remaining s + 19 \<le> Suc n"
  shows "returns (ParseAssignmentExpression (Suc n) s) (\<lambda>(r, s'). remaining s' \<le> remaining s)"
  using b
  by (auto simp: remaining_simps split: prod.splits if_splits option.splits
      intro!: returns_bind returns_ParseBinaryOperands tr_rules er_Expression [OF ih] er_AssignmentExpression [OF ih] er_ConditionalExpression [OF ih] er_LogicalOrExpression [OF ih] er_LogicalAndExpression [OF ih] er_InclusiveOrExpression [OF ih] er_ExclusiveOrExpression [OF ih] er_AndExpression [OF ih] er_EqualityExpression [OF ih] er_RelationalExpression [OF ih] er_ShiftExpression [OF ih] er_AdditiveExpression [OF ih] er_MultiplicativeExpression [OF ih] er_CastExpression [OF ih] er_UnaryExpression [OF ih] er_PostfixExpression [OF ih] er_PrimaryExpression [OF ih] er_PostfixOperators [OF ih]
      dest!: types_keep_inputD [OF types_keep_input] remaining_pairs remaining_literals
        remaining_ResolveTypeDeclarators; arith)

lemma ers_ConditionalExpression:
  assumes ih: "exprs_return n" and b: "24 * remaining s + 18 \<le> Suc n"
  shows "returns (ParseConditionalExpression (Suc n) s) (\<lambda>(r, s'). remaining s' \<le> remaining s)"
  using b
  by (auto simp: remaining_simps split: prod.splits if_splits option.splits
      intro!: returns_bind returns_ParseBinaryOperands tr_rules er_Expression [OF ih] er_AssignmentExpression [OF ih] er_ConditionalExpression [OF ih] er_LogicalOrExpression [OF ih] er_LogicalAndExpression [OF ih] er_InclusiveOrExpression [OF ih] er_ExclusiveOrExpression [OF ih] er_AndExpression [OF ih] er_EqualityExpression [OF ih] er_RelationalExpression [OF ih] er_ShiftExpression [OF ih] er_AdditiveExpression [OF ih] er_MultiplicativeExpression [OF ih] er_CastExpression [OF ih] er_UnaryExpression [OF ih] er_PostfixExpression [OF ih] er_PrimaryExpression [OF ih] er_PostfixOperators [OF ih]
      dest!: types_keep_inputD [OF types_keep_input] remaining_pairs remaining_literals
        remaining_ResolveTypeDeclarators; arith)

lemma ers_LogicalOrExpression:
  assumes ih: "exprs_return n" and b: "24 * remaining s + 17 \<le> Suc n"
  shows "returns (ParseLogicalOrExpression (Suc n) s) (\<lambda>(r, s'). remaining s' \<le> remaining s)"
  using b
  by (auto simp: remaining_simps split: prod.splits if_splits option.splits
      intro!: returns_bind returns_ParseBinaryOperands tr_rules er_Expression [OF ih] er_AssignmentExpression [OF ih] er_ConditionalExpression [OF ih] er_LogicalOrExpression [OF ih] er_LogicalAndExpression [OF ih] er_InclusiveOrExpression [OF ih] er_ExclusiveOrExpression [OF ih] er_AndExpression [OF ih] er_EqualityExpression [OF ih] er_RelationalExpression [OF ih] er_ShiftExpression [OF ih] er_AdditiveExpression [OF ih] er_MultiplicativeExpression [OF ih] er_CastExpression [OF ih] er_UnaryExpression [OF ih] er_PostfixExpression [OF ih] er_PrimaryExpression [OF ih] er_PostfixOperators [OF ih]
      dest!: types_keep_inputD [OF types_keep_input] remaining_pairs remaining_literals
        remaining_ResolveTypeDeclarators; arith)

lemma ers_LogicalAndExpression:
  assumes ih: "exprs_return n" and b: "24 * remaining s + 16 \<le> Suc n"
  shows "returns (ParseLogicalAndExpression (Suc n) s) (\<lambda>(r, s'). remaining s' \<le> remaining s)"
  using b
  by (auto simp: remaining_simps split: prod.splits if_splits option.splits
      intro!: returns_bind returns_ParseBinaryOperands tr_rules er_Expression [OF ih] er_AssignmentExpression [OF ih] er_ConditionalExpression [OF ih] er_LogicalOrExpression [OF ih] er_LogicalAndExpression [OF ih] er_InclusiveOrExpression [OF ih] er_ExclusiveOrExpression [OF ih] er_AndExpression [OF ih] er_EqualityExpression [OF ih] er_RelationalExpression [OF ih] er_ShiftExpression [OF ih] er_AdditiveExpression [OF ih] er_MultiplicativeExpression [OF ih] er_CastExpression [OF ih] er_UnaryExpression [OF ih] er_PostfixExpression [OF ih] er_PrimaryExpression [OF ih] er_PostfixOperators [OF ih]
      dest!: types_keep_inputD [OF types_keep_input] remaining_pairs remaining_literals
        remaining_ResolveTypeDeclarators; arith)

lemma ers_InclusiveOrExpression:
  assumes ih: "exprs_return n" and b: "24 * remaining s + 15 \<le> Suc n"
  shows "returns (ParseInclusiveOrExpression (Suc n) s) (\<lambda>(r, s'). remaining s' \<le> remaining s)"
  using b
  by (auto simp: remaining_simps split: prod.splits if_splits option.splits
      intro!: returns_bind returns_ParseBinaryOperands tr_rules er_Expression [OF ih] er_AssignmentExpression [OF ih] er_ConditionalExpression [OF ih] er_LogicalOrExpression [OF ih] er_LogicalAndExpression [OF ih] er_InclusiveOrExpression [OF ih] er_ExclusiveOrExpression [OF ih] er_AndExpression [OF ih] er_EqualityExpression [OF ih] er_RelationalExpression [OF ih] er_ShiftExpression [OF ih] er_AdditiveExpression [OF ih] er_MultiplicativeExpression [OF ih] er_CastExpression [OF ih] er_UnaryExpression [OF ih] er_PostfixExpression [OF ih] er_PrimaryExpression [OF ih] er_PostfixOperators [OF ih]
      dest!: types_keep_inputD [OF types_keep_input] remaining_pairs remaining_literals
        remaining_ResolveTypeDeclarators; arith)

lemma ers_ExclusiveOrExpression:
  assumes ih: "exprs_return n" and b: "24 * remaining s + 14 \<le> Suc n"
  shows "returns (ParseExclusiveOrExpression (Suc n) s) (\<lambda>(r, s'). remaining s' \<le> remaining s)"
  using b
  by (auto simp: remaining_simps split: prod.splits if_splits option.splits
      intro!: returns_bind returns_ParseBinaryOperands tr_rules er_Expression [OF ih] er_AssignmentExpression [OF ih] er_ConditionalExpression [OF ih] er_LogicalOrExpression [OF ih] er_LogicalAndExpression [OF ih] er_InclusiveOrExpression [OF ih] er_ExclusiveOrExpression [OF ih] er_AndExpression [OF ih] er_EqualityExpression [OF ih] er_RelationalExpression [OF ih] er_ShiftExpression [OF ih] er_AdditiveExpression [OF ih] er_MultiplicativeExpression [OF ih] er_CastExpression [OF ih] er_UnaryExpression [OF ih] er_PostfixExpression [OF ih] er_PrimaryExpression [OF ih] er_PostfixOperators [OF ih]
      dest!: types_keep_inputD [OF types_keep_input] remaining_pairs remaining_literals
        remaining_ResolveTypeDeclarators; arith)

lemma ers_AndExpression:
  assumes ih: "exprs_return n" and b: "24 * remaining s + 13 \<le> Suc n"
  shows "returns (ParseAndExpression (Suc n) s) (\<lambda>(r, s'). remaining s' \<le> remaining s)"
  using b
  by (auto simp: remaining_simps split: prod.splits if_splits option.splits
      intro!: returns_bind returns_ParseBinaryOperands tr_rules er_Expression [OF ih] er_AssignmentExpression [OF ih] er_ConditionalExpression [OF ih] er_LogicalOrExpression [OF ih] er_LogicalAndExpression [OF ih] er_InclusiveOrExpression [OF ih] er_ExclusiveOrExpression [OF ih] er_AndExpression [OF ih] er_EqualityExpression [OF ih] er_RelationalExpression [OF ih] er_ShiftExpression [OF ih] er_AdditiveExpression [OF ih] er_MultiplicativeExpression [OF ih] er_CastExpression [OF ih] er_UnaryExpression [OF ih] er_PostfixExpression [OF ih] er_PrimaryExpression [OF ih] er_PostfixOperators [OF ih]
      dest!: types_keep_inputD [OF types_keep_input] remaining_pairs remaining_literals
        remaining_ResolveTypeDeclarators; arith)

lemma ers_EqualityExpression:
  assumes ih: "exprs_return n" and b: "24 * remaining s + 12 \<le> Suc n"
  shows "returns (ParseEqualityExpression (Suc n) s) (\<lambda>(r, s'). remaining s' \<le> remaining s)"
  using b
  by (auto simp: remaining_simps split: prod.splits if_splits option.splits
      intro!: returns_bind returns_ParseBinaryOperands tr_rules er_Expression [OF ih] er_AssignmentExpression [OF ih] er_ConditionalExpression [OF ih] er_LogicalOrExpression [OF ih] er_LogicalAndExpression [OF ih] er_InclusiveOrExpression [OF ih] er_ExclusiveOrExpression [OF ih] er_AndExpression [OF ih] er_EqualityExpression [OF ih] er_RelationalExpression [OF ih] er_ShiftExpression [OF ih] er_AdditiveExpression [OF ih] er_MultiplicativeExpression [OF ih] er_CastExpression [OF ih] er_UnaryExpression [OF ih] er_PostfixExpression [OF ih] er_PrimaryExpression [OF ih] er_PostfixOperators [OF ih]
      dest!: types_keep_inputD [OF types_keep_input] remaining_pairs remaining_literals
        remaining_ResolveTypeDeclarators; arith)

lemma ers_RelationalExpression:
  assumes ih: "exprs_return n" and b: "24 * remaining s + 11 \<le> Suc n"
  shows "returns (ParseRelationalExpression (Suc n) s) (\<lambda>(r, s'). remaining s' \<le> remaining s)"
  using b
  by (auto simp: remaining_simps split: prod.splits if_splits option.splits
      intro!: returns_bind returns_ParseBinaryOperands tr_rules er_Expression [OF ih] er_AssignmentExpression [OF ih] er_ConditionalExpression [OF ih] er_LogicalOrExpression [OF ih] er_LogicalAndExpression [OF ih] er_InclusiveOrExpression [OF ih] er_ExclusiveOrExpression [OF ih] er_AndExpression [OF ih] er_EqualityExpression [OF ih] er_RelationalExpression [OF ih] er_ShiftExpression [OF ih] er_AdditiveExpression [OF ih] er_MultiplicativeExpression [OF ih] er_CastExpression [OF ih] er_UnaryExpression [OF ih] er_PostfixExpression [OF ih] er_PrimaryExpression [OF ih] er_PostfixOperators [OF ih]
      dest!: types_keep_inputD [OF types_keep_input] remaining_pairs remaining_literals
        remaining_ResolveTypeDeclarators; arith)

lemma ers_ShiftExpression:
  assumes ih: "exprs_return n" and b: "24 * remaining s + 10 \<le> Suc n"
  shows "returns (ParseShiftExpression (Suc n) s) (\<lambda>(r, s'). remaining s' \<le> remaining s)"
  using b
  by (auto simp: remaining_simps split: prod.splits if_splits option.splits
      intro!: returns_bind returns_ParseBinaryOperands tr_rules er_Expression [OF ih] er_AssignmentExpression [OF ih] er_ConditionalExpression [OF ih] er_LogicalOrExpression [OF ih] er_LogicalAndExpression [OF ih] er_InclusiveOrExpression [OF ih] er_ExclusiveOrExpression [OF ih] er_AndExpression [OF ih] er_EqualityExpression [OF ih] er_RelationalExpression [OF ih] er_ShiftExpression [OF ih] er_AdditiveExpression [OF ih] er_MultiplicativeExpression [OF ih] er_CastExpression [OF ih] er_UnaryExpression [OF ih] er_PostfixExpression [OF ih] er_PrimaryExpression [OF ih] er_PostfixOperators [OF ih]
      dest!: types_keep_inputD [OF types_keep_input] remaining_pairs remaining_literals
        remaining_ResolveTypeDeclarators; arith)

lemma ers_AdditiveExpression:
  assumes ih: "exprs_return n" and b: "24 * remaining s + 9 \<le> Suc n"
  shows "returns (ParseAdditiveExpression (Suc n) s) (\<lambda>(r, s'). remaining s' \<le> remaining s)"
  using b
  by (auto simp: remaining_simps split: prod.splits if_splits option.splits
      intro!: returns_bind returns_ParseBinaryOperands tr_rules er_Expression [OF ih] er_AssignmentExpression [OF ih] er_ConditionalExpression [OF ih] er_LogicalOrExpression [OF ih] er_LogicalAndExpression [OF ih] er_InclusiveOrExpression [OF ih] er_ExclusiveOrExpression [OF ih] er_AndExpression [OF ih] er_EqualityExpression [OF ih] er_RelationalExpression [OF ih] er_ShiftExpression [OF ih] er_AdditiveExpression [OF ih] er_MultiplicativeExpression [OF ih] er_CastExpression [OF ih] er_UnaryExpression [OF ih] er_PostfixExpression [OF ih] er_PrimaryExpression [OF ih] er_PostfixOperators [OF ih]
      dest!: types_keep_inputD [OF types_keep_input] remaining_pairs remaining_literals
        remaining_ResolveTypeDeclarators; arith)

lemma ers_MultiplicativeExpression:
  assumes ih: "exprs_return n" and b: "24 * remaining s + 8 \<le> Suc n"
  shows "returns (ParseMultiplicativeExpression (Suc n) s) (\<lambda>(r, s'). remaining s' \<le> remaining s)"
  using b
  by (auto simp: remaining_simps split: prod.splits if_splits option.splits
      intro!: returns_bind returns_ParseBinaryOperands tr_rules er_Expression [OF ih] er_AssignmentExpression [OF ih] er_ConditionalExpression [OF ih] er_LogicalOrExpression [OF ih] er_LogicalAndExpression [OF ih] er_InclusiveOrExpression [OF ih] er_ExclusiveOrExpression [OF ih] er_AndExpression [OF ih] er_EqualityExpression [OF ih] er_RelationalExpression [OF ih] er_ShiftExpression [OF ih] er_AdditiveExpression [OF ih] er_MultiplicativeExpression [OF ih] er_CastExpression [OF ih] er_UnaryExpression [OF ih] er_PostfixExpression [OF ih] er_PrimaryExpression [OF ih] er_PostfixOperators [OF ih]
      dest!: types_keep_inputD [OF types_keep_input] remaining_pairs remaining_literals
        remaining_ResolveTypeDeclarators; arith)

lemma ers_CastExpression:
  assumes ih: "exprs_return n" and b: "24 * remaining s + 7 \<le> Suc n"
  shows "returns (ParseCastExpression (Suc n) s) (\<lambda>(r, s'). remaining s' \<le> remaining s)"
  using b
  by (auto simp: remaining_simps split: prod.splits if_splits option.splits
      intro!: returns_bind returns_ParseBinaryOperands tr_rules er_Expression [OF ih] er_AssignmentExpression [OF ih] er_ConditionalExpression [OF ih] er_LogicalOrExpression [OF ih] er_LogicalAndExpression [OF ih] er_InclusiveOrExpression [OF ih] er_ExclusiveOrExpression [OF ih] er_AndExpression [OF ih] er_EqualityExpression [OF ih] er_RelationalExpression [OF ih] er_ShiftExpression [OF ih] er_AdditiveExpression [OF ih] er_MultiplicativeExpression [OF ih] er_CastExpression [OF ih] er_UnaryExpression [OF ih] er_PostfixExpression [OF ih] er_PrimaryExpression [OF ih] er_PostfixOperators [OF ih]
      dest!: types_keep_inputD [OF types_keep_input] remaining_pairs remaining_literals
        remaining_ResolveTypeDeclarators; arith)

lemma ers_UnaryExpression:
  assumes ih: "exprs_return n" and b: "24 * remaining s + 6 \<le> Suc n"
  shows "returns (ParseUnaryExpression (Suc n) s) (\<lambda>(r, s'). remaining s' \<le> remaining s)"
  using b
  by (auto simp: remaining_simps split: prod.splits if_splits option.splits
      intro!: returns_bind returns_ParseBinaryOperands tr_rules er_Expression [OF ih] er_AssignmentExpression [OF ih] er_ConditionalExpression [OF ih] er_LogicalOrExpression [OF ih] er_LogicalAndExpression [OF ih] er_InclusiveOrExpression [OF ih] er_ExclusiveOrExpression [OF ih] er_AndExpression [OF ih] er_EqualityExpression [OF ih] er_RelationalExpression [OF ih] er_ShiftExpression [OF ih] er_AdditiveExpression [OF ih] er_MultiplicativeExpression [OF ih] er_CastExpression [OF ih] er_UnaryExpression [OF ih] er_PostfixExpression [OF ih] er_PrimaryExpression [OF ih] er_PostfixOperators [OF ih]
      dest!: types_keep_inputD [OF types_keep_input] remaining_pairs remaining_literals
        remaining_ResolveTypeDeclarators; arith)

lemma ers_PostfixExpression:
  assumes ih: "exprs_return n" and b: "24 * remaining s + 5 \<le> Suc n"
  shows "returns (ParsePostfixExpression (Suc n) s) (\<lambda>(r, s'). remaining s' \<le> remaining s)"
  using b
  by (auto simp: remaining_simps split: prod.splits if_splits option.splits
      intro!: returns_bind returns_ParseBinaryOperands tr_rules er_Expression [OF ih] er_AssignmentExpression [OF ih] er_ConditionalExpression [OF ih] er_LogicalOrExpression [OF ih] er_LogicalAndExpression [OF ih] er_InclusiveOrExpression [OF ih] er_ExclusiveOrExpression [OF ih] er_AndExpression [OF ih] er_EqualityExpression [OF ih] er_RelationalExpression [OF ih] er_ShiftExpression [OF ih] er_AdditiveExpression [OF ih] er_MultiplicativeExpression [OF ih] er_CastExpression [OF ih] er_UnaryExpression [OF ih] er_PostfixExpression [OF ih] er_PrimaryExpression [OF ih] er_PostfixOperators [OF ih]
      dest!: types_keep_inputD [OF types_keep_input] remaining_pairs remaining_literals
        remaining_ResolveTypeDeclarators; arith)

lemma ers_PrimaryExpression:
  assumes ih: "exprs_return n" and b: "24 * remaining s + 4 \<le> Suc n"
  shows "returns (ParsePrimaryExpression (Suc n) s) (\<lambda>(r, s'). remaining s' \<le> remaining s)"
  using b
  by (auto simp: remaining_simps split: prod.splits if_splits option.splits
      intro!: returns_bind returns_ParseBinaryOperands tr_rules er_Expression [OF ih] er_AssignmentExpression [OF ih] er_ConditionalExpression [OF ih] er_LogicalOrExpression [OF ih] er_LogicalAndExpression [OF ih] er_InclusiveOrExpression [OF ih] er_ExclusiveOrExpression [OF ih] er_AndExpression [OF ih] er_EqualityExpression [OF ih] er_RelationalExpression [OF ih] er_ShiftExpression [OF ih] er_AdditiveExpression [OF ih] er_MultiplicativeExpression [OF ih] er_CastExpression [OF ih] er_UnaryExpression [OF ih] er_PostfixExpression [OF ih] er_PrimaryExpression [OF ih] er_PostfixOperators [OF ih]
      dest!: types_keep_inputD [OF types_keep_input] remaining_pairs remaining_literals
        remaining_ResolveTypeDeclarators; arith)

lemma ers_PostfixOperators:
  assumes ih: "exprs_return n" and b: "24 * remaining s + 1 \<le> Suc n"
  shows "returns (ParsePostfixOperators (Suc n) lhs s) (\<lambda>(r, s'). remaining s' \<le> remaining s)"
  using b
  by (auto simp: remaining_simps split: prod.splits if_splits option.splits
      intro!: returns_bind returns_ParseBinaryOperands tr_rules er_Expression [OF ih] er_AssignmentExpression [OF ih] er_ConditionalExpression [OF ih] er_LogicalOrExpression [OF ih] er_LogicalAndExpression [OF ih] er_InclusiveOrExpression [OF ih] er_ExclusiveOrExpression [OF ih] er_AndExpression [OF ih] er_EqualityExpression [OF ih] er_RelationalExpression [OF ih] er_ShiftExpression [OF ih] er_AdditiveExpression [OF ih] er_MultiplicativeExpression [OF ih] er_CastExpression [OF ih] er_UnaryExpression [OF ih] er_PostfixExpression [OF ih] er_PrimaryExpression [OF ih] er_PostfixOperators [OF ih]
      dest!: types_keep_inputD [OF types_keep_input] remaining_pairs remaining_literals
        remaining_ResolveTypeDeclarators; arith)

lemma exprs_return: "exprs_return n"
proof (induction n)
  case 0
  show ?case by (simp add: exprs_return_def)
next
  case (Suc n)
  show ?case
    unfolding exprs_return_def
    by (intro conjI allI impI)
      (erule ers_Expression [OF Suc] ers_AssignmentExpression [OF Suc] ers_ConditionalExpression [OF Suc] ers_LogicalOrExpression [OF Suc] ers_LogicalAndExpression [OF Suc] ers_InclusiveOrExpression [OF Suc] ers_ExclusiveOrExpression [OF Suc] ers_AndExpression [OF Suc] ers_EqualityExpression [OF Suc] ers_RelationalExpression [OF Suc] ers_ShiftExpression [OF Suc] ers_AdditiveExpression [OF Suc] ers_MultiplicativeExpression [OF Suc] ers_CastExpression [OF Suc] ers_UnaryExpression [OF Suc] ers_PostfixExpression [OF Suc] ers_PrimaryExpression [OF Suc] ers_PostfixOperators [OF Suc] | assumption)+
qed

lemma remaining_le_length: "remaining s \<le> length (pp_tokens s) + 1"
  by (simp add: remaining_def)

lemma Run_returns:
  assumes "24 * (length (pp_tokens s) + 1) + 20 \<le> n"
  shows "\<exists>e err. Run n s = Some (e, err)"
proof -
  have "remaining (ConsumeToken s) \<le> length (pp_tokens s) + 1"
    using remaining_ConsumeToken_le [of s] remaining_le_length [of s] by arith
  with assms have "24 * remaining (ConsumeToken s) + 20 \<le> n" by arith
  then have "returns (ParseExpression n (ConsumeToken s)) (\<lambda>(r, s'). True)"
    by (rule er_Expression [OF exprs_return]) simp
  then show ?thesis by (auto simp: returns_def Run_def Let_def)
qed

section \<open>The result does not depend on the bound\<close>

lemma carries_over_refl [simp]: "carries_over x x"
  by (simp add: carries_over_def)

lemma carries_over_None [simp]: "carries_over None y"
  by (simp add: carries_over_def)

lemma carries_over_bind:
  "carries_over x x' \<Longrightarrow> (\<And>v. carries_over (f v) (f' v))
     \<Longrightarrow> carries_over (Option.bind x f) (Option.bind x' f')"
  by (auto simp: carries_over_def bind_eq_Some_conv)

lemma types_bound_monoD:
  assumes "types_bound_mono n k"
  shows "carries_over (ParseTypeId n s) (ParseTypeId (n + k) s)"
    and "carries_over (ParseTypeSpecifierSeq n td s) (ParseTypeSpecifierSeq (n + k) td s)"
    and "carries_over (ParseTypeSpecifier n td s) (ParseTypeSpecifier (n + k) td s)"
    and "carries_over (ParseNestedNameSpecifier n s) (ParseNestedNameSpecifier (n + k) s)"
    and "carries_over (ParseTypeName n s) (ParseTypeName (n + k) s)"
    and "carries_over (ParseTemplateArgumentList n s) (ParseTemplateArgumentList (n + k) s)"
    and "carries_over (ParseTemplateArguments n a s) (ParseTemplateArguments (n + k) a s)"
    and "carries_over (ParseTemplateArgument n s) (ParseTemplateArgument (n + k) s)"
    and "carries_over (ParseIdExpression n s) (ParseIdExpression (n + k) s)"
  using assms by (simp_all add: types_bound_mono_def)

lemma tbm_TypeId:
  assumes ih: "types_bound_mono n k"
  shows "carries_over (ParseTypeId (Suc n) s) (ParseTypeId (Suc (n + k)) s)"
  by (auto simp: Let_def split: prod.splits option.splits
      intro!: carries_over_bind types_bound_monoD [OF ih])

lemma tbm_TypeSpecifierSeq:
  assumes ih: "types_bound_mono n k"
  shows "carries_over (ParseTypeSpecifierSeq (Suc n) td s) (ParseTypeSpecifierSeq (Suc (n + k)) td s)"
  by (auto simp: Let_def split: prod.splits option.splits
      intro!: carries_over_bind types_bound_monoD [OF ih])

lemma tbm_TypeSpecifier:
  assumes ih: "types_bound_mono n k"
  shows "carries_over (ParseTypeSpecifier (Suc n) td s) (ParseTypeSpecifier (Suc (n + k)) td s)"
  by (auto simp: Let_def split: prod.splits option.splits
      intro!: carries_over_bind types_bound_monoD [OF ih])

lemma tbm_NestedNameSpecifier:
  assumes ih: "types_bound_mono n k"
  shows "carries_over (ParseNestedNameSpecifier (Suc n) s) (ParseNestedNameSpecifier (Suc (n + k)) s)"
  by (auto simp: Let_def split: prod.splits option.splits
      intro!: carries_over_bind types_bound_monoD [OF ih])

lemma tbm_TypeName:
  assumes ih: "types_bound_mono n k"
  shows "carries_over (ParseTypeName (Suc n) s) (ParseTypeName (Suc (n + k)) s)"
  by (auto simp: Let_def split: prod.splits option.splits
      intro!: carries_over_bind types_bound_monoD [OF ih])

lemma tbm_TemplateArgumentList:
  assumes ih: "types_bound_mono n k"
  shows "carries_over (ParseTemplateArgumentList (Suc n) s) (ParseTemplateArgumentList (Suc (n + k)) s)"
  by (auto simp: Let_def split: prod.splits option.splits
      intro!: carries_over_bind types_bound_monoD [OF ih])

lemma tbm_TemplateArguments:
  assumes ih: "types_bound_mono n k"
  shows "carries_over (ParseTemplateArguments (Suc n) a s) (ParseTemplateArguments (Suc (n + k)) a s)"
  by (auto simp: Let_def split: prod.splits option.splits
      intro!: carries_over_bind types_bound_monoD [OF ih])

lemma tbm_TemplateArgument:
  assumes ih: "types_bound_mono n k"
  shows "carries_over (ParseTemplateArgument (Suc n) s) (ParseTemplateArgument (Suc (n + k)) s)"
  by (auto simp: Let_def split: prod.splits option.splits
      intro!: carries_over_bind types_bound_monoD [OF ih])

lemma tbm_IdExpression:
  assumes ih: "types_bound_mono n k"
  shows "carries_over (ParseIdExpression (Suc n) s) (ParseIdExpression (Suc (n + k)) s)"
  by (auto simp: Let_def split: prod.splits option.splits
      intro!: carries_over_bind types_bound_monoD [OF ih])

lemma types_bound_mono: "types_bound_mono n k"
proof (induction n)
  case 0
  show ?case by (simp add: types_bound_mono_def)
next
  case (Suc n)
  show ?case
    unfolding types_bound_mono_def add_Suc
    by (intro conjI allI tbm_TypeId [OF Suc] tbm_TypeSpecifierSeq [OF Suc] tbm_TypeSpecifier [OF Suc] tbm_NestedNameSpecifier [OF Suc] tbm_TypeName [OF Suc] tbm_TemplateArgumentList [OF Suc] tbm_TemplateArguments [OF Suc] tbm_TemplateArgument [OF Suc] tbm_IdExpression [OF Suc])
qed

lemma carries_over_ParseBinaryOperands:
  assumes "\<And>u. carries_over (operand u) (operand' u)"
  shows "carries_over (ParseBinaryOperands j ops operand lhs s)
           (ParseBinaryOperands (j + k) ops operand' lhs s)"
proof (induction j arbitrary: lhs s)
  case 0
  show ?case by simp
next
  case (Suc j)
  show ?case
    by (auto simp: Let_def intro!: carries_over_bind assms Suc)
qed

lemma exprs_bound_monoD:
  assumes "exprs_bound_mono n k"
  shows "carries_over (ParseExpression n s) (ParseExpression (n + k) s)"
    and "carries_over (ParseAssignmentExpression n s) (ParseAssignmentExpression (n + k) s)"
    and "carries_over (ParseConditionalExpression n s) (ParseConditionalExpression (n + k) s)"
    and "carries_over (ParseLogicalOrExpression n s) (ParseLogicalOrExpression (n + k) s)"
    and "carries_over (ParseLogicalAndExpression n s) (ParseLogicalAndExpression (n + k) s)"
    and "carries_over (ParseInclusiveOrExpression n s) (ParseInclusiveOrExpression (n + k) s)"
    and "carries_over (ParseExclusiveOrExpression n s) (ParseExclusiveOrExpression (n + k) s)"
    and "carries_over (ParseAndExpression n s) (ParseAndExpression (n + k) s)"
    and "carries_over (ParseEqualityExpression n s) (ParseEqualityExpression (n + k) s)"
    and "carries_over (ParseRelationalExpression n s) (ParseRelationalExpression (n + k) s)"
    and "carries_over (ParseShiftExpression n s) (ParseShiftExpression (n + k) s)"
    and "carries_over (ParseAdditiveExpression n s) (ParseAdditiveExpression (n + k) s)"
    and "carries_over (ParseMultiplicativeExpression n s) (ParseMultiplicativeExpression (n + k) s)"
    and "carries_over (ParseCastExpression n s) (ParseCastExpression (n + k) s)"
    and "carries_over (ParseUnaryExpression n s) (ParseUnaryExpression (n + k) s)"
    and "carries_over (ParsePostfixExpression n s) (ParsePostfixExpression (n + k) s)"
    and "carries_over (ParsePrimaryExpression n s) (ParsePrimaryExpression (n + k) s)"
    and "carries_over (ParsePostfixOperators n lhs s) (ParsePostfixOperators (n + k) lhs s)"
  using assms by (simp_all add: exprs_bound_mono_def)

lemma ebm_Expression:
  assumes ih: "exprs_bound_mono n k"
  shows "carries_over (ParseExpression (Suc n) s) (ParseExpression (Suc (n + k)) s)"
  by (auto simp: Let_def split: prod.splits option.splits
      intro!: carries_over_bind exprs_bound_monoD [OF ih] carries_over_ParseBinaryOperands
        types_bound_monoD [OF types_bound_mono])

lemma ebm_AssignmentExpression:
  assumes ih: "exprs_bound_mono n k"
  shows "carries_over (ParseAssignmentExpression (Suc n) s) (ParseAssignmentExpression (Suc (n + k)) s)"
  by (auto simp: Let_def split: prod.splits option.splits
      intro!: carries_over_bind exprs_bound_monoD [OF ih] carries_over_ParseBinaryOperands
        types_bound_monoD [OF types_bound_mono])

lemma ebm_ConditionalExpression:
  assumes ih: "exprs_bound_mono n k"
  shows "carries_over (ParseConditionalExpression (Suc n) s) (ParseConditionalExpression (Suc (n + k)) s)"
  by (auto simp: Let_def split: prod.splits option.splits
      intro!: carries_over_bind exprs_bound_monoD [OF ih] carries_over_ParseBinaryOperands
        types_bound_monoD [OF types_bound_mono])

lemma ebm_LogicalOrExpression:
  assumes ih: "exprs_bound_mono n k"
  shows "carries_over (ParseLogicalOrExpression (Suc n) s) (ParseLogicalOrExpression (Suc (n + k)) s)"
  by (auto simp: Let_def split: prod.splits option.splits
      intro!: carries_over_bind exprs_bound_monoD [OF ih] carries_over_ParseBinaryOperands
        types_bound_monoD [OF types_bound_mono])

lemma ebm_LogicalAndExpression:
  assumes ih: "exprs_bound_mono n k"
  shows "carries_over (ParseLogicalAndExpression (Suc n) s) (ParseLogicalAndExpression (Suc (n + k)) s)"
  by (auto simp: Let_def split: prod.splits option.splits
      intro!: carries_over_bind exprs_bound_monoD [OF ih] carries_over_ParseBinaryOperands
        types_bound_monoD [OF types_bound_mono])

lemma ebm_InclusiveOrExpression:
  assumes ih: "exprs_bound_mono n k"
  shows "carries_over (ParseInclusiveOrExpression (Suc n) s) (ParseInclusiveOrExpression (Suc (n + k)) s)"
  by (auto simp: Let_def split: prod.splits option.splits
      intro!: carries_over_bind exprs_bound_monoD [OF ih] carries_over_ParseBinaryOperands
        types_bound_monoD [OF types_bound_mono])

lemma ebm_ExclusiveOrExpression:
  assumes ih: "exprs_bound_mono n k"
  shows "carries_over (ParseExclusiveOrExpression (Suc n) s) (ParseExclusiveOrExpression (Suc (n + k)) s)"
  by (auto simp: Let_def split: prod.splits option.splits
      intro!: carries_over_bind exprs_bound_monoD [OF ih] carries_over_ParseBinaryOperands
        types_bound_monoD [OF types_bound_mono])

lemma ebm_AndExpression:
  assumes ih: "exprs_bound_mono n k"
  shows "carries_over (ParseAndExpression (Suc n) s) (ParseAndExpression (Suc (n + k)) s)"
  by (auto simp: Let_def split: prod.splits option.splits
      intro!: carries_over_bind exprs_bound_monoD [OF ih] carries_over_ParseBinaryOperands
        types_bound_monoD [OF types_bound_mono])

lemma ebm_EqualityExpression:
  assumes ih: "exprs_bound_mono n k"
  shows "carries_over (ParseEqualityExpression (Suc n) s) (ParseEqualityExpression (Suc (n + k)) s)"
  by (auto simp: Let_def split: prod.splits option.splits
      intro!: carries_over_bind exprs_bound_monoD [OF ih] carries_over_ParseBinaryOperands
        types_bound_monoD [OF types_bound_mono])

lemma ebm_RelationalExpression:
  assumes ih: "exprs_bound_mono n k"
  shows "carries_over (ParseRelationalExpression (Suc n) s) (ParseRelationalExpression (Suc (n + k)) s)"
  by (auto simp: Let_def split: prod.splits option.splits
      intro!: carries_over_bind exprs_bound_monoD [OF ih] carries_over_ParseBinaryOperands
        types_bound_monoD [OF types_bound_mono])

lemma ebm_ShiftExpression:
  assumes ih: "exprs_bound_mono n k"
  shows "carries_over (ParseShiftExpression (Suc n) s) (ParseShiftExpression (Suc (n + k)) s)"
  by (auto simp: Let_def split: prod.splits option.splits
      intro!: carries_over_bind exprs_bound_monoD [OF ih] carries_over_ParseBinaryOperands
        types_bound_monoD [OF types_bound_mono])

lemma ebm_AdditiveExpression:
  assumes ih: "exprs_bound_mono n k"
  shows "carries_over (ParseAdditiveExpression (Suc n) s) (ParseAdditiveExpression (Suc (n + k)) s)"
  by (auto simp: Let_def split: prod.splits option.splits
      intro!: carries_over_bind exprs_bound_monoD [OF ih] carries_over_ParseBinaryOperands
        types_bound_monoD [OF types_bound_mono])

lemma ebm_MultiplicativeExpression:
  assumes ih: "exprs_bound_mono n k"
  shows "carries_over (ParseMultiplicativeExpression (Suc n) s) (ParseMultiplicativeExpression (Suc (n + k)) s)"
  by (auto simp: Let_def split: prod.splits option.splits
      intro!: carries_over_bind exprs_bound_monoD [OF ih] carries_over_ParseBinaryOperands
        types_bound_monoD [OF types_bound_mono])

lemma ebm_CastExpression:
  assumes ih: "exprs_bound_mono n k"
  shows "carries_over (ParseCastExpression (Suc n) s) (ParseCastExpression (Suc (n + k)) s)"
  by (auto simp: Let_def split: prod.splits option.splits
      intro!: carries_over_bind exprs_bound_monoD [OF ih] carries_over_ParseBinaryOperands
        types_bound_monoD [OF types_bound_mono])

lemma ebm_UnaryExpression:
  assumes ih: "exprs_bound_mono n k"
  shows "carries_over (ParseUnaryExpression (Suc n) s) (ParseUnaryExpression (Suc (n + k)) s)"
  by (auto simp: Let_def split: prod.splits option.splits
      intro!: carries_over_bind exprs_bound_monoD [OF ih] carries_over_ParseBinaryOperands
        types_bound_monoD [OF types_bound_mono])

lemma ebm_PostfixExpression:
  assumes ih: "exprs_bound_mono n k"
  shows "carries_over (ParsePostfixExpression (Suc n) s) (ParsePostfixExpression (Suc (n + k)) s)"
  by (auto simp: Let_def split: prod.splits option.splits
      intro!: carries_over_bind exprs_bound_monoD [OF ih] carries_over_ParseBinaryOperands
        types_bound_monoD [OF types_bound_mono])

lemma ebm_PrimaryExpression:
  assumes ih: "exprs_bound_mono n k"
  shows "carries_over (ParsePrimaryExpression (Suc n) s) (ParsePrimaryExpression (Suc (n + k)) s)"
  by (auto simp: Let_def split: prod.splits option.splits
      intro!: carries_over_bind exprs_bound_monoD [OF ih] carries_over_ParseBinaryOperands
        types_bound_monoD [OF types_bound_mono])

lemma ebm_PostfixOperators:
  assumes ih: "exprs_bound_mono n k"
  shows "carries_over (ParsePostfixOperators (Suc n) lhs s) (ParsePostfixOperators (Suc (n + k)) lhs s)"
  by (auto simp: Let_def split: prod.splits option.splits
      intro!: carries_over_bind exprs_bound_monoD [OF ih] carries_over_ParseBinaryOperands
        types_bound_monoD [OF types_bound_mono])

lemma exprs_bound_mono: "exprs_bound_mono n k"
proof (induction n)
  case 0
  show ?case by (simp add: exprs_bound_mono_def)
next
  case (Suc n)
  show ?case
    unfolding exprs_bound_mono_def add_Suc
    by (intro conjI allI ebm_Expression [OF Suc] ebm_AssignmentExpression [OF Suc] ebm_ConditionalExpression [OF Suc] ebm_LogicalOrExpression [OF Suc] ebm_LogicalAndExpression [OF Suc] ebm_InclusiveOrExpression [OF Suc] ebm_ExclusiveOrExpression [OF Suc] ebm_AndExpression [OF Suc] ebm_EqualityExpression [OF Suc] ebm_RelationalExpression [OF Suc] ebm_ShiftExpression [OF Suc] ebm_AdditiveExpression [OF Suc] ebm_MultiplicativeExpression [OF Suc] ebm_CastExpression [OF Suc] ebm_UnaryExpression [OF Suc] ebm_PostfixExpression [OF Suc] ebm_PrimaryExpression [OF Suc] ebm_PostfixOperators [OF Suc])
qed

lemma Run_bound_mono:
  assumes "Run n s = Some r"
  shows "Run (n + k) s = Some r"
proof -
  have "carries_over (Run n s) (Run (n + k) s)"
    unfolding Run_def Let_def
    by (rule carries_over_bind [OF exprs_bound_monoD(1) [OF exprs_bound_mono]]) simp
  with assms show ?thesis by (simp add: carries_over_def)
qed

lemma Run_bound_independent:
  assumes "Run n s = Some r" and "Run m s = Some r'"
  shows "r = r'"
proof -
  from Run_bound_mono [OF assms(1), of m] Run_bound_mono [OF assms(2), of n]
  show ?thesis by (simp add: add.commute)
qed

section \<open>Evaluating the parser on a given input\<close>

text \<open>The equations of the recursive functions for a bound written as a numeral.\<close>

lemmas fuel_numeral =
  ParseTypeId.simps(2) [where n = "pred_numeral k" for k, folded numeral_eq_Suc]
  ParseTypeSpecifierSeq.simps(2) [where n = "pred_numeral k" for k, folded numeral_eq_Suc]
  ParseTypeSpecifier.simps(2) [where n = "pred_numeral k" for k, folded numeral_eq_Suc]
  ParseNestedNameSpecifier.simps(2) [where n = "pred_numeral k" for k, folded numeral_eq_Suc]
  ParseTypeName.simps(2) [where n = "pred_numeral k" for k, folded numeral_eq_Suc]
  ParseTemplateArgumentList.simps(2) [where n = "pred_numeral k" for k, folded numeral_eq_Suc]
  ParseTemplateArguments.simps(2) [where n = "pred_numeral k" for k, folded numeral_eq_Suc]
  ParseTemplateArgument.simps(2) [where n = "pred_numeral k" for k, folded numeral_eq_Suc]
  ParseIdExpression.simps(2) [where n = "pred_numeral k" for k, folded numeral_eq_Suc]
  ParseBinaryOperands.simps(2) [where n = "pred_numeral k" for k, folded numeral_eq_Suc]
  ParseExpression.simps(2) [where n = "pred_numeral k" for k, folded numeral_eq_Suc]
  ParseAssignmentExpression.simps(2) [where n = "pred_numeral k" for k, folded numeral_eq_Suc]
  ParseConditionalExpression.simps(2) [where n = "pred_numeral k" for k, folded numeral_eq_Suc]
  ParseLogicalOrExpression.simps(2) [where n = "pred_numeral k" for k, folded numeral_eq_Suc]
  ParseLogicalAndExpression.simps(2) [where n = "pred_numeral k" for k, folded numeral_eq_Suc]
  ParseInclusiveOrExpression.simps(2) [where n = "pred_numeral k" for k, folded numeral_eq_Suc]
  ParseExclusiveOrExpression.simps(2) [where n = "pred_numeral k" for k, folded numeral_eq_Suc]
  ParseAndExpression.simps(2) [where n = "pred_numeral k" for k, folded numeral_eq_Suc]
  ParseEqualityExpression.simps(2) [where n = "pred_numeral k" for k, folded numeral_eq_Suc]
  ParseRelationalExpression.simps(2) [where n = "pred_numeral k" for k, folded numeral_eq_Suc]
  ParseShiftExpression.simps(2) [where n = "pred_numeral k" for k, folded numeral_eq_Suc]
  ParseAdditiveExpression.simps(2) [where n = "pred_numeral k" for k, folded numeral_eq_Suc]
  ParseMultiplicativeExpression.simps(2) [where n = "pred_numeral k" for k, folded numeral_eq_Suc]
  ParseCastExpression.simps(2) [where n = "pred_numeral k" for k, folded numeral_eq_Suc]
  ParseUnaryExpression.simps(2) [where n = "pred_numeral k" for k, folded numeral_eq_Suc]
  ParsePostfixExpression.simps(2) [where n = "pred_numeral k" for k, folded numeral_eq_Suc]
  ParsePostfixOperators.simps(2) [where n = "pred_numeral k" for k, folded numeral_eq_Suc]
  ParsePrimaryExpression.simps(2) [where n = "pred_numeral k" for k, folded numeral_eq_Suc]

lemmas parser_defs =
  Run_def new_Parser_def ConsumeToken_def Lex_def LookAhead0_def eof_token_def
  BailOut_def Expect_def ExpectOneOf_def new_TentativeParsingAction_def Commit_def Rollback_def
  IsSimpleTypeSpecifierKeyword_def IsCvQualifier_def IsPtrOperator_def
  ParseNumericLiteral_def ParseNumericConstant_def ParseIntegerLiteral_def
  ParseFloatingLiteral_def ParseBooleanLiteral_def ParsePointerLiteral_def
  ParseUnqualifiedId_def ResolveTypeFromTypeDecl_def IsValid_def GetBaseName_def
  StringReplace_def ParsePtrOperators.simps ParsePtrOperator_def ConsumeCvQualifiers.simps
  Let_def

lemmas example_defs =
  mk_token_def integer_literal_def lp64_def context_with_def tokens_1_shl_def
  tokens_paren_foo_def tokens_scope_1_def tokens_a_less_1_def

text \<open>Congruence rules that keep the simplifier out of a continuation until the call before
  it has been evaluated.\<close>

lemma bind_weak_cong: "x = y \<Longrightarrow> Option.bind x f = Option.bind y f"
  by simp

lemmas eval_cong = bind_weak_cong prod.case_cong_weak let_weak_cong

section \<open>Properties of the numeric literal typer\<close>

lemma isIntN_pred: "\<not> isIntN v n \<Longrightarrow> \<not> isIntN v (n - 1)"
proof -
  assume "\<not> isIntN v n"
  then have a: "2 ^ n \<le> v" by (simp add: isIntN_def)
  have b: "(2::nat) ^ (n - 1) \<le> 2 ^ n" by (rule power_increasing) simp_all
  from b a have "(2::nat) ^ (n - 1) \<le> v" by (rule order_trans)
  then show ?thesis unfolding isIntN_def by (simp only: not_less)
qed

text \<open>C6. A literal with a \<^verbatim>\<open>u\<close> suffix is always given an unsigned type, the final fallback
  included. A literal without the suffix whose radix is not 10 is given the unsigned type of
  a width only when its value does not fit the signed type of that width, that is, does not
  fit in one bit less.\<close>

theorem PickIntegerType_unsigned_rules:
  "(isUnsigned literal \<longrightarrow>
      PickIntegerType w literal v
        \<in> {eBasicTypeUnsignedInt, eBasicTypeUnsignedLong, eBasicTypeUnsignedLongLong}) \<and>
   (\<not> isUnsigned literal \<and> getRadix literal \<noteq> 10 \<longrightarrow>
      (PickIntegerType w literal v = eBasicTypeUnsignedInt \<longrightarrow> \<not> isIntN v (int_size w - 1)) \<and>
      (PickIntegerType w literal v = eBasicTypeUnsignedLong \<longrightarrow> \<not> isIntN v (long_size w - 1)) \<and>
      (PickIntegerType w literal v = eBasicTypeUnsignedLongLong
         \<longrightarrow> \<not> isIntN v (long_long_size w - 1)))"
  using isIntN_pred [of v "long_long_size w"]
  by (auto simp: PickIntegerType_def Let_def split: if_splits)

theorem PickIntegerType_unsigned_rules_witness:
  "PickIntegerType \<lparr>int_size = 32, long_size = 64, long_long_size = 64, uintmax_size = 64\<rparr>
     \<lparr>hadError = False, isFloatingLiteral = False, isIntegerLiteral = True, isUnsigned = True,
      isLong = False, isLongLong = False, isFloat = False, getRadix = 10, integer_value = 5,
      float_overflow = False, float_underflow = False, float_is_zero = False\<rparr> 5
     \<in> {eBasicTypeUnsignedInt, eBasicTypeUnsignedLong, eBasicTypeUnsignedLongLong} \<and>
   PickIntegerType \<lparr>int_size = 32, long_size = 64, long_long_size = 64, uintmax_size = 64\<rparr>
     \<lparr>hadError = False, isFloatingLiteral = False, isIntegerLiteral = True, isUnsigned = False,
      isLong = False, isLongLong = False, isFloat = False, getRadix = 16,
      integer_value = 4294967295,
      float_overflow = False, float_underflow = False, float_is_zero = False\<rparr> 4294967295
     = eBasicTypeUnsignedInt \<and>
   \<not> isIntN 4294967295 (32 - 1)"
  using PickIntegerType_unsigned_rules
     [of "\<lparr>hadError = False, isFloatingLiteral = False, isIntegerLiteral = True, isUnsigned = True,
      isLong = False, isLongLong = False, isFloat = False, getRadix = 10, integer_value = 5,
      float_overflow = False, float_underflow = False, float_is_zero = False\<rparr>"
      "\<lparr>int_size = 32, long_size = 64, long_long_size = 64, uintmax_size = 64\<rparr>" 5]
    PickIntegerType_unsigned_rules
     [of "\<lparr>hadError = False, isFloatingLiteral = False, isIntegerLiteral = True, isUnsigned = False,
      isLong = False, isLongLong = False, isFloat = False, getRadix = 16,
      integer_value = 4294967295,
      float_overflow = False, float_underflow = False, float_is_zero = False\<rparr>"
      "\<lparr>int_size = 32, long_size = 64, long_long_size = 64, uintmax_size = 64\<rparr>" 4294967295]
  by (simp add: PickIntegerType_def isIntN_def)

lemma PickIntegerType_cascade:
  "PickIntegerType w literal v = first_accommodating_type w literal v"
proof -
  have m: "v < 2 ^ (n - 1) \<Longrightarrow> v < 2 ^ n" for n :: nat
    using isIntN_pred [of v n] by (auto simp: isIntN_def)
  show ?thesis
    using m [of "int_size w"] m [of "long_size w"] m [of "long_long_size w"]
    by (auto simp: PickIntegerType_def first_accommodating_type_def integer_cascade_def
        isIntN_def Let_def)
qed

text \<open>C7, as stated, fails: with 32-bit \<^verbatim>\<open>int\<close> and \<^verbatim>\<open>long\<close> and 64-bit \<^verbatim>\<open>long long\<close> the
  unsuffixed decimal literal \<^verbatim>\<open>4294967295\<close> is typed \<^verbatim>\<open>long long\<close>, not \<^verbatim>\<open>unsigned long\<close>.\<close>

theorem decimal_literal_not_unsigned_long:
  "PickIntegerType \<lparr>int_size = 32, long_size = 32, long_long_size = 64, uintmax_size = 64\<rparr>
     (integer_literal 10 4294967295) 4294967295 = eBasicTypeLongLong
   \<and> eBasicTypeLongLong \<noteq> eBasicTypeUnsignedLong"
  by (simp add: PickIntegerType_def integer_literal_def isIntN_def)

text \<open>C7, amended. With 32-bit \<^verbatim>\<open>int\<close>, the unsuffixed literal \<^verbatim>\<open>0xFFFFFFFF\<close> is typed
  \<^verbatim>\<open>unsigned int\<close> with value 4294967295; the unsuffixed decimal literal \<^verbatim>\<open>4294967295\<close> is
  typed \<^verbatim>\<open>long\<close> when \<^verbatim>\<open>long\<close> has 64 bits, and \<^verbatim>\<open>long long\<close> when \<^verbatim>\<open>long\<close> has 32 bits and
  \<^verbatim>\<open>long long\<close> has 64. In general the typer picks the first type of the cascade
  \<^verbatim>\<open>int\<close>, \<^verbatim>\<open>unsigned int\<close>, \<^verbatim>\<open>long\<close>, \<^verbatim>\<open>unsigned long\<close>, \<^verbatim>\<open>long long\<close>, \<^verbatim>\<open>unsigned long long\<close>
  that accommodates the value, an unsigned type only when one is allowed.\<close>

theorem integer_literal_typing:
  "(int_size (type_width (ctx s)) = 32 \<and> uintmax_size (type_width (ctx s)) = 64 \<longrightarrow>
      ParseIntegerLiteral (integer_literal 16 4294967295) tk s =
        (LiteralNode (ValueFromAPInt 4294967295 True eBasicTypeUnsignedInt), s) \<and>
      (long_size (type_width (ctx s)) = 64 \<longrightarrow>
         ParseIntegerLiteral (integer_literal 10 4294967295) tk s =
           (LiteralNode (ValueFromAPInt 4294967295 False eBasicTypeLong), s)) \<and>
      (long_size (type_width (ctx s)) = 32 \<and> long_long_size (type_width (ctx s)) = 64 \<longrightarrow>
         ParseIntegerLiteral (integer_literal 10 4294967295) tk s =
           (LiteralNode (ValueFromAPInt 4294967295 False eBasicTypeLongLong), s))) \<and>
   PickIntegerType w literal v = first_accommodating_type w literal v"
  by (simp add: PickIntegerType_cascade [of w literal v])
     (simp add: ParseIntegerLiteral_def PickIntegerType_def integer_literal_def isIntN_def)

theorem integer_literal_typing_witness:
  "ParseIntegerLiteral (integer_literal 16 4294967295) (mk_token tok_numeric_constant ''0xFFFFFFFF'' 0)
     (new_Parser (context_with Map.empty Map.empty) []) =
     (LiteralNode (ValueFromAPInt 4294967295 True eBasicTypeUnsignedInt),
      new_Parser (context_with Map.empty Map.empty) []) \<and>
   ParseIntegerLiteral (integer_literal 10 4294967295) (mk_token tok_numeric_constant ''4294967295'' 0)
     (new_Parser (context_with Map.empty Map.empty) []) =
     (LiteralNode (ValueFromAPInt 4294967295 False eBasicTypeLong),
      new_Parser (context_with Map.empty Map.empty) []) \<and>
   ParseIntegerLiteral (integer_literal 10 4294967295) (mk_token tok_numeric_constant ''4294967295'' 0)
     (new_Parser ((context_with Map.empty Map.empty)
        \<lparr>type_width := \<lparr>int_size = 32, long_size = 32, long_long_size = 64, uintmax_size = 64\<rparr>\<rparr>) []) =
     (LiteralNode (ValueFromAPInt 4294967295 False eBasicTypeLongLong),
      new_Parser ((context_with Map.empty Map.empty)
        \<lparr>type_width := \<lparr>int_size = 32, long_size = 32, long_long_size = 64, uintmax_size = 64\<rparr>\<rparr>) [])"
  using integer_literal_typing
      [of "new_Parser (context_with Map.empty Map.empty) []"
          "mk_token tok_numeric_constant ''0xFFFFFFFF'' 0"]
    integer_literal_typing
      [of "new_Parser (context_with Map.empty Map.empty) []"
          "mk_token tok_numeric_constant ''4294967295'' 0"]
    integer_literal_typing
      [of "new_Parser ((context_with Map.empty Map.empty)
        \<lparr>type_width := \<lparr>int_size = 32, long_size = 32, long_long_size = 64, uintmax_size = 64\<rparr>\<rparr>) []"
          "mk_token tok_numeric_constant ''4294967295'' 0"]
  by (simp add: new_Parser_def context_with_def lp64_def)

section \<open>The error at a missing primary expression\<close>

lemma Run_1_shl:
  assumes "NumericLiteralParser c ''1'' = integer_literal 10 1"
    and "uintmax_size (type_width c) = 64"
  shows "Run 40 (new_Parser c tokens_1_shl) =
     Some (ErrorNode, Some (kInvalidExpressionSyntax, UnexpectedToken (mk_token tok_eof [] 4), 4))"
  using assms by (simp add: fuel_numeral parser_defs example_defs cong: eval_cong)

lemma Run_cast_without_operand:
  assumes "ResolveTypeByName c ''foo'' = Some ty"
  shows "Run 40 (new_Parser c tokens_paren_foo) =
     Some (ErrorNode, Some (kInvalidExpressionSyntax, UnexpectedToken (mk_token tok_eof [] 5), 5))"
  using assms by (simp add: fuel_numeral parser_defs example_defs cong: eval_cong)

lemma ParsePrimaryExpression_eof:
  "kind (token s) = tok_eof \<Longrightarrow> error s = None \<Longrightarrow>
   ParsePrimaryExpression (Suc n) s =
     Some (ErrorNode,
           s\<lparr>error := Some (kInvalidExpressionSyntax, UnexpectedToken (token s), location (token s)),
             token := (token s)\<lparr>kind := tok_eof\<rparr>\<rparr>)"
  by (simp add: BailOut_def)

text \<open>C1, as stated, fails: for \<^verbatim>\<open>1 <<\<close> the primary expression is required at end-of-input
  and the error that \<^verbatim>\<open>Run\<close> hands back has code \<^verbatim>\<open>kInvalidExpressionSyntax\<close>.\<close>

theorem Run_1_shl_not_kUnknown:
  "Run 40 (new_Parser (context_with Map.empty Map.empty) tokens_1_shl) =
     Some (ErrorNode, Some (kInvalidExpressionSyntax, UnexpectedToken (mk_token tok_eof [] 4), 4))
   \<and> kInvalidExpressionSyntax \<noteq> kUnknown"
  using Run_1_shl [of "context_with Map.empty Map.empty"]
  by (simp add: context_with_def lp64_def)

text \<open>C1, amended. When \<^verbatim>\<open>ParsePrimaryExpression\<close> is entered with the current token
  end-of-input and no error recorded so far, it returns the error node and records an error
  with code \<^verbatim>\<open>kInvalidExpressionSyntax\<close> at that token. For the truncated inputs \<^verbatim>\<open>1 <<\<close>
  and \<^verbatim>\<open>(foo)\<close>, with \<^verbatim>\<open>foo\<close> a known type, this is the error that \<^verbatim>\<open>Run\<close> hands back.\<close>

theorem primary_at_eof_InvalidExpressionSyntax:
  "(kind (token s) = tok_eof \<and> error s = None \<longrightarrow>
      (\<exists>s'. ParsePrimaryExpression (Suc n) s = Some (ErrorNode, s') \<and>
            error s' = Some (kInvalidExpressionSyntax, UnexpectedToken (token s),
                             location (token s)))) \<and>
   (NumericLiteralParser c ''1'' = integer_literal 10 1 \<and> uintmax_size (type_width c) = 64 \<longrightarrow>
      (\<exists>d. Run 40 (new_Parser c tokens_1_shl) =
            Some (ErrorNode, Some (kInvalidExpressionSyntax, d)))) \<and>
   (ResolveTypeByName c ''foo'' \<noteq> None \<longrightarrow>
      (\<exists>d. Run 40 (new_Parser c tokens_paren_foo) =
            Some (ErrorNode, Some (kInvalidExpressionSyntax, d))))"
  by (auto simp: BailOut_def Run_1_shl Run_cast_without_operand)

theorem primary_at_eof_InvalidExpressionSyntax_witness:
  "(\<exists>s'. ParsePrimaryExpression (Suc 0)
            (ConsumeToken (new_Parser (context_with Map.empty Map.empty) []))
          = Some (ErrorNode, s') \<and>
         error s' = Some (kInvalidExpressionSyntax, UnexpectedToken (mk_token tok_eof [] 0), 0)) \<and>
   (\<exists>d. Run 40 (new_Parser (context_with Map.empty Map.empty) tokens_1_shl) =
         Some (ErrorNode, Some (kInvalidExpressionSyntax, d))) \<and>
   (\<exists>d. Run 40 (new_Parser (context_with [''foo'' \<mapsto> NamedType ''foo''] Map.empty)
                  tokens_paren_foo) =
         Some (ErrorNode, Some (kInvalidExpressionSyntax, d)))"
  using primary_at_eof_InvalidExpressionSyntax
    [of "(ConsumeToken (new_Parser (context_with Map.empty Map.empty) []))"
        0 "context_with Map.empty Map.empty"]
    primary_at_eof_InvalidExpressionSyntax
    [of "(ConsumeToken (new_Parser (context_with Map.empty Map.empty) []))"
        0 "context_with [''foo'' \<mapsto> NamedType ''foo''] Map.empty"]
  by (simp add: new_Parser_def mk_token_def context_with_def lp64_def ConsumeToken_def Lex_def
      eof_token_def integer_literal_def)

section \<open>A failed type specifier\<close>




section \<open>An empty nested name specifier\<close>

lemma ParseNestedNameSpecifier_empty_same:
  assumes "ParseNestedNameSpecifier n s = Some ([], s')"
  shows "s' = s"
proof (cases n)
  case 0
  with assms show ?thesis by simp
next
  case (Suc m)
  show ?thesis
  proof (cases "kind (token s) = tok_identifier \<and> kind (LookAhead0 s) \<noteq> tok_coloncolon
                \<and> kind (LookAhead0 s) = tok_less")
    case False
    with assms Suc show ?thesis
      by (auto simp: bind_eq_Some_conv Let_def split: if_splits)
  next
    case True
    with assms Suc obtain type_name s1 where
      t: "ParseTypeName m s = Some (type_name, s1)"
      and r: "s' = Rollback (new_TentativeParsingAction s) s1"
      by (auto simp: bind_eq_Some_conv Let_def split: if_splits)
    from t have "input_of s1 = input_of s"
      by (rule types_keep_inputD [OF types_keep_input])
    then show ?thesis unfolding r by (rule Rollback_restores)
  qed
qed

text \<open>C10. \<^verbatim>\<open>ParseNestedNameSpecifier\<close> returns once the bound on the depth of the calls is
  large enough for the input that is left; and whenever it returns the empty string, the
  position in the token stream and the current token are what they were at entry.\<close>

theorem ParseNestedNameSpecifier_empty:
  "(24 * remaining s + 2 \<le> n \<longrightarrow> (\<exists>r s'. ParseNestedNameSpecifier n s = Some (r, s'))) \<and>
   (\<forall>s'. ParseNestedNameSpecifier n s = Some ([], s') \<longrightarrow>
      pp_pos s' = pp_pos s \<and> token s' = token s)"
proof -
  have "\<exists>r s'. ParseNestedNameSpecifier n s = Some (r, s')" if "24 * remaining s + 2 \<le> n"
  proof -
    from that have "returns (ParseNestedNameSpecifier n s) (\<lambda>(r, s'). True)"
      by (rule tr_NestedNameSpecifier [OF types_return]) simp
    then show ?thesis by (auto simp: returns_def)
  qed
  then show ?thesis using ParseNestedNameSpecifier_empty_same [of n s] by auto
qed

text \<open>At \<^verbatim>\<open>a < 1\<close> the template id is tried under a snapshot, fails, and is rolled back.\<close>

theorem ParseNestedNameSpecifier_empty_witness:
  "ParseNestedNameSpecifier 74
     \<lparr>ctx = context_with Map.empty Map.empty, pp_tokens = tokens_a_less_1, pp_pos = 1,
      token = mk_token tok_identifier ''a'' 0, error = None\<rparr> =
   Some ([], \<lparr>ctx = context_with Map.empty Map.empty, pp_tokens = tokens_a_less_1, pp_pos = 1,
      token = mk_token tok_identifier ''a'' 0, error = None\<rparr>) \<and>
   pp_pos \<lparr>ctx = context_with Map.empty Map.empty, pp_tokens = tokens_a_less_1, pp_pos = 1,
      token = mk_token tok_identifier ''a'' 0, error = None\<rparr> = 1"
proof -
  have l: "24 * remaining \<lparr>ctx = context_with Map.empty Map.empty, pp_tokens = tokens_a_less_1,
      pp_pos = 1, token = mk_token tok_identifier ''a'' 0, error = None\<rparr> + 2 \<le> (74::nat)"
    by (simp add: remaining_def mk_token_def tokens_a_less_1_def)
  have e: "ParseNestedNameSpecifier 74
     \<lparr>ctx = context_with Map.empty Map.empty, pp_tokens = tokens_a_less_1, pp_pos = 1,
      token = mk_token tok_identifier ''a'' 0, error = None\<rparr> =
   Some ([], \<lparr>ctx = context_with Map.empty Map.empty, pp_tokens = tokens_a_less_1, pp_pos = 1,
      token = mk_token tok_identifier ''a'' 0, error = None\<rparr>)"
    by (simp add: fuel_numeral parser_defs mk_token_def tokens_a_less_1_def cong: eval_cong)
  from ParseNestedNameSpecifier_empty
    [of "\<lparr>ctx = context_with Map.empty Map.empty, pp_tokens = tokens_a_less_1, pp_pos = 1,
      token = mk_token tok_identifier ''a'' 0, error = None\<rparr>" 74] l e
  show ?thesis by simp
qed

section \<open>The rejected cast\<close>

lemma Run_paren_value:
  assumes "ResolveTypeByName c ''foo'' = None" and "LookupIdentifier c ''foo'' = Some v"
  shows "Run 40 (new_Parser c tokens_paren_foo) = Some (IdentifierNode ''foo'' (Value v False), None)"
  using assms by (simp add: fuel_numeral parser_defs example_defs cong: eval_cong)

lemma ParseUnaryExpression_paren:
  assumes "kind (token s) = tok_l_paren"
  shows "ParseUnaryExpression (Suc (Suc (Suc m))) s =
     do {
       (expr, s2) \<leftarrow> ParseExpression m (ConsumeToken s);
       ParsePostfixOperators (Suc m) expr (ConsumeToken (Expect tok_r_paren s2))
     }"
  using assms by (cases "ParseExpression m (ConsumeToken s)") (auto simp: Let_def)

text \<open>C4. The tentative \<^verbatim>\<open>ParseTypeId\<close> returns once the bound on the depth of the calls is
  large enough for the input that is left. When the current token is \<^verbatim>\<open>(\<close> and the base
  type of what it returns does not resolve, the rollback gives back the parser as it was before the attempt,
  position and current token included; \<^verbatim>\<open>ParseCastExpression\<close> then is
  \<^verbatim>\<open>ParseUnaryExpression\<close> on that state, which parses \<^verbatim>\<open>( expression )\<close> as a primary
  expression, followed by its postfix operators. In particular \<^verbatim>\<open>(foo)\<close>, with \<^verbatim>\<open>foo\<close> not
  a type but a value, yields the identifier node of \<^verbatim>\<open>foo\<close> and no error.\<close>

theorem ParseCastExpression_rolls_back:
  "(24 * remaining s + 5 \<le> n \<longrightarrow>
      (\<exists>type_decl s2. ParseTypeId n (ConsumeToken s) = Some (type_decl, s2))) \<and>
   (kind (token s) = tok_l_paren \<and>
    ParseTypeId n (ConsumeToken s) = Some (type_decl, s2) \<and>
    ResolveTypeFromTypeDecl (ctx s2) type_decl = None \<longrightarrow>
      Rollback (new_TentativeParsingAction s) s2 = s \<and>
      ParseCastExpression (Suc n) s = ParseUnaryExpression n s \<and>
      (\<forall>m. n = Suc (Suc (Suc m)) \<longrightarrow>
         ParseCastExpression (Suc n) s =
           do {
             (expr, s3) \<leftarrow> ParseExpression m (ConsumeToken s);
             ParsePostfixOperators (Suc m) expr (ConsumeToken (Expect tok_r_paren s3))
           })) \<and>
   (ResolveTypeByName c ''foo'' = None \<and> LookupIdentifier c ''foo'' = Some v \<longrightarrow>
      Run 40 (new_Parser c tokens_paren_foo) =
        Some (IdentifierNode ''foo'' (Value v False), None))"
proof -
  have a: "Rollback (new_TentativeParsingAction s) s2 = s"
    if "ParseTypeId n (ConsumeToken s) = Some (type_decl, s2)"
  proof -
    have "input_of s2 = input_of (ConsumeToken s)"
      using that by (rule types_keep_inputD [OF types_keep_input])
    then show ?thesis by (simp add: Rollback_restores)
  qed
  have b: "ParseCastExpression (Suc n) s = ParseUnaryExpression n s"
    if "kind (token s) = tok_l_paren" "ParseTypeId n (ConsumeToken s) = Some (type_decl, s2)"
      "ResolveTypeFromTypeDecl (ctx s2) type_decl = None"
    using that a by (simp add: Let_def)
  have c: "\<exists>type_decl s2. ParseTypeId n (ConsumeToken s) = Some (type_decl, s2)"
    if "24 * remaining s + 5 \<le> n"
  proof -
    from that remaining_ConsumeToken_le [of s]
    have "24 * remaining (ConsumeToken s) + 5 \<le> n" by arith
    then have "returns (ParseTypeId n (ConsumeToken s)) (\<lambda>(r, s'). True)"
      by (rule tr_TypeId [OF types_return]) simp
    then show ?thesis by (auto simp: returns_def)
  qed
  show ?thesis
    using a b c by (auto simp: Run_paren_value ParseUnaryExpression_paren simp del:
        ParseCastExpression.simps ParseUnaryExpression.simps)
qed

theorem ParseCastExpression_rolls_back_witness:
  "(\<exists>type_decl s2. ParseTypeId 77 (ConsumeToken (ConsumeToken
       (new_Parser (context_with Map.empty [''foo'' \<mapsto> 7]) tokens_paren_foo))) =
       Some (type_decl, s2)) \<and>
   Rollback
     (new_TentativeParsingAction (ConsumeToken (new_Parser (context_with Map.empty [''foo'' \<mapsto> 7])
        tokens_paren_foo)))
     \<lparr>ctx = context_with Map.empty [''foo'' \<mapsto> 7], pp_tokens = tokens_paren_foo, pp_pos = 3,
      token = mk_token tok_r_paren '')'' 4, error = None\<rparr>
     = ConsumeToken (new_Parser (context_with Map.empty [''foo'' \<mapsto> 7]) tokens_paren_foo) \<and>
   ParseCastExpression (Suc 77)
     (ConsumeToken (new_Parser (context_with Map.empty [''foo'' \<mapsto> 7]) tokens_paren_foo)) =
   ParseUnaryExpression 77
     (ConsumeToken (new_Parser (context_with Map.empty [''foo'' \<mapsto> 7]) tokens_paren_foo)) \<and>
   Run 40 (new_Parser (context_with Map.empty [''foo'' \<mapsto> 7]) tokens_paren_foo) =
     Some (IdentifierNode ''foo'' (Value 7 False), None)"
proof -
  have k: "kind (token (ConsumeToken (new_Parser (context_with Map.empty [''foo'' \<mapsto> 7])
             tokens_paren_foo))) = tok_l_paren"
    by (simp add: parser_defs example_defs)
  have t: "ParseTypeId 77 (ConsumeToken (ConsumeToken
             (new_Parser (context_with Map.empty [''foo'' \<mapsto> 7]) tokens_paren_foo))) =
           Some (\<lparr>typenames = [''foo''], ptr_operators = []\<rparr>,
             \<lparr>ctx = context_with Map.empty [''foo'' \<mapsto> 7], pp_tokens = tokens_paren_foo,
              pp_pos = 3, token = mk_token tok_r_paren '')'' 4, error = None\<rparr>)"
    by (simp add: fuel_numeral parser_defs mk_token_def tokens_paren_foo_def cong: eval_cong)
  have l: "24 * remaining (ConsumeToken (new_Parser (context_with Map.empty [''foo'' \<mapsto> 7])
             tokens_paren_foo)) + 5 \<le> (77::nat)"
    by (simp add: parser_defs example_defs remaining_def)
  have r: "ResolveTypeFromTypeDecl
             (ctx \<lparr>ctx = context_with Map.empty [''foo'' \<mapsto> 7], pp_tokens = tokens_paren_foo,
              pp_pos = 3, token = mk_token tok_r_paren '')'' 4, error = None\<rparr>)
             \<lparr>typenames = [''foo''], ptr_operators = []\<rparr> = None"
    by (simp add: parser_defs context_with_def)
  have c: "ResolveTypeByName (context_with Map.empty [''foo'' \<mapsto> 7]) ''foo'' = None \<and>
           LookupIdentifier (context_with Map.empty [''foo'' \<mapsto> 7]) ''foo'' = Some 7"
    by (simp add: context_with_def)
  from ParseCastExpression_rolls_back
    [of "ConsumeToken (new_Parser (context_with Map.empty [''foo'' \<mapsto> 7]) tokens_paren_foo)"
      77 "\<lparr>typenames = [''foo''], ptr_operators = []\<rparr>"
      "\<lparr>ctx = context_with Map.empty [''foo'' \<mapsto> 7], pp_tokens = tokens_paren_foo,
        pp_pos = 3, token = mk_token tok_r_paren '')'' 4, error = None\<rparr>"
      "context_with Map.empty [''foo'' \<mapsto> 7]" 7]
    k t r c l
  show ?thesis by blast
qed

section \<open>The error and the error node\<close>

lemma ParseExpression_marks_error:
  assumes "ParseExpression n s = Some (expr, s2)"
  shows "marks_error expr s2"
proof (cases n)
  case 0
  with assms show ?thesis by simp
next
  case (Suc k)
  with assms show ?thesis using enr_Expression [OF error_node_recorded] by blast
qed

text \<open>C5. \<^verbatim>\<open>Run\<close> returns for every parser state, once the bound on the depth of the calls
  is large enough for the number of tokens; and whenever it returns, it hands back an error
  if and only if the root it returns is the error node.\<close>

theorem Run_error_iff_ErrorNode:
  "(24 * (length (pp_tokens s) + 1) + 20 \<le> n \<longrightarrow> (\<exists>e err. Run n s = Some (e, err))) \<and>
   (\<forall>e err. Run n s = Some (e, err) \<longrightarrow> (err \<noteq> None \<longleftrightarrow> e = ErrorNode))"
proof -
  have "err \<noteq> None \<longleftrightarrow> e = ErrorNode" if r: "Run n s = Some (e, err)" for e err
  proof -
    from r obtain expr s2 where
      p: "ParseExpression n (ConsumeToken s) = Some (expr, s2)"
      and q: "(e, err) = (if error (Expect tok_eof s2) \<noteq> None
                          then (ErrorNode, error (Expect tok_eof s2))
                          else (expr, error (Expect tok_eof s2)))"
      by (auto simp: Run_def Let_def bind_eq_Some_conv split: if_splits)
    from p have "marks_error expr s2" by (rule ParseExpression_marks_error)
    then have "marks_error expr (Expect tok_eof s2)" by simp
    with q show ?thesis by (auto simp: marks_error_def split: if_splits)
  qed
  then show ?thesis using Run_returns [of s n] by blast
qed

text \<open>The inputs \<^verbatim>\<open>1 <<\<close>, which ends in an error, and \<^verbatim>\<open>(foo)\<close> with \<^verbatim>\<open>foo\<close> a value, which
  does not.\<close>

theorem Run_error_iff_ErrorNode_witness:
  "(\<exists>e err. Run 92 (new_Parser (context_with Map.empty Map.empty) tokens_1_shl) = Some (e, err)) \<and>
   Run 92 (new_Parser (context_with Map.empty Map.empty) tokens_1_shl) =
     Some (ErrorNode, Some (kInvalidExpressionSyntax, UnexpectedToken (mk_token tok_eof [] 4), 4)) \<and>
   (Some (kInvalidExpressionSyntax, UnexpectedToken (mk_token tok_eof [] 4), 4) \<noteq> None
      \<longleftrightarrow> ErrorNode = ErrorNode) \<and>
   Run 40 (new_Parser (context_with Map.empty [''foo'' \<mapsto> 7]) tokens_paren_foo) =
     Some (IdentifierNode ''foo'' (Value 7 False), None) \<and>
   ((None :: Error option) \<noteq> None \<longleftrightarrow> IdentifierNode ''foo'' (Value 7 False) = ErrorNode)"
proof -
  have l: "24 * (length (pp_tokens (new_Parser (context_with Map.empty Map.empty) tokens_1_shl)) + 1)
             + 20 \<le> (92::nat)"
    by (simp add: new_Parser_def tokens_1_shl_def)
  have a: "Run 92 (new_Parser (context_with Map.empty Map.empty) tokens_1_shl) =
     Some (ErrorNode, Some (kInvalidExpressionSyntax, UnexpectedToken (mk_token tok_eof [] 4), 4))"
    by (simp add: fuel_numeral parser_defs example_defs cong: eval_cong)
  have b: "Run 40 (new_Parser (context_with Map.empty [''foo'' \<mapsto> 7]) tokens_paren_foo) =
     Some (IdentifierNode ''foo'' (Value 7 False), None)"
    by (rule Run_paren_value) (simp_all add: context_with_def)
  from Run_error_iff_ErrorNode
      [of "new_Parser (context_with Map.empty Map.empty) tokens_1_shl" 92]
    Run_error_iff_ErrorNode
      [of "new_Parser (context_with Map.empty [''foo'' \<mapsto> 7]) tokens_paren_foo" 40]
    l a b
  show ?thesis by simp
qed

section \<open>The first error wins\<close>

lemma run_calls_after_error:
  "error s \<noteq> None \<Longrightarrow> kind (token s) = tok_eof \<Longrightarrow> run_calls cs s = s"
proof (induction cs)
  case Nil
  then show ?case by simp
next
  case (Cons c cs)
  then have "run_call c s = s"
    by (cases c) (simp_all add: ConsumeToken_def BailOut_def)
  with Cons show ?case by simp
qed

text \<open>C8. With an error recorded, \<^verbatim>\<open>BailOut\<close> changes nothing. Without one, it stores the
  error and sets the current token to end-of-input, and after that no sequence of calls to
  \<^verbatim>\<open>ConsumeToken\<close> and \<^verbatim>\<open>BailOut\<close> changes the parser: the error stays the first one and the
  token stays end-of-input. At end-of-input \<^verbatim>\<open>ConsumeToken\<close> changes nothing.\<close>

theorem first_error_wins:
  "(error s \<noteq> None \<longrightarrow> BailOut code msg loc s = s) \<and>
   (error s = None \<longrightarrow>
      error (BailOut code msg loc s) = Some (code, msg, loc) \<and>
      kind (token (BailOut code msg loc s)) = tok_eof \<and>
      (\<forall>cs. run_calls cs (BailOut code msg loc s) = BailOut code msg loc s)) \<and>
   (kind (token s) = tok_eof \<longrightarrow> ConsumeToken s = s)"
proof -
  have "run_calls cs (BailOut code msg loc s) = BailOut code msg loc s" if "error s = None" for cs
    by (rule run_calls_after_error) (simp_all add: BailOut_def that)
  then show ?thesis by (simp add: BailOut_def ConsumeToken_def)
qed

theorem first_error_wins_witness:
  "error (BailOut kNotImplemented InvalidUseOfThis 0
            (ConsumeToken (new_Parser (context_with Map.empty Map.empty) tokens_1_shl)))
     = Some (kNotImplemented, InvalidUseOfThis, 0) \<and>
   kind (token (BailOut kNotImplemented InvalidUseOfThis 0
            (ConsumeToken (new_Parser (context_with Map.empty Map.empty) tokens_1_shl))))
     = tok_eof \<and>
   run_calls [CallConsumeToken, CallBailOut kUnknown ReferenceToReference 2, CallConsumeToken]
     (BailOut kNotImplemented InvalidUseOfThis 0
        (ConsumeToken (new_Parser (context_with Map.empty Map.empty) tokens_1_shl)))
     = BailOut kNotImplemented InvalidUseOfThis 0
        (ConsumeToken (new_Parser (context_with Map.empty Map.empty) tokens_1_shl)) \<and>
   BailOut kUnknown ReferenceToReference 2
     (BailOut kNotImplemented InvalidUseOfThis 0
        (ConsumeToken (new_Parser (context_with Map.empty Map.empty) tokens_1_shl)))
     = BailOut kNotImplemented InvalidUseOfThis 0
        (ConsumeToken (new_Parser (context_with Map.empty Map.empty) tokens_1_shl)) \<and>
   ConsumeToken (BailOut kNotImplemented InvalidUseOfThis 0
        (ConsumeToken (new_Parser (context_with Map.empty Map.empty) tokens_1_shl)))
     = BailOut kNotImplemented InvalidUseOfThis 0
        (ConsumeToken (new_Parser (context_with Map.empty Map.empty) tokens_1_shl))"
proof -
  have n: "error (ConsumeToken (new_Parser (context_with Map.empty Map.empty) tokens_1_shl)) = None"
    by (simp add: new_Parser_def)
  have e: "error (BailOut kNotImplemented InvalidUseOfThis 0
             (ConsumeToken (new_Parser (context_with Map.empty Map.empty) tokens_1_shl))) \<noteq> None"
    by simp
  from first_error_wins
      [of "ConsumeToken (new_Parser (context_with Map.empty Map.empty) tokens_1_shl)"
          kNotImplemented InvalidUseOfThis 0]
    first_error_wins
      [of "BailOut kNotImplemented InvalidUseOfThis 0
             (ConsumeToken (new_Parser (context_with Map.empty Map.empty) tokens_1_shl))"
          kUnknown ReferenceToReference 2]
    n e
  show ?thesis by (simp del: error_BailOut error_BailOut_ex)
qed

end
